(* ===== verification/Fuzzy_Prelude.thy ===== *)
theory Fuzzy_Prelude
  imports Complex_Main
begin

text \<open>
  Shared vocabulary of the development: the error values of the engine, results as
  sums with their bind, the unit interval of membership degrees, and the facts about
  weighted sums over lists that the defuzzifier's bounds rest on.  Numbers are exact
  reals: Python's binary floating point is abstracted to the rationals it approximates.
\<close>

section \<open>Collections of facts\<close>

named_theorems fuzzy_defs \<open>definitions of the engine that ground evaluation unfolds\<close>
named_theorems unit_intros \<open>closure of the unit interval under the fuzzy connectives\<close>

section \<open>Errors and results\<close>

datatype error =
    InvalidShape
  | DuplicateTerm
  | UnknownTerm
  | OutOfUniverse
  | MissingInput
  | UnknownVariable
  | NoApplicableRule
  | DegenerateAggregate

type_synonym 'a result = "error + 'a"

definition rbind :: "'e + 'a \<Rightarrow> ('a \<Rightarrow> 'e + 'b) \<Rightarrow> 'e + 'b" where
  "rbind r f = (case r of Inl e \<Rightarrow> Inl e | Inr x \<Rightarrow> f x)"

definition is_ok :: "'e + 'a \<Rightarrow> bool" where
  "is_ok r = (case r of Inl e \<Rightarrow> False | Inr x \<Rightarrow> True)"

definition holds :: "'e + 'a \<Rightarrow> ('a \<Rightarrow> bool) \<Rightarrow> bool" where
  "holds r P = (case r of Inl e \<Rightarrow> False | Inr x \<Rightarrow> P x)"

lemma holds_simps [simp]: "holds (Inr x) P = P x" "holds (Inl e) P = False"
  by (simp_all add: holds_def)

lemma holds_iff: "holds r P \<longleftrightarrow> (\<exists>x. r = Inr x \<and> P x)"
  by (cases r) simp_all

lemma rbind_Inl [simp]: "rbind (Inl e) f = Inl e"
  by (simp add: rbind_def)

lemma rbind_Inr [simp]: "rbind (Inr x) f = f x"
  by (simp add: rbind_def)

lemma rbind_eq_Inr_iff: "rbind r f = Inr y \<longleftrightarrow> (\<exists>x. r = Inr x \<and> f x = Inr y)"
  by (cases r) simp_all

lemma rbind_eq_Inl_iff:
  "rbind r f = Inl e \<longleftrightarrow> r = Inl e \<or> (\<exists>x. r = Inr x \<and> f x = Inl e)"
  by (cases r) simp_all

lemma rbind_assoc: "rbind (rbind r f) g = rbind r (\<lambda>x. rbind (f x) g)"
  by (cases r) simp_all

lemma is_ok_simps [simp]: "is_ok (Inr x)" "\<not> is_ok (Inl e)"
  by (simp_all add: is_ok_def)

lemma is_ok_iff: "is_ok r \<longleftrightarrow> (\<exists>x. r = Inr x)"
  by (cases r) simp_all

section \<open>The unit interval\<close>

definition in_unit :: "real \<Rightarrow> bool" where
  "in_unit d \<longleftrightarrow> 0 \<le> d \<and> d \<le> 1"

lemma in_unit_0 [unit_intros, simp]: "in_unit 0"
  and in_unit_1 [unit_intros, simp]: "in_unit 1"
  by (simp_all add: in_unit_def)

lemma in_unit_min [unit_intros]: "in_unit a \<Longrightarrow> in_unit b \<Longrightarrow> in_unit (min a b)"
  by (auto simp: in_unit_def min_def)

lemma in_unit_max [unit_intros]: "in_unit a \<Longrightarrow> in_unit b \<Longrightarrow> in_unit (max a b)"
  by (auto simp: in_unit_def max_def)

lemma in_unit_compl [unit_intros]: "in_unit a \<Longrightarrow> in_unit (1 - a)"
  by (auto simp: in_unit_def)

lemma in_unit_ratio: "0 \<le> p \<Longrightarrow> p \<le> q \<Longrightarrow> 0 < q \<Longrightarrow> in_unit (p / q)"
  by (simp add: in_unit_def)

lemma in_unitD: "in_unit d \<Longrightarrow> 0 \<le> d" "in_unit d \<Longrightarrow> d \<le> 1"
  by (simp_all add: in_unit_def)

lemma min_eq_0_iff: "0 \<le> a \<Longrightarrow> 0 \<le> b \<Longrightarrow> min a b = 0 \<longleftrightarrow> a = 0 \<or> b = (0::real)"
  by (auto simp: min_def)

lemma max_eq_0_iff: "0 \<le> a \<Longrightarrow> 0 \<le> b \<Longrightarrow> max a b = 0 \<longleftrightarrow> a = 0 \<and> b = (0::real)"
  by (auto simp: max_def)

section \<open>Maximum of a list of degrees\<close>

definition max_list :: "real list \<Rightarrow> real" where
  "max_list ds = fold max ds 0"

lemma fold_max_ge_acc: "(a::real) \<le> fold max ds a"
  by (induction ds arbitrary: a) (auto intro: order_trans [OF max.cobounded2])

lemma fold_max_ge_elem: "d \<in> set ds \<Longrightarrow> (d::real) \<le> fold max ds a"
proof (induction ds arbitrary: a)
  case Nil
  then show ?case by simp
next
  case (Cons x ds)
  show ?case
  proof (cases "d = x")
    case True
    have "x \<le> max x a" by simp
    also have "\<dots> \<le> fold max ds (max x a)" by (rule fold_max_ge_acc)
    finally show ?thesis using True by simp
  next
    case False
    with Cons.prems have "d \<in> set ds" by simp
    then show ?thesis by (simp add: Cons.IH)
  qed
qed

lemma fold_max_cases: "fold max ds (a::real) = a \<or> fold max ds a \<in> set ds"
proof (induction ds arbitrary: a)
  case Nil
  then show ?case by simp
next
  case (Cons x ds)
  from Cons.IH [of "max x a"] show ?case
    by (auto simp: max_def split: if_splits)
qed

lemma max_list_Nil [simp]: "max_list [] = 0"
  by (simp add: max_list_def)

lemma fold_max_pull: "fold max ds (max a b) = max (a::real) (fold max ds b)"
proof (induction ds arbitrary: b)
  case Nil
  show ?case by simp
next
  case (Cons x ds)
  have "fold max (x # ds) (max a b) = fold max ds (max a (max x b))"
    by (simp add: max.left_commute)
  then show ?case by (simp add: Cons.IH)
qed

lemma max_list_Cons: "max_list (d # ds) = max d (max_list ds)"
  using fold_max_pull [of ds d 0] by (simp add: max_list_def)

lemma max_list_ge: "d \<in> set ds \<Longrightarrow> d \<le> max_list ds"
  by (simp add: max_list_def fold_max_ge_elem)

lemma max_list_nonneg: "0 \<le> max_list ds"
  by (simp add: max_list_def fold_max_ge_acc)

lemma max_list_in_unit: "\<forall>d\<in>set ds. in_unit d \<Longrightarrow> in_unit (max_list ds)"
  using fold_max_cases [of ds 0] by (auto simp: max_list_def)

lemma max_list_eq_0_iff:
  "\<forall>d\<in>set ds. 0 \<le> d \<Longrightarrow> max_list ds = 0 \<longleftrightarrow> (\<forall>d\<in>set ds. d = 0)"
proof
  assume nonneg: "\<forall>d\<in>set ds. 0 \<le> d" and zero: "max_list ds = 0"
  show "\<forall>d\<in>set ds. d = 0"
  proof
    fix d assume "d \<in> set ds"
    with nonneg zero max_list_ge [of d ds] show "d = 0" by force
  qed
next
  assume "\<forall>d\<in>set ds. d = 0"
  with fold_max_cases [of ds 0] show "max_list ds = 0"
    by (auto simp: max_list_def)
qed

lemma max_list_le: "0 \<le> b \<Longrightarrow> \<forall>d\<in>set ds. d \<le> b \<Longrightarrow> max_list ds \<le> b"
  using fold_max_cases [of ds 0] by (auto simp: max_list_def)

section \<open>Weighted sums over a list of sample points\<close>

lemma sum_list_nonneg_weights: "\<forall>x\<in>set xs. 0 \<le> w x \<Longrightarrow> 0 \<le> (\<Sum>x\<leftarrow>xs. (w x :: real))"
  by (induction xs) auto

lemma sum_list_pos_weight:
  assumes "\<forall>x\<in>set xs. 0 \<le> w x" and "x \<in> set xs" and "0 < w x"
  shows "0 < (\<Sum>x\<leftarrow>xs. (w x :: real))"
  using assms
proof (induction xs)
  case Nil
  then show ?case by simp
next
  case (Cons y ys)
  have rest: "0 \<le> (\<Sum>x\<leftarrow>ys. w x)"
    using Cons.prems(1) by (simp add: sum_list_nonneg_weights)
  show ?case
  proof (cases "x = y")
    case True
    with Cons.prems(3) rest show ?thesis by simp
  next
    case False
    with Cons.prems have "0 < (\<Sum>x\<leftarrow>ys. w x)" by (intro Cons.IH) auto
    moreover have "0 \<le> w y" using Cons.prems(1) by simp
    ultimately show ?thesis by simp
  qed
qed

lemma sum_list_zero_weights:
  "\<forall>x\<in>set xs. 0 \<le> w x \<Longrightarrow> (\<Sum>x\<leftarrow>xs. (w x :: real)) = 0 \<longleftrightarrow> (\<forall>x\<in>set xs. w x = 0)"
proof (induction xs)
  case Nil
  then show ?case by simp
next
  case (Cons y ys)
  have "0 \<le> w y" and "0 \<le> (\<Sum>x\<leftarrow>ys. w x)"
    using Cons.prems by (simp_all add: sum_list_nonneg_weights)
  then have "w y + (\<Sum>x\<leftarrow>ys. w x) = 0 \<longleftrightarrow> w y = 0 \<and> (\<Sum>x\<leftarrow>ys. w x) = 0"
    by linarith
  with Cons show ?case by simp
qed

lemma weighted_sum_lower:
  "\<forall>x\<in>set xs. lo \<le> x \<and> 0 \<le> w x \<Longrightarrow> lo * (\<Sum>x\<leftarrow>xs. w x) \<le> (\<Sum>x\<leftarrow>xs. x * (w x :: real))"
proof (induction xs)
  case Nil
  then show ?case by simp
next
  case (Cons y ys)
  then have "lo * w y \<le> y * w y" by (simp add: mult_right_mono)
  with Cons show ?case by (simp add: distrib_left)
qed

lemma weighted_sum_upper:
  "\<forall>x\<in>set xs. x \<le> hi \<and> 0 \<le> w x \<Longrightarrow> (\<Sum>x\<leftarrow>xs. x * (w x :: real)) \<le> hi * (\<Sum>x\<leftarrow>xs. w x)"
proof (induction xs)
  case Nil
  then show ?case by simp
next
  case (Cons y ys)
  then have "y * w y \<le> hi * w y" by (simp add: mult_right_mono)
  with Cons show ?case by (simp add: distrib_left)
qed

lemma weighted_mean_bounds:
  assumes "\<forall>x\<in>set xs. lo \<le> x \<and> x \<le> hi \<and> 0 \<le> w x" and "0 < (\<Sum>x\<leftarrow>xs. (w x :: real))"
  shows "lo \<le> (\<Sum>x\<leftarrow>xs. x * w x) / (\<Sum>x\<leftarrow>xs. w x)"
    and "(\<Sum>x\<leftarrow>xs. x * w x) / (\<Sum>x\<leftarrow>xs. w x) \<le> hi"
  using assms weighted_sum_lower [of xs lo w] weighted_sum_upper [of xs hi w]
  by (simp_all add: pos_le_divide_eq pos_divide_le_eq)

section \<open>Association lists\<close>

lemma map_of_append_fresh:
  "k \<notin> fst ` set kvs \<Longrightarrow> map_of (kvs @ [(k, v)]) k' = (if k' = k then Some v else map_of kvs k')"
  by (induction kvs) (auto simp: map_of_eq_None_iff [symmetric])

lemma map_of_in_set: "map_of kvs k = Some v \<Longrightarrow> (k, v) \<in> set kvs"
  by (rule map_of_SomeD)

end
