(* ===== verification/Universe.thy ===== *)
theory Universe
  imports Fuzzy_Prelude
begin

text \<open>
  The discretised universe of a linguistic variable: a bounded range with a fixed step,
  its sample points, and the integer range constructor the program builds it with
  (\<^verbatim>\<open>np.arange(0, 101, 1)\<close>).  The lemmas give the number of samples, their bounds
  and order, and the closed form of the samples of a unit-step range.
\<close>

section \<open>Universe and samples\<close>

record universe =
  umin :: real
  umax :: real
  ustep :: real

definition wf_universe :: "universe \<Rightarrow> bool" where
  "wf_universe u \<longleftrightarrow> umin u < umax u \<and> 0 < ustep u"

definition sample_count :: "universe \<Rightarrow> nat" where
  "sample_count u = nat \<lfloor>(umax u - umin u) / ustep u\<rfloor> + 1"

definition samples :: "universe \<Rightarrow> real list" where
  "samples u = map (\<lambda>i. umin u + real i * ustep u) [0..<sample_count u]"

definition arange :: "int \<Rightarrow> int \<Rightarrow> int \<Rightarrow> universe" where
  "arange start stop step =
     \<lparr>umin = of_int start,
      umax = of_int (start + ((stop - start - 1) div step) * step),
      ustep = of_int step\<rparr>"

section \<open>Samples of a well-formed universe\<close>

lemma length_samples [simp]: "length (samples u) = sample_count u"
  by (simp add: samples_def)

lemma sample_count_pos [simp]: "0 < sample_count u"
  by (simp add: sample_count_def)

lemma samples_nonempty [simp]: "samples u \<noteq> []"
  using length_samples [of u] sample_count_pos [of u] by (metis length_0_conv less_numeral_extra(3))

lemma nth_samples: "i < sample_count u \<Longrightarrow> samples u ! i = umin u + real i * ustep u"
  by (simp add: samples_def)

lemma samples_set: "set (samples u) = (\<lambda>i. umin u + real i * ustep u) ` {..<sample_count u}"
  by (auto simp: samples_def)

lemma umin_in_samples: "umin u \<in> set (samples u)"
  unfolding samples_set by (rule image_eqI [where x = 0]) simp_all

lemma hd_samples: "hd (samples u) = umin u"
  using nth_samples [of 0 u] by (simp add: hd_conv_nth)

lemma sample_index_le:
  assumes "wf_universe u" and "i < sample_count u"
  shows "real i * ustep u \<le> umax u - umin u"
proof -
  let ?q = "(umax u - umin u) / ustep u"
  from assms(1) have step: "0 < ustep u" and "0 \<le> ?q"
    by (simp_all add: wf_universe_def)
  then have "0 \<le> \<lfloor>?q\<rfloor>" by simp
  moreover from assms(2) have "i \<le> nat \<lfloor>?q\<rfloor>" by (simp add: sample_count_def)
  ultimately have "int i \<le> \<lfloor>?q\<rfloor>" by linarith
  then have "real i \<le> ?q" by (simp add: le_floor_iff)
  with step show ?thesis by (simp add: pos_le_divide_eq)
qed

lemma samples_in_bounds:
  assumes "wf_universe u" and "x \<in> set (samples u)"
  shows "umin u \<le> x" and "x \<le> umax u"
proof -
  from assms(2) obtain i where i: "i < sample_count u" and x: "x = umin u + real i * ustep u"
    by (auto simp: samples_set)
  from assms(1) have "0 \<le> real i * ustep u" by (simp add: wf_universe_def)
  with x show "umin u \<le> x" by simp
  from sample_index_le [OF assms(1) i] x show "x \<le> umax u" by simp
qed

lemma samples_strict_mono:
  assumes "wf_universe u" and "i < j" and "j < sample_count u"
  shows "samples u ! i < samples u ! j"
  using assms by (simp add: nth_samples wf_universe_def)

lemma distinct_samples: "wf_universe u \<Longrightarrow> distinct (samples u)"
  by (auto simp: samples_def distinct_map wf_universe_def intro!: inj_onI)

lemma sorted_samples: "wf_universe u \<Longrightarrow> sorted (samples u)"
  by (auto simp: sorted_iff_nth_mono nth_samples wf_universe_def intro!: mult_right_mono)

section \<open>Integer ranges\<close>

lemma arange_unit_step:
  "lo < hi \<Longrightarrow> arange lo hi 1 = \<lparr>umin = of_int lo, umax = of_int (hi - 1), ustep = 1\<rparr>"
  by (simp add: arange_def)

lemma wf_arange_unit: "lo + 1 < hi \<Longrightarrow> wf_universe (arange lo hi 1)"
  by (simp add: arange_def wf_universe_def)

lemma sample_count_arange_unit: "lo < hi \<Longrightarrow> sample_count (arange lo hi 1) = nat (hi - lo)"
proof -
  assume lt: "lo < hi"
  have "real_of_int (hi - 1) - real_of_int lo = real_of_int (hi - 1 - lo)" by simp
  then have "\<lfloor>(real_of_int (hi - 1) - real_of_int lo) / 1\<rfloor> = hi - 1 - lo"
    by (simp only: div_by_1 floor_of_int)
  with lt show ?thesis by (simp add: sample_count_def arange_def)
qed

lemma samples_arange_unit:
  "lo < hi \<Longrightarrow> samples (arange lo hi 1) = map (\<lambda>i. of_int lo + real i) [0..<nat (hi - lo)]"
  by (simp add: samples_def sample_count_arange_unit) (simp add: arange_def)

lemma samples_arange_0: "0 < hi \<Longrightarrow> samples (arange 0 hi 1) = map real [0..<nat hi]"
  by (simp add: samples_arange_unit)

end
