(* ===== verification/Membership.thy ===== *)
theory Membership
  imports Universe
begin

text \<open>
  Triangular membership functions: the three breakpoints \<open>a \<le> b \<le> c\<close>, the checked
  constructor (\<^verbatim>\<open>fuzz.trimf(universe, [a, b, c])\<close>) and the degree of a crisp value.
  The lemmas show that a degree lies in the unit interval, is 1 at the apex and 0
  outside the support, is linear and monotone on each flank, and is continuous there.
\<close>

section \<open>Shape, construction, degree\<close>

record mf =
  mf_a :: real
  mf_b :: real
  mf_c :: real

definition wf_mf :: "mf \<Rightarrow> bool" where
  "wf_mf m \<longleftrightarrow> mf_a m \<le> mf_b m \<and> mf_b m \<le> mf_c m"

definition mf_within :: "universe \<Rightarrow> mf \<Rightarrow> bool" where
  "mf_within u m \<longleftrightarrow> umin u \<le> mf_a m \<and> mf_c m \<le> umax u"

definition trimf :: "universe \<Rightarrow> real list \<Rightarrow> mf result" where
  "trimf u abc =
     (case abc of
        [a, b, c] \<Rightarrow>
          if a \<le> b \<and> b \<le> c \<and> umin u \<le> a \<and> c \<le> umax u
          then Inr \<lparr>mf_a = a, mf_b = b, mf_c = c\<rparr>
          else Inl InvalidShape
      | _ \<Rightarrow> Inl InvalidShape)"

definition degree :: "mf \<Rightarrow> real \<Rightarrow> real" where
  "degree m x =
     (if x = mf_b m then 1
      else if mf_a m < x \<and> x < mf_b m then (x - mf_a m) / (mf_b m - mf_a m)
      else if mf_b m < x \<and> x < mf_c m then (mf_c m - x) / (mf_c m - mf_b m)
      else 0)"

section \<open>Construction\<close>

lemma trimf_Inr_iff:
  "trimf u abc = Inr m \<longleftrightarrow>
     abc = [mf_a m, mf_b m, mf_c m] \<and> wf_mf m \<and> mf_within u m"
  by (cases m) (auto simp: trimf_def wf_mf_def mf_within_def split: list.splits)

lemma trimf_ok:
  "a \<le> b \<Longrightarrow> b \<le> c \<Longrightarrow> umin u \<le> a \<Longrightarrow> c \<le> umax u \<Longrightarrow>
     trimf u [a, b, c] = Inr \<lparr>mf_a = a, mf_b = b, mf_c = c\<rparr>"
  by (simp add: trimf_def)

lemma trimf_error: "trimf u abc = Inl e \<Longrightarrow> e = InvalidShape"
  by (auto simp: trimf_def split: list.splits if_splits)

lemma trimf_unordered: "b < a \<or> c < b \<Longrightarrow> trimf u [a, b, c] = Inl InvalidShape"
  by (auto simp: trimf_def)

lemma trimf_outside: "a < umin u \<or> umax u < c \<Longrightarrow> trimf u [a, b, c] = Inl InvalidShape"
  by (auto simp: trimf_def)

lemma trimf_wrong_arity: "length abc \<noteq> 3 \<Longrightarrow> trimf u abc = Inl InvalidShape"
  by (auto simp: trimf_def split: list.splits)

section \<open>Degrees\<close>

lemma degree_in_unit [unit_intros, simp]: "in_unit (degree m x)"
  by (auto simp: degree_def in_unit_def)

lemma degree_nonneg [simp]: "0 \<le> degree m x"
  and degree_le_1 [simp]: "degree m x \<le> 1"
  using degree_in_unit [of m x] by (simp_all add: in_unit_def)

lemma degree_apex [simp]: "degree m (mf_b m) = 1"
  by (simp add: degree_def)

lemma degree_rising:
  "mf_a m < x \<Longrightarrow> x < mf_b m \<Longrightarrow> degree m x = (x - mf_a m) / (mf_b m - mf_a m)"
  by (simp add: degree_def)

lemma degree_falling:
  "mf_b m < x \<Longrightarrow> x < mf_c m \<Longrightarrow> degree m x = (mf_c m - x) / (mf_c m - mf_b m)"
  by (simp add: degree_def)

lemma degree_outside: "wf_mf m \<Longrightarrow> x < mf_a m \<or> mf_c m < x \<Longrightarrow> degree m x = 0"
  by (auto simp: degree_def wf_mf_def)

lemma degree_pos_iff:
  "wf_mf m \<Longrightarrow> 0 < degree m x \<longleftrightarrow> x = mf_b m \<or> (mf_a m < x \<and> x < mf_c m)"
  by (auto simp: degree_def wf_mf_def)

lemma degree_eq_0_iff:
  "wf_mf m \<Longrightarrow> degree m x = 0 \<longleftrightarrow> x \<noteq> mf_b m \<and> (x \<le> mf_a m \<or> mf_c m \<le> x)"
  using degree_pos_iff [of m x] degree_nonneg [of m x] by (auto simp: less_le)

lemma degree_eq_1_iff: "wf_mf m \<Longrightarrow> degree m x = 1 \<longleftrightarrow> x = mf_b m"
  by (auto simp: degree_def wf_mf_def)

lemma degree_mono_rising:
  assumes "wf_mf m" and "x \<le> y" and "y \<le> mf_b m"
  shows "degree m x \<le> degree m y"
proof (cases "y = mf_b m")
  case True
  then show ?thesis by simp
next
  case False
  with assms have y: "y < mf_b m" and x: "x < mf_b m" by simp_all
  show ?thesis
  proof (cases "mf_a m < x")
    case True
    with assms x y show ?thesis by (simp add: degree_rising divide_right_mono)
  next
    case False
    with assms x have "degree m x = 0" by (simp add: degree_eq_0_iff)
    then show ?thesis by simp
  qed
qed

lemma degree_antimono_falling:
  assumes "wf_mf m" and "mf_b m \<le> x" and "x \<le> y"
  shows "degree m y \<le> degree m x"
proof (cases "x = mf_b m")
  case True
  then show ?thesis by simp
next
  case False
  with assms have x: "mf_b m < x" and y: "mf_b m < y" by simp_all
  show ?thesis
  proof (cases "y < mf_c m")
    case True
    with assms x y show ?thesis by (simp add: degree_falling divide_right_mono)
  next
    case False
    with assms y have "degree m y = 0" by (simp add: degree_eq_0_iff)
    then show ?thesis by simp
  qed
qed

section \<open>Continuity on the flanks\<close>

lemma degree_rising_closed:
  assumes "mf_a m < mf_b m" and "mf_a m \<le> x" and "x \<le> mf_b m"
  shows "degree m x = (x - mf_a m) / (mf_b m - mf_a m)"
  using assms by (auto simp: degree_def)

lemma degree_falling_closed:
  assumes "wf_mf m" and "mf_b m < mf_c m" and "mf_b m \<le> x" and "x \<le> mf_c m"
  shows "degree m x = (mf_c m - x) / (mf_c m - mf_b m)"
  using assms by (auto simp: degree_def wf_mf_def)

lemma degree_continuous_rising:
  assumes "mf_a m < mf_b m"
  shows "continuous_on {mf_a m..mf_b m} (degree m)"
proof -
  have "continuous_on {mf_a m..mf_b m} (\<lambda>x. (x - mf_a m) / (mf_b m - mf_a m))"
    by (intro continuous_intros) (use assms in simp)
  moreover have "continuous_on {mf_a m..mf_b m} (degree m) \<longleftrightarrow>
      continuous_on {mf_a m..mf_b m} (\<lambda>x. (x - mf_a m) / (mf_b m - mf_a m))"
    by (rule continuous_on_cong) (simp_all add: degree_rising_closed [OF assms])
  ultimately show ?thesis by simp
qed

lemma degree_continuous_falling:
  assumes "wf_mf m" and "mf_b m < mf_c m"
  shows "continuous_on {mf_b m..mf_c m} (degree m)"
proof -
  have "continuous_on {mf_b m..mf_c m} (\<lambda>x. (mf_c m - x) / (mf_c m - mf_b m))"
    by (intro continuous_intros) (use assms in simp)
  moreover have "continuous_on {mf_b m..mf_c m} (degree m) \<longleftrightarrow>
      continuous_on {mf_b m..mf_c m} (\<lambda>x. (mf_c m - x) / (mf_c m - mf_b m))"
    by (rule continuous_on_cong) (simp_all add: degree_falling_closed [OF assms])
  ultimately show ?thesis by simp
qed

lemma degree_continuous_flanks:
  assumes "wf_mf m"
  shows "continuous_on {mf_a m..mf_b m} (degree m)" and "continuous_on {mf_b m..mf_c m} (degree m)"
proof -
  show "continuous_on {mf_a m..mf_b m} (degree m)"
  proof (cases "mf_a m < mf_b m")
    case True
    then show ?thesis by (rule degree_continuous_rising)
  next
    case False
    with assms have "{mf_a m..mf_b m} = {mf_b m}" by (auto simp: wf_mf_def)
    then show ?thesis by (metis continuous_on_sing)
  qed
  show "continuous_on {mf_b m..mf_c m} (degree m)"
  proof (cases "mf_b m < mf_c m")
    case True
    with assms show ?thesis by (rule degree_continuous_falling)
  next
    case False
    with assms have "{mf_b m..mf_c m} = {mf_b m}" by (auto simp: wf_mf_def)
    then show ?thesis by (metis continuous_on_sing)
  qed
qed

end
