(* ===== verification/Variable.thy ===== *)
theory Variable
  imports Membership
begin

text \<open>
  Linguistic variables: a label, a role, a universe and a table of named terms kept in
  insertion order.  \<open>Antecedent\<close> and \<open>Consequent\<close> create a variable without terms,
  \<open>set_term\<close> is the assignment \<^verbatim>\<open>v[name] = fuzz.trimf(v.universe, abc)\<close>, and
  \<open>termDegree\<close> evaluates a term by name.  The lemmas show that every operation keeps
  the table well formed, that a term just added is the one looked up, and which error
  each failing operation reports.
\<close>

section \<open>Variables and their operations\<close>

datatype role = AntecedentRole | ConsequentRole

record variable =
  v_label :: string
  v_role :: role
  v_universe :: universe
  v_terms :: "(string \<times> mf) list"

definition Antecedent :: "universe \<Rightarrow> string \<Rightarrow> variable" where
  "Antecedent u l = \<lparr>v_label = l, v_role = AntecedentRole, v_universe = u, v_terms = []\<rparr>"

definition Consequent :: "universe \<Rightarrow> string \<Rightarrow> variable" where
  "Consequent u l = \<lparr>v_label = l, v_role = ConsequentRole, v_universe = u, v_terms = []\<rparr>"

definition addTerm :: "string \<Rightarrow> mf \<Rightarrow> variable \<Rightarrow> variable result" where
  "addTerm n m v =
     (if n \<in> fst ` set (v_terms v) then Inl DuplicateTerm
      else if \<not> mf_within (v_universe v) m then Inl OutOfUniverse
      else Inr (v\<lparr>v_terms := v_terms v @ [(n, m)]\<rparr>))"

definition set_term :: "string \<Rightarrow> real list \<Rightarrow> variable \<Rightarrow> variable result" where
  "set_term n abc v = rbind (trimf (v_universe v) abc) (\<lambda>m. addTerm n m v)"

definition term_of :: "variable \<Rightarrow> string \<Rightarrow> mf result" where
  "term_of v n = (case map_of (v_terms v) n of None \<Rightarrow> Inl UnknownTerm | Some m \<Rightarrow> Inr m)"

definition termDegree :: "variable \<Rightarrow> string \<Rightarrow> real \<Rightarrow> real result" where
  "termDegree v n x = rbind (term_of v n) (\<lambda>m. Inr (degree m x))"

definition fuzzify :: "variable \<Rightarrow> real \<Rightarrow> (string \<times> real) list" where
  "fuzzify v x = map (\<lambda>(n, m). (n, degree m x)) (v_terms v)"

definition sample_term :: "variable \<Rightarrow> string \<Rightarrow> real list result" where
  "sample_term v n = rbind (term_of v n) (\<lambda>m. Inr (map (degree m) (samples (v_universe v))))"

definition wf_variable :: "variable \<Rightarrow> bool" where
  "wf_variable v \<longleftrightarrow>
     wf_universe (v_universe v) \<and> distinct (map fst (v_terms v)) \<and>
     (\<forall>(n, m)\<in>set (v_terms v). wf_mf m \<and> mf_within (v_universe v) m)"

section \<open>Well-formedness is kept\<close>

lemma wf_Antecedent [simp]: "wf_variable (Antecedent u l) \<longleftrightarrow> wf_universe u"
  and wf_Consequent [simp]: "wf_variable (Consequent u l) \<longleftrightarrow> wf_universe u"
  by (simp_all add: wf_variable_def Antecedent_def Consequent_def)

lemma addTerm_Inr_iff:
  "addTerm n m v = Inr v' \<longleftrightarrow>
     n \<notin> fst ` set (v_terms v) \<and> mf_within (v_universe v) m \<and> v' = v\<lparr>v_terms := v_terms v @ [(n, m)]\<rparr>"
  by (auto simp: addTerm_def)

lemma addTerm_wf:
  assumes "wf_variable v" and "wf_mf m" and "addTerm n m v = Inr v'"
  shows "wf_variable v'"
  using assms by (auto simp: addTerm_Inr_iff wf_variable_def)

lemma set_term_Inr_iff:
  "set_term n abc v = Inr v' \<longleftrightarrow> (\<exists>m. trimf (v_universe v) abc = Inr m \<and> addTerm n m v = Inr v')"
  by (simp add: set_term_def rbind_eq_Inr_iff)

lemma set_term_wf:
  assumes "wf_variable v" and "set_term n abc v = Inr v'"
  shows "wf_variable v'"
  using assms by (auto simp: set_term_Inr_iff trimf_Inr_iff intro: addTerm_wf)

lemma addTerm_frame:
  assumes "addTerm n m v = Inr v'"
  shows "v_label v' = v_label v" and "v_role v' = v_role v" and "v_universe v' = v_universe v"
  using assms by (auto simp: addTerm_Inr_iff)

lemma set_term_frame:
  assumes "set_term n abc v = Inr v'"
  shows "v_label v' = v_label v" and "v_role v' = v_role v" and "v_universe v' = v_universe v"
  using assms by (auto simp: set_term_Inr_iff addTerm_Inr_iff)

section \<open>Errors of the setup operations\<close>

lemma addTerm_duplicate: "n \<in> fst ` set (v_terms v) \<Longrightarrow> addTerm n m v = Inl DuplicateTerm"
  by (simp add: addTerm_def)

lemma addTerm_outside:
  "n \<notin> fst ` set (v_terms v) \<Longrightarrow> \<not> mf_within (v_universe v) m \<Longrightarrow> addTerm n m v = Inl OutOfUniverse"
  by (simp add: addTerm_def)

lemma addTerm_twice:
  assumes "addTerm n m v = Inr v'"
  shows "addTerm n m' v' = Inl DuplicateTerm"
proof -
  from assms have "n \<in> fst ` set (v_terms v')" by (auto simp: addTerm_Inr_iff)
  then show ?thesis by (rule addTerm_duplicate)
qed

lemma set_term_error:
  "set_term n abc v = Inl e \<Longrightarrow> e = InvalidShape \<or> e = DuplicateTerm"
  by (auto simp: set_term_def rbind_eq_Inl_iff trimf_Inr_iff addTerm_def
      dest: trimf_error split: if_splits)

section \<open>Looking a term up\<close>

lemma term_of_Inr_iff: "term_of v n = Inr m \<longleftrightarrow> map_of (v_terms v) n = Some m"
  by (simp add: term_of_def split: option.splits)

lemma term_of_unknown: "n \<notin> fst ` set (v_terms v) \<Longrightarrow> term_of v n = Inl UnknownTerm"
  using map_of_eq_None_iff [of "v_terms v" n] by (simp add: term_of_def)

lemma term_of_error: "term_of v n = Inl e \<Longrightarrow> e = UnknownTerm"
  by (simp add: term_of_def split: option.splits)

lemma term_of_addTerm:
  assumes "addTerm n m v = Inr v'"
  shows "term_of v' n' = (if n' = n then Inr m else term_of v n')"
  using assms by (auto simp: addTerm_Inr_iff term_of_def map_of_append_fresh simp del: map_of_append)

lemma term_of_wf:
  assumes "wf_variable v" and "term_of v n = Inr m"
  shows "wf_mf m" and "mf_within (v_universe v) m"
  using assms by (auto simp: term_of_Inr_iff wf_variable_def dest!: map_of_SomeD)

lemma termDegree_Inr_iff: "termDegree v n x = Inr d \<longleftrightarrow> (\<exists>m. term_of v n = Inr m \<and> d = degree m x)"
  by (auto simp: termDegree_def rbind_eq_Inr_iff)

lemma termDegree_in_unit: "termDegree v n x = Inr d \<Longrightarrow> in_unit d"
  by (auto simp: termDegree_Inr_iff)

lemma termDegree_error: "termDegree v n x = Inl e \<Longrightarrow> e = UnknownTerm"
  by (auto simp: termDegree_def rbind_eq_Inl_iff dest: term_of_error)

lemma termDegree_addTerm:
  "addTerm n m v = Inr v' \<Longrightarrow> termDegree v' n x = Inr (degree m x)"
  by (simp add: termDegree_def term_of_addTerm)

lemma fuzzify_in_unit: "(n, d) \<in> set (fuzzify v x) \<Longrightarrow> in_unit d"
  by (auto simp: fuzzify_def)

lemma fuzzify_termDegree:
  "distinct (map fst (v_terms v)) \<Longrightarrow> (n, d) \<in> set (fuzzify v x) \<longleftrightarrow> termDegree v n x = Inr d"
  by (auto simp: fuzzify_def termDegree_Inr_iff term_of_Inr_iff dest: map_of_SomeD)

lemma sample_term_length:
  "sample_term v n = Inr ys \<Longrightarrow> length ys = sample_count (v_universe v)"
  by (auto simp: sample_term_def rbind_eq_Inr_iff)

end
