(* ===== verification/Rule.thy ===== *)
theory Rule
  imports Variable
begin

text \<open>
  Rules: an antecedent expression over \<open>(variable, term)\<close> references combined with
  AND (minimum), OR (maximum) and NOT (complement), and one consequent reference.
  \<open>evaluate\<close> computes the firing strength for an input assignment, failing when a
  referenced variable has no value, is not declared, or has no such term.  The lemmas
  show that a firing strength lies in the unit interval, say exactly when evaluation
  succeeds, and that it reads only the inputs the expression mentions.
\<close>

section \<open>Expressions and rules\<close>

datatype expr =
    Leaf string string
  | And expr expr
  | Or expr expr
  | Not_expr expr

record rule =
  antecedent :: expr
  consequent :: "string \<times> string"

definition Rule :: "expr \<Rightarrow> string \<times> string \<Rightarrow> rule" where
  "Rule a c = \<lparr>antecedent = a, consequent = c\<rparr>"

type_synonym inputs = "string \<rightharpoonup> real"

definition find_variable :: "variable list \<Rightarrow> string \<Rightarrow> variable result" where
  "find_variable vs l =
     (case find (\<lambda>v. v_label v = l) vs of None \<Rightarrow> Inl UnknownVariable | Some v \<Rightarrow> Inr v)"

fun evaluate :: "variable list \<Rightarrow> inputs \<Rightarrow> expr \<Rightarrow> real result" where
  "evaluate vs inp (Leaf l n) =
     (case inp l of
        None \<Rightarrow> Inl MissingInput
      | Some x \<Rightarrow> rbind (find_variable vs l) (\<lambda>v. termDegree v n x))"
| "evaluate vs inp (And p q) =
     rbind (evaluate vs inp p) (\<lambda>a. rbind (evaluate vs inp q) (\<lambda>b. Inr (min a b)))"
| "evaluate vs inp (Or p q) =
     rbind (evaluate vs inp p) (\<lambda>a. rbind (evaluate vs inp q) (\<lambda>b. Inr (max a b)))"
| "evaluate vs inp (Not_expr p) = rbind (evaluate vs inp p) (\<lambda>a. Inr (1 - a))"

fun leaves :: "expr \<Rightarrow> (string \<times> string) list" where
  "leaves (Leaf l n) = [(l, n)]"
| "leaves (And p q) = leaves p @ leaves q"
| "leaves (Or p q) = leaves p @ leaves q"
| "leaves (Not_expr p) = leaves p"

definition resolves :: "variable list \<Rightarrow> inputs \<Rightarrow> string \<times> string \<Rightarrow> bool" where
  "resolves vs inp lf \<longleftrightarrow>
     inp (fst lf) \<noteq> None \<and> is_ok (rbind (find_variable vs (fst lf)) (\<lambda>v. term_of v (snd lf)))"

section \<open>Finding a variable\<close>

lemma find_variable_Inr:
  "find_variable vs l = Inr v \<Longrightarrow> v \<in> set vs \<and> v_label v = l"
  by (auto simp: find_variable_def find_Some_iff split: option.splits)

lemma find_variable_error: "find_variable vs l = Inl e \<Longrightarrow> e = UnknownVariable"
  by (simp add: find_variable_def split: option.splits)

lemma find_variable_unknown:
  "l \<notin> v_label ` set vs \<Longrightarrow> find_variable vs l = Inl UnknownVariable"
  by (auto simp: find_variable_def find_None_iff split: option.splits)

lemma find_variable_Nil [simp]: "find_variable [] l = Inl UnknownVariable"
  by (simp add: find_variable_def)

lemma find_variable_Cons:
  "find_variable (v # vs) l = (if v_label v = l then Inr v else find_variable vs l)"
  by (simp add: find_variable_def)

section \<open>Firing strengths\<close>

lemma evaluate_in_unit: "evaluate vs inp e = Inr d \<Longrightarrow> in_unit d"
proof (induction e arbitrary: d)
  case (Leaf l n)
  then show ?case
    by (auto simp: rbind_eq_Inr_iff split: option.splits dest: termDegree_in_unit)
next
  case (And p q)
  then show ?case by (auto simp: rbind_eq_Inr_iff intro: unit_intros)
next
  case (Or p q)
  then show ?case by (auto simp: rbind_eq_Inr_iff intro: unit_intros)
next
  case (Not_expr p)
  then show ?case by (auto simp: rbind_eq_Inr_iff intro: unit_intros)
qed

lemma evaluate_And_Inr:
  "evaluate vs inp p = Inr a \<Longrightarrow> evaluate vs inp q = Inr b \<Longrightarrow>
     evaluate vs inp (And p q) = Inr (min a b)"
  by simp

lemma evaluate_And_le:
  assumes "evaluate vs inp (And p q) = Inr d"
  obtains a b where "evaluate vs inp p = Inr a" and "evaluate vs inp q = Inr b"
    and "d \<le> a" and "d \<le> b" and "d = a \<or> d = b"
  using assms by (auto simp: rbind_eq_Inr_iff min_def split: if_splits)

lemma evaluate_Leaf_Inr:
  "inp l = Some x \<Longrightarrow> find_variable vs l = Inr v \<Longrightarrow> term_of v n = Inr m \<Longrightarrow>
     evaluate vs inp (Leaf l n) = Inr (degree m x)"
  by (simp add: termDegree_def)

lemma evaluate_error:
  "evaluate vs inp e = Inl err \<Longrightarrow> err \<in> {MissingInput, UnknownVariable, UnknownTerm}"
proof (induction e)
  case (Leaf l n)
  then show ?case
    by (auto simp: rbind_eq_Inl_iff split: option.splits
        dest: find_variable_error termDegree_error)
qed (auto simp: rbind_eq_Inl_iff)

lemma evaluate_missing_input: "inp l = None \<Longrightarrow> evaluate vs inp (Leaf l n) = Inl MissingInput"
  by simp

section \<open>When evaluation succeeds\<close>

lemma is_ok_rbind: "is_ok (rbind r f) \<longleftrightarrow> (\<exists>x. r = Inr x \<and> is_ok (f x))"
  by (cases r) simp_all

lemma evaluate_ok_iff: "is_ok (evaluate vs inp e) \<longleftrightarrow> (\<forall>lf\<in>set (leaves e). resolves vs inp lf)"
proof (induction e)
  case (Leaf l n)
  show ?case
    by (cases "inp l"; cases "find_variable vs l")
       (auto simp: resolves_def termDegree_def is_ok_iff rbind_eq_Inr_iff)
next
  case (And p q)
  then show ?case by (cases "evaluate vs inp p"; cases "evaluate vs inp q") auto
next
  case (Or p q)
  then show ?case by (cases "evaluate vs inp p"; cases "evaluate vs inp q") auto
next
  case (Not_expr p)
  then show ?case by (cases "evaluate vs inp p") auto
qed

section \<open>Evaluation reads only the inputs it mentions\<close>

lemma evaluate_cong_inputs:
  "(\<forall>lf\<in>set (leaves e). inp (fst lf) = inp' (fst lf)) \<Longrightarrow> evaluate vs inp e = evaluate vs inp' e"
  by (induction e) auto

lemma evaluate_upd_other:
  "l \<notin> fst ` set (leaves e) \<Longrightarrow> evaluate vs (inp(l \<mapsto> x)) e = evaluate vs inp e"
  by (rule evaluate_cong_inputs) auto

section \<open>Algebra of the connectives\<close>

lemma evaluate_And_commute: "evaluate vs inp (And p q) = Inr d \<longleftrightarrow> evaluate vs inp (And q p) = Inr d"
  by (auto simp: rbind_eq_Inr_iff min.commute)

lemma evaluate_de_Morgan:
  "evaluate vs inp (Not_expr (And p q)) = evaluate vs inp (Or (Not_expr p) (Not_expr q))"
  by (cases "evaluate vs inp p"; cases "evaluate vs inp q") (auto simp: min_def max_def)

lemma evaluate_double_negation: "evaluate vs inp (Not_expr (Not_expr p)) = evaluate vs inp p"
  by (cases "evaluate vs inp p") auto

end
