(* ===== verification/Defuzz.thy ===== *)
theory Defuzz
  imports Universe
begin

text \<open>
  The defuzzifier: the discrete centroid of a membership curve over the sample points
  of a universe, with the zero denominator as an error value.  The lemmas show that the
  centroid of a non-negative curve lies within the universe, say exactly when it is
  degenerate, and that it does not change when the curve is scaled.
\<close>

section \<open>Centroid\<close>

definition curve_area :: "universe \<Rightarrow> (real \<Rightarrow> real) \<Rightarrow> real" where
  "curve_area u f = (\<Sum>x\<leftarrow>samples u. f x)"

definition curve_moment :: "universe \<Rightarrow> (real \<Rightarrow> real) \<Rightarrow> real" where
  "curve_moment u f = (\<Sum>x\<leftarrow>samples u. x * f x)"

definition centroid :: "universe \<Rightarrow> (real \<Rightarrow> real) \<Rightarrow> real result" where
  "centroid u f =
     (if curve_area u f = 0 then Inl DegenerateAggregate
      else Inr (curve_moment u f / curve_area u f))"

section \<open>Success and failure\<close>

lemma centroid_Inr_iff:
  "centroid u f = Inr y \<longleftrightarrow> curve_area u f \<noteq> 0 \<and> y = curve_moment u f / curve_area u f"
  by (auto simp: centroid_def)

lemma centroid_Inl_iff: "centroid u f = Inl e \<longleftrightarrow> curve_area u f = 0 \<and> e = DegenerateAggregate"
  by (auto simp: centroid_def)

lemma curve_area_nonneg: "\<forall>x. 0 \<le> f x \<Longrightarrow> 0 \<le> curve_area u f"
  by (simp add: curve_area_def sum_list_nonneg_weights)

lemma curve_area_eq_0_iff:
  "\<forall>x. 0 \<le> f x \<Longrightarrow> curve_area u f = 0 \<longleftrightarrow> (\<forall>x\<in>set (samples u). f x = 0)"
  unfolding curve_area_def by (rule sum_list_zero_weights) simp

lemma curve_area_pos:
  "\<forall>x. 0 \<le> f x \<Longrightarrow> x \<in> set (samples u) \<Longrightarrow> 0 < f x \<Longrightarrow> 0 < curve_area u f"
  unfolding curve_area_def by (rule sum_list_pos_weight [where x = x]) simp_all

lemma centroid_degenerate_iff:
  "\<forall>x. 0 \<le> f x \<Longrightarrow> centroid u f = Inl DegenerateAggregate \<longleftrightarrow> (\<forall>x\<in>set (samples u). f x = 0)"
  by (simp add: centroid_Inl_iff curve_area_eq_0_iff)

lemma centroid_ok: "\<forall>x. 0 \<le> f x \<Longrightarrow> x \<in> set (samples u) \<Longrightarrow> 0 < f x \<Longrightarrow> is_ok (centroid u f)"
  using curve_area_pos [of f x u] by (simp add: centroid_def)

section \<open>Bounds\<close>

lemma centroid_bounds:
  assumes "wf_universe u" and "\<forall>x. 0 \<le> f x" and "centroid u f = Inr y"
  shows "umin u \<le> y" and "y \<le> umax u"
proof -
  from assms(3) have y: "y = curve_moment u f / curve_area u f" and "curve_area u f \<noteq> 0"
    by (simp_all add: centroid_Inr_iff)
  with curve_area_nonneg [OF assms(2), of u] have pos: "0 < (\<Sum>x\<leftarrow>samples u. f x)"
    by (simp add: curve_area_def)
  have pts: "\<forall>x\<in>set (samples u). umin u \<le> x \<and> x \<le> umax u \<and> 0 \<le> f x"
    using assms(1,2) by (auto dest: samples_in_bounds)
  from weighted_mean_bounds [OF pts pos] y
  show "umin u \<le> y" and "y \<le> umax u"
    by (simp_all add: curve_moment_def curve_area_def)
qed

section \<open>Scaling and congruence\<close>

lemma centroid_cong:
  "(\<And>x. x \<in> set (samples u) \<Longrightarrow> f x = g x) \<Longrightarrow> centroid u f = centroid u g"
  by (simp add: centroid_def curve_area_def curve_moment_def cong: map_cong)

lemma centroid_scale:
  assumes "k \<noteq> 0"
  shows "centroid u (\<lambda>x. k * f x) = centroid u f"
proof -
  have "curve_area u (\<lambda>x. k * f x) = k * curve_area u f"
    by (simp add: curve_area_def sum_list_const_mult)
  moreover have "curve_moment u (\<lambda>x. k * f x) = k * curve_moment u f"
    by (simp add: curve_moment_def sum_list_const_mult [symmetric] mult.left_commute)
  ultimately show ?thesis using assms by (simp add: centroid_def)
qed

end
