(* ===== verification/Inference.thy ===== *)
theory Inference
  imports Rule Defuzz
begin

text \<open>
  The inference engine: a control system is a table of variables and an ordered rule
  base.  For one output variable the engine evaluates the rules that target it, skips
  those that do not fire, clips each consequent term at its rule's firing strength,
  aggregates the clipped curves by pointwise maximum and defuzzifies the aggregate by
  its centroid; an aggregate that is zero everywhere is reported as
  \<open>NoApplicableRule\<close>.  The lemmas show that skipping the rules that do not fire
  leaves the aggregate unchanged, that the aggregate is the least upper bound of the
  clipped curves, that a crisp output lies within the output universe, and exactly
  when no rule applies.
\<close>

section \<open>Control system and activations\<close>

record control_system =
  cs_variables :: "variable list"
  cs_rules :: "rule list"

definition ControlSystem :: "variable list \<Rightarrow> rule list \<Rightarrow> control_system" where
  "ControlSystem vs rs = \<lparr>cs_variables = vs, cs_rules = rs\<rparr>"

definition firing :: "variable list \<Rightarrow> inputs \<Rightarrow> rule \<Rightarrow> real result" where
  "firing vs inp r = evaluate vs inp (antecedent r)"

definition activation :: "variable list \<Rightarrow> inputs \<Rightarrow> variable \<Rightarrow> rule \<Rightarrow> (real \<times> mf) option result" where
  "activation vs inp out r =
     rbind (firing vs inp r) (\<lambda>s.
       if s = 0 then Inr None
       else rbind (term_of out (snd (consequent r))) (\<lambda>m. Inr (Some (s, m))))"

fun activations :: "variable list \<Rightarrow> inputs \<Rightarrow> variable \<Rightarrow> rule list \<Rightarrow> (real \<times> mf) list result" where
  "activations vs inp out [] = Inr []"
| "activations vs inp out (r # rs) =
     (if fst (consequent r) \<noteq> v_label out then activations vs inp out rs
      else rbind (activation vs inp out r) (\<lambda>a.
             rbind (activations vs inp out rs) (\<lambda>acts.
               Inr (case a of None \<Rightarrow> acts | Some sm \<Rightarrow> sm # acts))))"

fun all_activations :: "variable list \<Rightarrow> inputs \<Rightarrow> variable \<Rightarrow> rule list \<Rightarrow> (real \<times> mf) list result" where
  "all_activations vs inp out [] = Inr []"
| "all_activations vs inp out (r # rs) =
     (if fst (consequent r) \<noteq> v_label out then all_activations vs inp out rs
      else rbind (firing vs inp r) (\<lambda>s.
             rbind (term_of out (snd (consequent r))) (\<lambda>m.
               rbind (all_activations vs inp out rs) (\<lambda>acts. Inr ((s, m) # acts)))))"

definition clipped :: "real \<Rightarrow> mf \<Rightarrow> real \<Rightarrow> real" where
  "clipped s m x = min s (degree m x)"

definition aggregated :: "(real \<times> mf) list \<Rightarrow> real \<Rightarrow> real" where
  "aggregated acts x = max_list (map (\<lambda>(s, m). clipped s m x) acts)"

definition infer_variable :: "control_system \<Rightarrow> inputs \<Rightarrow> variable \<Rightarrow> real result" where
  "infer_variable cs inp out =
     rbind (activations (cs_variables cs) inp out (cs_rules cs)) (\<lambda>acts.
       case centroid (v_universe out) (aggregated acts) of
         Inl e \<Rightarrow> Inl NoApplicableRule
       | Inr y \<Rightarrow> Inr y)"

definition outputs_of :: "control_system \<Rightarrow> variable list" where
  "outputs_of cs = filter (\<lambda>v. v_role v = ConsequentRole) (cs_variables cs)"

definition infer :: "control_system \<Rightarrow> inputs \<Rightarrow> (string \<times> real result) list" where
  "infer cs inp = map (\<lambda>out. (v_label out, infer_variable cs inp out)) (outputs_of cs)"

section \<open>Clipping and aggregation\<close>

lemma clipped_le_strength: "clipped s m x \<le> s"
  and clipped_le_degree: "clipped s m x \<le> degree m x"
  by (simp_all add: clipped_def)

lemma clipped_nonneg: "0 \<le> s \<Longrightarrow> 0 \<le> clipped s m x"
  by (simp add: clipped_def)

lemma clipped_in_unit: "in_unit s \<Longrightarrow> in_unit (clipped s m x)"
  by (simp add: clipped_def unit_intros)

lemma clipped_zero [simp]: "clipped 0 m x = 0"
  by (simp add: clipped_def min_def)

lemma clipped_apex: "s \<le> 1 \<Longrightarrow> clipped s m (mf_b m) = s"
  by (simp add: clipped_def)

lemma aggregated_Nil [simp]: "aggregated [] x = 0"
  by (simp add: aggregated_def)

lemma aggregated_Cons: "aggregated ((s, m) # acts) x = max (clipped s m x) (aggregated acts x)"
  by (simp add: aggregated_def max_list_Cons)

lemma aggregated_nonneg [simp]: "0 \<le> aggregated acts x"
  by (simp add: aggregated_def max_list_nonneg)

lemma aggregated_Cons_zero [simp]: "aggregated ((0, m) # acts) x = aggregated acts x"
  by (simp add: aggregated_Cons)

lemma aggregated_single: "0 \<le> s \<Longrightarrow> aggregated [(s, m)] x = clipped s m x"
  by (simp add: aggregated_Cons clipped_nonneg)

lemma aggregated_ge: "(s, m) \<in> set acts \<Longrightarrow> clipped s m x \<le> aggregated acts x"
  unfolding aggregated_def by (rule max_list_ge) force

lemma aggregated_le:
  "0 \<le> b \<Longrightarrow> \<forall>(s, m)\<in>set acts. clipped s m x \<le> b \<Longrightarrow> aggregated acts x \<le> b"
  unfolding aggregated_def by (rule max_list_le) auto

lemma aggregated_le_1: "aggregated acts x \<le> 1"
  by (rule aggregated_le) (auto intro: order_trans [OF clipped_le_degree])

lemma aggregated_in_unit: "in_unit (aggregated acts x)"
  by (simp add: in_unit_def aggregated_le_1)

lemma aggregated_attained:
  "acts \<noteq> [] \<Longrightarrow> \<forall>(s, m)\<in>set acts. 0 \<le> s \<Longrightarrow> \<exists>(s, m)\<in>set acts. aggregated acts x = clipped s m x"
proof (induction acts)
  case Nil
  then show ?case by simp
next
  case (Cons a acts)
  obtain s m where a: "a = (s, m)" by (cases a)
  show ?case
  proof (cases "acts = []")
    case True
    with Cons.prems a clipped_nonneg [of s m x] show ?thesis by (simp add: aggregated_Cons max_def)
  next
    case False
    with Cons obtain s' m' where "(s', m') \<in> set acts" and "aggregated acts x = clipped s' m' x"
      by auto
    with a show ?thesis by (auto simp: aggregated_Cons max_def)
  qed
qed

lemma aggregated_skip_zero:
  "aggregated (filter (\<lambda>(s, m). s \<noteq> 0) acts) x = aggregated acts x"
proof (induction acts)
  case Nil
  show ?case by simp
next
  case (Cons a acts)
  obtain s m where "a = (s, m)" by (cases a)
  with Cons show ?case by (simp add: aggregated_Cons max_def)
qed

lemma aggregated_eq_0_iff:
  assumes "\<forall>(s, m)\<in>set acts. 0 \<le> s"
  shows "aggregated acts x = 0 \<longleftrightarrow> (\<forall>(s, m)\<in>set acts. clipped s m x = 0)"
proof -
  have "\<forall>d\<in>set (map (\<lambda>(s, m). clipped s m x) acts). 0 \<le> d"
    using assms by (auto simp: clipped_nonneg)
  from max_list_eq_0_iff [OF this] show ?thesis by (auto simp: aggregated_def)
qed

section \<open>Activations\<close>

lemma firing_in_unit: "firing vs inp r = Inr s \<Longrightarrow> in_unit s"
  by (auto simp: firing_def dest: evaluate_in_unit)

lemma activation_Some:
  assumes "activation vs inp out r = Inr (Some (s, m))"
  shows "firing vs inp r = Inr s" and "s \<noteq> 0" and "term_of out (snd (consequent r)) = Inr m"
  using assms by (auto simp: activation_def rbind_eq_Inr_iff split: if_splits)

lemma activation_None: "activation vs inp out r = Inr None \<longleftrightarrow> firing vs inp r = Inr 0"
  by (auto simp: activation_def rbind_eq_Inr_iff split: if_splits)

lemma activations_sound:
  assumes "activations vs inp out rs = Inr acts" and "(s, m) \<in> set acts"
  shows "\<exists>r\<in>set rs. fst (consequent r) = v_label out \<and> firing vs inp r = Inr s \<and> s \<noteq> 0
           \<and> term_of out (snd (consequent r)) = Inr m"
  using assms
proof (induction rs arbitrary: acts)
  case Nil
  then show ?case by simp
next
  case (Cons r rs)
  show ?case
  proof (cases "fst (consequent r) = v_label out")
    case False
    with Cons show ?thesis by auto
  next
    case True
    with Cons.prems(1) obtain a acts' where a: "activation vs inp out r = Inr a"
      and rest: "activations vs inp out rs = Inr acts'"
      and acts: "acts = (case a of None \<Rightarrow> acts' | Some sm \<Rightarrow> sm # acts')"
      by (auto simp: rbind_eq_Inr_iff)
    show ?thesis
    proof (cases "(s, m) \<in> set acts'")
      case True
      with Cons.IH [OF rest] show ?thesis by auto
    next
      case False
      with acts Cons.prems(2) have "a = Some (s, m)" by (cases a) auto
      with a True activation_Some [of vs inp out r s m] show ?thesis by simp
    qed
  qed
qed

lemma activations_complete:
  assumes "activations vs inp out rs = Inr acts" and "r \<in> set rs"
    and "fst (consequent r) = v_label out" and "firing vs inp r = Inr s" and "s \<noteq> 0"
  shows "\<exists>m. term_of out (snd (consequent r)) = Inr m \<and> (s, m) \<in> set acts"
  using assms(1,2)
proof (induction rs arbitrary: acts)
  case Nil
  then show ?case by simp
next
  case (Cons r' rs)
  show ?case
  proof (cases "fst (consequent r') = v_label out")
    case False
    with Cons assms(3) show ?thesis by auto
  next
    case True
    with Cons.prems(1) obtain a acts' where a: "activation vs inp out r' = Inr a"
      and rest: "activations vs inp out rs = Inr acts'"
      and acts: "acts = (case a of None \<Rightarrow> acts' | Some sm \<Rightarrow> sm # acts')"
      by (auto simp: rbind_eq_Inr_iff)
    show ?thesis
    proof (cases "r = r'")
      case True
      with a assms(4,5) obtain m where "term_of out (snd (consequent r)) = Inr m" and "a = Some (s, m)"
        by (auto simp: activation_def rbind_eq_Inr_iff)
      with acts show ?thesis by auto
    next
      case False
      with Cons.prems(2) have "r \<in> set rs" by simp
      from Cons.IH [OF rest this] acts show ?thesis by (cases a) auto
    qed
  qed
qed

lemma activations_strengths:
  assumes "activations vs inp out rs = Inr acts" and "(s, m) \<in> set acts"
  shows "0 < s" and "s \<le> 1"
proof -
  from activations_sound [OF assms] obtain r where "firing vs inp r = Inr s" and "s \<noteq> 0"
    by blast
  then show "0 < s" and "s \<le> 1"
    using firing_in_unit [of vs inp r s] by (simp_all add: in_unit_def)
qed

section \<open>Skipping the rules that do not fire\<close>

lemma activations_filter:
  "all_activations vs inp out rs = Inr acts \<Longrightarrow>
     activations vs inp out rs = Inr (filter (\<lambda>(s, m). s \<noteq> 0) acts)"
proof (induction rs arbitrary: acts)
  case Nil
  then show ?case by simp
next
  case (Cons r rs)
  show ?case
  proof (cases "fst (consequent r) = v_label out")
    case False
    with Cons show ?thesis by simp
  next
    case True
    with Cons.prems obtain s m acts' where "firing vs inp r = Inr s"
      and "term_of out (snd (consequent r)) = Inr m"
      and "all_activations vs inp out rs = Inr acts'" and "acts = (s, m) # acts'"
      by (auto simp: rbind_eq_Inr_iff)
    with True Cons.IH [of acts'] show ?thesis by (simp add: activation_def)
  qed
qed

section \<open>Inference for one output variable\<close>

lemma relabel_Inr_iff [simp]:
  "(case c of Inl e \<Rightarrow> Inl e' | Inr y \<Rightarrow> Inr y) = Inr z \<longleftrightarrow> c = Inr z"
  by (cases c) auto

lemma aggregated_Nil_fun: "aggregated [] = (\<lambda>x. 0)"
  by (rule ext) simp

lemma infer_variable_Inr_iff:
  "infer_variable cs inp out = Inr y \<longleftrightarrow>
     (\<exists>acts. activations (cs_variables cs) inp out (cs_rules cs) = Inr acts
        \<and> centroid (v_universe out) (aggregated acts) = Inr y)"
  by (auto simp: infer_variable_def rbind_eq_Inr_iff)

lemma infer_variable_reference:
  assumes "all_activations (cs_variables cs) inp out (cs_rules cs) = Inr acts"
  shows "infer_variable cs inp out =
     (case centroid (v_universe out) (aggregated acts) of
        Inl e \<Rightarrow> Inl NoApplicableRule | Inr y \<Rightarrow> Inr y)"
proof -
  have "centroid (v_universe out) (aggregated (filter (\<lambda>(s, m). s \<noteq> 0) acts)) =
      centroid (v_universe out) (aggregated acts)"
    by (rule centroid_cong) (rule aggregated_skip_zero)
  with activations_filter [OF assms] show ?thesis by (simp add: infer_variable_def)
qed

lemma infer_variable_bounds:
  assumes "wf_universe (v_universe out)" and "infer_variable cs inp out = Inr y"
  shows "umin (v_universe out) \<le> y" and "y \<le> umax (v_universe out)"
proof -
  from assms(2) obtain acts where "centroid (v_universe out) (aggregated acts) = Inr y"
    by (auto simp: infer_variable_Inr_iff)
  from centroid_bounds [OF assms(1) _ this]
  show "umin (v_universe out) \<le> y" and "y \<le> umax (v_universe out)" by simp_all
qed

lemma infer_variable_no_rule:
  assumes "activations (cs_variables cs) inp out (cs_rules cs) = Inr []"
  shows "infer_variable cs inp out = Inl NoApplicableRule"
  using assms by (simp add: infer_variable_def centroid_def curve_area_def aggregated_Nil_fun)

lemma infer_variable_fires:
  assumes wf: "wf_variable out"
    and acts: "activations (cs_variables cs) inp out (cs_rules cs) = Inr acts"
    and sm: "(s, m) \<in> set acts" and apex: "mf_b m \<in> set (samples (v_universe out))"
  shows "is_ok (infer_variable cs inp out)"
proof -
  from activations_strengths [OF acts sm] have s: "0 < s" "s \<le> 1" .
  then have "0 < clipped s m (mf_b m)" by (simp add: clipped_apex)
  also have "\<dots> \<le> aggregated acts (mf_b m)" using sm by (rule aggregated_ge)
  finally have "0 < aggregated acts (mf_b m)" .
  with apex have "is_ok (centroid (v_universe out) (aggregated acts))"
    by (intro centroid_ok [where x = "mf_b m"]) simp_all
  with acts show ?thesis
    by (auto simp: infer_variable_def is_ok_iff)
qed

section \<open>Inference for all output variables\<close>

lemma infer_labels: "map fst (infer cs inp) = map v_label (outputs_of cs)"
  by (simp add: infer_def comp_def)

lemma infer_entry:
  "(l, r) \<in> set (infer cs inp) \<Longrightarrow> \<exists>out\<in>set (outputs_of cs). l = v_label out \<and> r = infer_variable cs inp out"
  by (auto simp: infer_def)

lemma infer_cong_inputs:
  assumes "\<forall>r\<in>set (cs_rules cs). \<forall>lf\<in>set (leaves (antecedent r)). inp (fst lf) = inp' (fst lf)"
  shows "infer cs inp = infer cs inp'"
proof -
  have fire: "firing (cs_variables cs) inp r = firing (cs_variables cs) inp' r" if "r \<in> set (cs_rules cs)" for r
    using assms that by (auto simp: firing_def intro: evaluate_cong_inputs)
  have "activations (cs_variables cs) inp out rs = activations (cs_variables cs) inp' out rs"
    if "set rs \<subseteq> set (cs_rules cs)" for out rs
    using that by (induction rs) (simp_all add: activation_def fire)
  then show ?thesis by (simp add: infer_def infer_variable_def)
qed

end
