(* ===== verification/Simulation.thy ===== *)
theory Simulation
  imports Inference
begin

text \<open>
  The evaluation interface the program drives: a simulation holds a control system,
  the crisp inputs assigned so far and the results of the last computation.
  \<open>set_input\<close> is the assignment \<^verbatim>\<open>sim.input[label] = x\<close>, \<open>compute\<close> runs the
  inference and replaces the results, \<open>output_of\<close> reads one of them.  The lemmas are the
  frame conditions of the three operations, the idempotence of \<open>compute\<close>, and the
  fact that a computation depends only on the inputs the rules mention.
\<close>

section \<open>Simulation state and operations\<close>

record simulation =
  sim_ctrl :: control_system
  sim_input :: inputs
  sim_output :: "(string \<times> real result) list"

definition ControlSystemSimulation :: "control_system \<Rightarrow> simulation" where
  "ControlSystemSimulation cs = \<lparr>sim_ctrl = cs, sim_input = Map.empty, sim_output = []\<rparr>"

definition set_input :: "string \<Rightarrow> real \<Rightarrow> simulation \<Rightarrow> simulation" where
  "set_input l x s = s\<lparr>sim_input := (sim_input s)(l \<mapsto> x)\<rparr>"

definition compute :: "simulation \<Rightarrow> simulation" where
  "compute s = s\<lparr>sim_output := infer (sim_ctrl s) (sim_input s)\<rparr>"

definition output_of :: "simulation \<Rightarrow> string \<Rightarrow> real result" where
  "output_of s l = (case map_of (sim_output s) l of None \<Rightarrow> Inl UnknownVariable | Some r \<Rightarrow> r)"

section \<open>Frame conditions\<close>

lemma set_input_frame [simp]:
  "sim_ctrl (set_input l x s) = sim_ctrl s" "sim_output (set_input l x s) = sim_output s"
  by (simp_all add: set_input_def)

lemma set_input_lookup [simp]:
  "sim_input (set_input l x s) l' = (if l' = l then Some x else sim_input s l')"
  by (simp add: set_input_def)

lemma compute_frame [simp]:
  "sim_ctrl (compute s) = sim_ctrl s" "sim_input (compute s) = sim_input s"
  by (simp_all add: compute_def)

lemma sim_output_compute: "sim_output (compute s) = infer (sim_ctrl s) (sim_input s)"
  by (simp add: compute_def)

lemma new_simulation [simp]:
  "sim_ctrl (ControlSystemSimulation cs) = cs"
  "sim_input (ControlSystemSimulation cs) l = None"
  "sim_output (ControlSystemSimulation cs) = []"
  by (simp_all add: ControlSystemSimulation_def)

section \<open>Computation\<close>

lemma compute_idem: "compute (compute s) = compute s"
  by (simp add: compute_def)

lemma set_input_twice: "set_input l y (set_input l x s) = set_input l y s"
  by (simp add: set_input_def)

lemma set_input_commute:
  "l \<noteq> l' \<Longrightarrow> set_input l x (set_input l' y s) = set_input l' y (set_input l x s)"
  by (simp add: set_input_def fun_upd_twist)

lemma output_compute:
  "output_of (compute s) l =
     (case map_of (infer (sim_ctrl s) (sim_input s)) l of None \<Rightarrow> Inl UnknownVariable | Some r \<Rightarrow> r)"
  by (simp add: output_of_def compute_def)

lemma output_compute_variable:
  assumes "find_variable (outputs_of (sim_ctrl s)) l = Inr out"
  shows "output_of (compute s) l = infer_variable (sim_ctrl s) (sim_input s) out"
proof -
  have "map_of (map (\<lambda>out. (v_label out, f out)) vs) l = Some (f out)"
    if "find_variable vs l = Inr out" for vs and f :: "variable \<Rightarrow> real result"
    using that by (induction vs) (auto simp: find_variable_Cons split: if_splits)
  from this [OF assms] show ?thesis by (simp add: output_compute infer_def)
qed

lemma output_before_compute: "output_of (ControlSystemSimulation cs) l = Inl UnknownVariable"
  by (simp add: output_of_def)

lemma compute_cong_inputs:
  assumes "sim_ctrl s = sim_ctrl s'"
    and "\<forall>r\<in>set (cs_rules (sim_ctrl s)). \<forall>lf\<in>set (leaves (antecedent r)).
           sim_input s (fst lf) = sim_input s' (fst lf)"
  shows "sim_output (compute s) = sim_output (compute s')"
  using assms infer_cong_inputs [of "sim_ctrl s" "sim_input s" "sim_input s'"]
  by (simp add: compute_def)

end
