(* ===== verification/Sprinkler.thy ===== *)
theory Sprinkler
  imports Simulation
begin

text \<open>
  The sprinkler controller of \<^verbatim>\<open>src/fuzzy.py\<close>: its three variables and nine terms,
  its five rules, the control system and simulation built from them, the ten test
  cases and the loop body that feeds one of them through the simulation.  The lemmas
  evaluate the construction (it succeeds and yields well-formed variables), give the
  firing strengths of the five rules in closed form, and reduce a computation of the
  simulation to the centroid of one explicit aggregate.
\<close>

section \<open>Variables and terms\<close>

definition soil_moisture_decl :: variable where
  "soil_moisture_decl = Antecedent (arange 0 101 1) ''Soil Moisture''"

definition temperature_decl :: variable where
  "temperature_decl = Antecedent (arange 0 51 1) ''Temperature''"

definition water_sprinkle_decl :: variable where
  "water_sprinkle_decl = Consequent (arange 0 101 1) ''Water Sprinkling''"

definition soil_moisture :: "variable result" where
  "soil_moisture =
     rbind (rbind (set_term ''dry'' [0, 0, 50] soil_moisture_decl)
                  (set_term ''moist'' [20, 50, 80]))
           (set_term ''wet'' [50, 100, 100])"

definition temperature :: "variable result" where
  "temperature =
     rbind (rbind (set_term ''cold'' [0, 0, 20] temperature_decl)
                  (set_term ''warm'' [10, 25, 40]))
           (set_term ''hot'' [30, 50, 50])"

definition water_sprinkle :: "variable result" where
  "water_sprinkle =
     rbind (rbind (set_term ''low'' [0, 0, 50] water_sprinkle_decl)
                  (set_term ''medium'' [20, 50, 80]))
           (set_term ''high'' [50, 100, 100])"

section \<open>Rules, control system, simulation\<close>

definition rule1 :: rule where
  "rule1 = Rule (And (Leaf ''Soil Moisture'' ''dry'') (Leaf ''Temperature'' ''hot''))
                (''Water Sprinkling'', ''high'')"

definition rule2 :: rule where
  "rule2 = Rule (And (Leaf ''Soil Moisture'' ''dry'') (Leaf ''Temperature'' ''warm''))
                (''Water Sprinkling'', ''medium'')"

definition rule3 :: rule where
  "rule3 = Rule (And (Leaf ''Soil Moisture'' ''moist'') (Leaf ''Temperature'' ''warm''))
                (''Water Sprinkling'', ''medium'')"

definition rule4 :: rule where
  "rule4 = Rule (And (Leaf ''Soil Moisture'' ''moist'') (Leaf ''Temperature'' ''cold''))
                (''Water Sprinkling'', ''low'')"

definition rule5 :: rule where
  "rule5 = Rule (Leaf ''Soil Moisture'' ''wet'') (''Water Sprinkling'', ''low'')"

definition sprinkle_ctrl :: "control_system result" where
  "sprinkle_ctrl =
     rbind soil_moisture (\<lambda>sm. rbind temperature (\<lambda>t. rbind water_sprinkle (\<lambda>w.
       Inr (ControlSystem [sm, t, w] [rule1, rule2, rule3, rule4, rule5]))))"

definition sprinkler :: "simulation result" where
  "sprinkler = rbind sprinkle_ctrl (\<lambda>cs. Inr (ControlSystemSimulation cs))"

section \<open>Test cases and the loop body\<close>

definition test_cases :: "(int \<times> int) list" where
  "test_cases =
     [(30, 35), (70, 20), (10, 40), (50, 10), (80, 30),
      (20, 45), (90, 15), (40, 25), (15, 35), (60, 5)]"

definition run_case :: "simulation \<Rightarrow> int \<times> int \<Rightarrow> simulation" where
  "run_case s c =
     compute (set_input ''Temperature'' (of_int (snd c))
               (set_input ''Soil Moisture'' (of_int (fst c)) s))"

section \<open>The constructed values\<close>

abbreviation tri :: "real \<Rightarrow> real \<Rightarrow> real \<Rightarrow> mf" where
  "tri a b c \<equiv> \<lparr>mf_a = a, mf_b = b, mf_c = c\<rparr>"

abbreviation percent :: universe where
  "percent \<equiv> \<lparr>umin = 0, umax = 100, ustep = 1\<rparr>"

abbreviation celsius :: universe where
  "celsius \<equiv> \<lparr>umin = 0, umax = 50, ustep = 1\<rparr>"

definition soil_v :: variable where
  "soil_v = \<lparr>v_label = ''Soil Moisture'', v_role = AntecedentRole, v_universe = percent,
     v_terms = [(''dry'', tri 0 0 50), (''moist'', tri 20 50 80), (''wet'', tri 50 100 100)]\<rparr>"

definition temp_v :: variable where
  "temp_v = \<lparr>v_label = ''Temperature'', v_role = AntecedentRole, v_universe = celsius,
     v_terms = [(''cold'', tri 0 0 20), (''warm'', tri 10 25 40), (''hot'', tri 30 50 50)]\<rparr>"

definition water_v :: variable where
  "water_v = \<lparr>v_label = ''Water Sprinkling'', v_role = ConsequentRole, v_universe = percent,
     v_terms = [(''low'', tri 0 0 50), (''medium'', tri 20 50 80), (''high'', tri 50 100 100)]\<rparr>"

definition ctrl_v :: control_system where
  "ctrl_v = ControlSystem [soil_v, temp_v, water_v] [rule1, rule2, rule3, rule4, rule5]"

lemmas setup_defs =
  set_term_def trimf_def addTerm_def mf_within_def Antecedent_def Consequent_def arange_def

lemma soil_moisture_value: "soil_moisture = Inr soil_v"
  by (simp add: soil_moisture_def soil_moisture_decl_def soil_v_def setup_defs)

lemma temperature_value: "temperature = Inr temp_v"
  by (simp add: temperature_def temperature_decl_def temp_v_def setup_defs)

lemma water_sprinkle_value: "water_sprinkle = Inr water_v"
  by (simp add: water_sprinkle_def water_sprinkle_decl_def water_v_def setup_defs)

lemma sprinkle_ctrl_value: "sprinkle_ctrl = Inr ctrl_v"
  by (simp add: sprinkle_ctrl_def soil_moisture_value temperature_value water_sprinkle_value
      ctrl_v_def)

lemma sprinkler_value: "sprinkler = Inr (ControlSystemSimulation ctrl_v)"
  by (simp add: sprinkler_def sprinkle_ctrl_value)

lemma labels [simp]:
  "v_label soil_v = ''Soil Moisture''" "v_label temp_v = ''Temperature''"
  "v_label water_v = ''Water Sprinkling''"
  by (simp_all add: soil_v_def temp_v_def water_v_def)

lemma universes [simp]:
  "v_universe soil_v = percent" "v_universe temp_v = celsius" "v_universe water_v = percent"
  by (simp_all add: soil_v_def temp_v_def water_v_def)

lemma ctrl_v_fields [simp]:
  "cs_variables ctrl_v = [soil_v, temp_v, water_v]"
  "cs_rules ctrl_v = [rule1, rule2, rule3, rule4, rule5]"
  by (simp_all add: ctrl_v_def ControlSystem_def)

lemma outputs_of_ctrl_v [simp]: "outputs_of ctrl_v = [water_v]"
  by (simp add: outputs_of_def soil_v_def temp_v_def water_v_def)

lemma wf_percent [simp]: "wf_universe percent" and wf_celsius [simp]: "wf_universe celsius"
  by (simp_all add: wf_universe_def)

lemma wf_variables: "wf_variable soil_v" "wf_variable temp_v" "wf_variable water_v"
  by (simp_all add: wf_variable_def soil_v_def temp_v_def water_v_def wf_mf_def mf_within_def)

section \<open>Terms by name\<close>

lemma soil_terms [simp]:
  "term_of soil_v ''dry'' = Inr (tri 0 0 50)"
  "term_of soil_v ''moist'' = Inr (tri 20 50 80)"
  "term_of soil_v ''wet'' = Inr (tri 50 100 100)"
  by (simp_all add: term_of_def soil_v_def)

lemma temp_terms [simp]:
  "term_of temp_v ''cold'' = Inr (tri 0 0 20)"
  "term_of temp_v ''warm'' = Inr (tri 10 25 40)"
  "term_of temp_v ''hot'' = Inr (tri 30 50 50)"
  by (simp_all add: term_of_def temp_v_def)

lemma water_terms [simp]:
  "term_of water_v ''low'' = Inr (tri 0 0 50)"
  "term_of water_v ''medium'' = Inr (tri 20 50 80)"
  "term_of water_v ''high'' = Inr (tri 50 100 100)"
  by (simp_all add: term_of_def water_v_def)

lemma find_variables [simp]:
  "find_variable [soil_v, temp_v, water_v] ''Soil Moisture'' = Inr soil_v"
  "find_variable [soil_v, temp_v, water_v] ''Temperature'' = Inr temp_v"
  "find_variable [soil_v, temp_v, water_v] ''Water Sprinkling'' = Inr water_v"
  by (simp_all add: find_variable_Cons)

section \<open>Overlap of the terms\<close>

lemma soil_partition:
  "degree (tri 0 0 50) x + degree (tri 20 50 80) x + degree (tri 50 100 100) x \<le> 1"
  by (simp add: degree_def field_simps)

lemma temp_partition:
  "degree (tri 0 0 20) x + degree (tri 10 25 40) x + degree (tri 30 50 50) x \<le> 1"
  by (simp add: degree_def field_simps)

lemma fuzzify_sum:
  "v \<in> {soil_v, temp_v, water_v} \<Longrightarrow> sum_list (map snd (fuzzify v x)) \<le> 1"
  using soil_partition [of x] temp_partition [of x]
  by (auto simp: fuzzify_def soil_v_def temp_v_def water_v_def)

lemma fuzzify_two:
  "v \<in> {soil_v, temp_v, water_v} \<Longrightarrow> length (filter (\<lambda>nd. 0 < snd nd) (fuzzify v x)) \<le> 2"
  by (auto simp: fuzzify_def soil_v_def temp_v_def water_v_def degree_def)

section \<open>Firing strengths in closed form\<close>

lemmas rule_defs = rule1_def rule2_def rule3_def rule4_def rule5_def Rule_def

lemma firing_rules:
  assumes "inp ''Soil Moisture'' = Some s" and "inp ''Temperature'' = Some t"
  shows "map (firing [soil_v, temp_v, water_v] inp) [rule1, rule2, rule3, rule4, rule5] =
     [Inr (min (degree (tri 0 0 50) s) (degree (tri 30 50 50) t)),
      Inr (min (degree (tri 0 0 50) s) (degree (tri 10 25 40) t)),
      Inr (min (degree (tri 20 50 80) s) (degree (tri 10 25 40) t)),
      Inr (min (degree (tri 20 50 80) s) (degree (tri 0 0 20) t)),
      Inr (degree (tri 50 100 100) s)]"
  using assms by (simp add: firing_def rule_defs termDegree_def)

lemma infer_missing_input:
  assumes "inp ''Soil Moisture'' = None \<or> inp ''Temperature'' = None"
  shows "infer_variable ctrl_v inp water_v = Inl MissingInput"
  using assms
  by (auto simp: infer_variable_def activation_def firing_def rule_defs termDegree_def
      split: option.splits)

definition strengths :: "real \<Rightarrow> real \<Rightarrow> (real \<times> mf) list" where
  "strengths s t =
     [(min (degree (tri 0 0 50) s) (degree (tri 30 50 50) t), tri 50 100 100),
      (min (degree (tri 0 0 50) s) (degree (tri 10 25 40) t), tri 20 50 80),
      (min (degree (tri 20 50 80) s) (degree (tri 10 25 40) t), tri 20 50 80),
      (min (degree (tri 20 50 80) s) (degree (tri 0 0 20) t), tri 0 0 50),
      (degree (tri 50 100 100) s, tri 0 0 50)]"

lemma all_activations_sprinkler:
  assumes "inp ''Soil Moisture'' = Some s" and "inp ''Temperature'' = Some t"
  shows "all_activations [soil_v, temp_v, water_v] inp water_v [rule1, rule2, rule3, rule4, rule5]
           = Inr (strengths s t)"
  using assms by (simp add: firing_def rule_defs termDegree_def strengths_def)

section \<open>The aggregate in closed form\<close>

definition fire_high :: "real \<Rightarrow> real \<Rightarrow> real" where
  "fire_high s t = min (degree (tri 0 0 50) s) (degree (tri 30 50 50) t)"

definition fire_medium :: "real \<Rightarrow> real \<Rightarrow> real" where
  "fire_medium s t =
     max (min (degree (tri 0 0 50) s) (degree (tri 10 25 40) t))
         (min (degree (tri 20 50 80) s) (degree (tri 10 25 40) t))"

definition fire_low :: "real \<Rightarrow> real \<Rightarrow> real" where
  "fire_low s t =
     max (min (degree (tri 20 50 80) s) (degree (tri 0 0 20) t)) (degree (tri 50 100 100) s)"

definition sprinkle_curve :: "real \<Rightarrow> real \<Rightarrow> real \<Rightarrow> real" where
  "sprinkle_curve s t x =
     max (clipped (fire_high s t) (tri 50 100 100) x)
       (max (clipped (fire_medium s t) (tri 20 50 80) x) (clipped (fire_low s t) (tri 0 0 50) x))"

definition crisp :: "real \<Rightarrow> real \<Rightarrow> real result" where
  "crisp s t =
     (case centroid percent (sprinkle_curve s t) of
        Inl e \<Rightarrow> Inl NoApplicableRule | Inr y \<Rightarrow> Inr y)"

lemma clipped_max: "max (clipped a m x) (clipped b m x) = clipped (max a b) m x"
  by (simp add: clipped_def min_max_distrib1)

lemma aggregated_strengths: "aggregated (strengths s t) = sprinkle_curve s t"
proof
  fix x
  have "0 \<le> clipped (degree (tri 50 100 100) s) (tri 0 0 50) x"
    by (rule clipped_nonneg) simp
  then show "aggregated (strengths s t) x = sprinkle_curve s t x"
    by (simp add: strengths_def aggregated_Cons sprinkle_curve_def fire_high_def fire_medium_def
        fire_low_def clipped_max [symmetric] max.assoc)
qed

lemma fire_in_unit: "in_unit (fire_high s t)" "in_unit (fire_medium s t)" "in_unit (fire_low s t)"
  by (simp_all add: fire_high_def fire_medium_def fire_low_def unit_intros)

lemma fire_nonneg [simp]: "0 \<le> fire_high s t" "0 \<le> fire_medium s t" "0 \<le> fire_low s t"
  using fire_in_unit [of s t] by (simp_all add: in_unit_def)

lemma sprinkle_curve_nonneg [simp]: "0 \<le> sprinkle_curve s t x"
  by (simp add: sprinkle_curve_def le_max_iff_disj clipped_nonneg)

lemma infer_variable_sprinkler:
  assumes "inp ''Soil Moisture'' = Some s" and "inp ''Temperature'' = Some t"
  shows "infer_variable ctrl_v inp water_v = crisp s t"
  using infer_variable_reference [of ctrl_v inp water_v "strengths s t"]
    all_activations_sprinkler [OF assms] by (simp add: crisp_def aggregated_strengths)

lemma output_compute_program:
  assumes "sim_ctrl sim = ctrl_v"
  shows "output_of (compute sim) ''Water Sprinkling'' = infer_variable ctrl_v (sim_input sim) water_v"
proof -
  have "find_variable (outputs_of (sim_ctrl sim)) ''Water Sprinkling'' = Inr water_v"
    using assms by (simp add: find_variable_Cons)
  from output_compute_variable [OF this] assms show ?thesis by simp
qed

lemma output_run_case:
  assumes "sim_ctrl sim = ctrl_v"
  shows "output_of (run_case sim (s, t)) ''Water Sprinkling'' = crisp (of_int s) (of_int t)"
  unfolding run_case_def
  by (subst output_compute_program) (simp_all add: assms infer_variable_sprinkler)

lemma run_case_idem: "run_case (run_case sim c) c = run_case sim c"
  by (simp add: run_case_def compute_def set_input_def)

section \<open>Sample points of the output universe\<close>

lemma sample_count_percent [simp]: "sample_count percent = 101"
  by (simp add: sample_count_def)

lemma samples_percent: "samples percent = map real [0..<101]"
  by (simp add: samples_def)

lemmas samples_percent_unfold = samples_percent upt_rec [of _ "numeral n" for n]

lemma apexes_sampled: "0 \<in> set (samples percent)" "50 \<in> set (samples percent)"
  "100 \<in> set (samples percent)"
  by (simp_all add: samples_percent)

section \<open>When no rule applies\<close>

lemma crisp_Inr_iff:
  "crisp s t = Inr y \<longleftrightarrow> centroid percent (sprinkle_curve s t) = Inr y"
  by (simp add: crisp_def)

lemma crisp_error: "crisp s t = Inl e \<Longrightarrow> e = NoApplicableRule"
  by (simp add: crisp_def split: sum.splits)

lemma crisp_no_rule_iff:
  "crisp s t = Inl NoApplicableRule \<longleftrightarrow> fire_high s t = 0 \<and> fire_medium s t = 0 \<and> fire_low s t = 0"
proof
  assume "crisp s t = Inl NoApplicableRule"
  then have "centroid percent (sprinkle_curve s t) = Inl DegenerateAggregate"
    by (auto simp: crisp_def centroid_Inl_iff split: sum.splits)
  then have zero: "\<forall>x\<in>set (samples percent). sprinkle_curve s t x = 0"
    by (simp add: centroid_degenerate_iff)
  have "clipped (fire_high s t) (tri 50 100 100) 100 \<le> sprinkle_curve s t 100"
    and "clipped (fire_medium s t) (tri 20 50 80) 50 \<le> sprinkle_curve s t 50"
    and "clipped (fire_low s t) (tri 0 0 50) 0 \<le> sprinkle_curve s t 0"
    by (simp_all add: sprinkle_curve_def le_max_iff_disj)
  with zero apexes_sampled fire_in_unit [of s t]
  have "fire_high s t \<le> 0 \<and> fire_medium s t \<le> 0 \<and> fire_low s t \<le> 0"
    by (simp add: clipped_def in_unit_def degree_def)
  with fire_nonneg [of s t]
  show "fire_high s t = 0 \<and> fire_medium s t = 0 \<and> fire_low s t = 0"
    by (auto intro: antisym)
next
  assume "fire_high s t = 0 \<and> fire_medium s t = 0 \<and> fire_low s t = 0"
  then have "sprinkle_curve s t = (\<lambda>x. 0)"
    by (auto simp: sprinkle_curve_def)
  then show "crisp s t = Inl NoApplicableRule"
    by (simp add: crisp_def centroid_def curve_area_def)
qed

lemma crisp_ok_iff:
  "is_ok (crisp s t) \<longleftrightarrow> 0 < fire_high s t \<or> 0 < fire_medium s t \<or> 0 < fire_low s t"
proof -
  have "is_ok (crisp s t) \<longleftrightarrow> crisp s t \<noteq> Inl NoApplicableRule"
    by (cases "crisp s t") (auto dest: crisp_error)
  with crisp_no_rule_iff [of s t] fire_nonneg [of s t] show ?thesis by (auto simp: less_le)
qed

lemma wf_tri [simp]: "wf_mf (tri a b c) \<longleftrightarrow> a \<le> b \<and> b \<le> c"
  by (simp add: wf_mf_def)

lemma fire_high_zero_iff:
  assumes "0 \<le> s" "s \<le> 100" "0 \<le> t" "t \<le> 50"
  shows "fire_high s t = 0 \<longleftrightarrow> \<not> (s < 50 \<and> 30 < t)"
  using assms by (auto simp: fire_high_def min_eq_0_iff degree_eq_0_iff)

lemma fire_medium_zero_iff:
  assumes "0 \<le> s" "s \<le> 100" "0 \<le> t" "t \<le> 50"
  shows "fire_medium s t = 0 \<longleftrightarrow> \<not> (s < 80 \<and> 10 < t \<and> t < 40)"
  using assms by (auto simp: fire_medium_def min_eq_0_iff max_eq_0_iff degree_eq_0_iff)

lemma fire_low_zero_iff:
  assumes "0 \<le> s" "s \<le> 100" "0 \<le> t" "t \<le> 50"
  shows "fire_low s t = 0 \<longleftrightarrow> \<not> ((20 < s \<and> s < 80 \<and> t < 20) \<or> 50 < s)"
  using assms by (auto simp: fire_low_def min_eq_0_iff max_eq_0_iff degree_eq_0_iff)

lemma crisp_no_rule_region:
  assumes "0 \<le> s" "s \<le> 100" "0 \<le> t" "t \<le> 50"
  shows "crisp s t = Inl NoApplicableRule \<longleftrightarrow> (s = 50 \<and> 40 \<le> t) \<or> (s \<le> 20 \<and> t \<le> 10)"
  unfolding crisp_no_rule_iff fire_high_zero_iff [OF assms] fire_medium_zero_iff [OF assms]
    fire_low_zero_iff [OF assms]
  using assms by auto

lemma crisp_bounds:
  assumes "crisp s t = Inr y"
  shows "0 \<le> y" and "y \<le> 100"
  using centroid_bounds [of percent "sprinkle_curve s t" y] assms
  by (simp_all add: crisp_Inr_iff)

end
