(* ===== verification/Text.thy ===== *)
theory Text
  imports Complex_Main
begin

text \<open>
  Formatted strings of the script.  An f-string is kept as the list of its pieces:
  literal text, an integer field \<^verbatim>\<open>{n}\<close> and a fixed-point field \<^verbatim>\<open>{x:.2f}\<close>, so that
  two formatted strings can be compared field by field.  Literal text is the UTF-8
  encoding of the source text.  Integer fields are rendered in decimal by
  \<open>show_int\<close>; the rendering of natural numbers is shown to be injective, so distinct
  indices give distinct file names.  Fixed-point fields are rendered from the exact
  real value, rounded half to even at the last digit.  \<open>latin1\<close> says that a text has
  no character beyond U+00FF, which is what the built-in fonts of a PDF can show.
\<close>

section \<open>Pieces\<close>

datatype piece =
    Lit string
  | IntField int
  | FixedField nat real

type_synonym fstring = "piece list"

definition degree_sign :: string where
  "degree_sign = [CHR 0xC2, CHR 0xB0]"

definition bullet :: string where
  "bullet = [CHR 0xE2, CHR 0x80, CHR 0xA2]"

definition en_dash :: string where
  "en_dash = [CHR 0xE2, CHR 0x80, CHR 0x93]"

definition newline :: string where
  "newline = [CHR 0x0A]"

definition latin1 :: "string \<Rightarrow> bool" where
  "latin1 s \<longleftrightarrow> list_all (\<lambda>c. of_char c < (0xC4 :: nat)) s"

section \<open>Decimal rendering\<close>

definition digits :: string where
  "digits = ''0123456789''"

definition digit_char :: "nat \<Rightarrow> char" where
  "digit_char d = digits ! d"

fun show_nat :: "nat \<Rightarrow> string" where
  "show_nat n = (if n < 10 then [digit_char n] else show_nat (n div 10) @ [digit_char (n mod 10)])"

declare show_nat.simps [simp del]

definition show_int :: "int \<Rightarrow> string" where
  "show_int i = (if i < 0 then CHR ''-'' # show_nat (nat (- i)) else show_nat (nat i))"

definition round_half_even :: "real \<Rightarrow> int" where
  "round_half_even x =
     (let f = \<lfloor>x\<rfloor>; r = x - of_int f
      in if r < 1 / 2 then f else if 1 / 2 < r then f + 1 else if even f then f else f + 1)"

definition show_fixed :: "nat \<Rightarrow> real \<Rightarrow> string" where
  "show_fixed d x =
     (let n = nat (round_half_even (\<bar>x\<bar> * 10 ^ d));
          frac = show_nat (n mod 10 ^ d)
      in (if x < 0 then ''-'' else []) @ show_nat (n div 10 ^ d) @
         (if d = 0 then [] else ''.'' @ replicate (d - length frac) CHR ''0'' @ frac))"

fun render_piece :: "piece \<Rightarrow> string" where
  "render_piece (Lit s) = s"
| "render_piece (IntField i) = show_int i"
| "render_piece (FixedField d x) = show_fixed d x"

definition render :: "fstring \<Rightarrow> string" where
  "render ps = concat (map render_piece ps)"

lemma show_nat_small: "n < 10 \<Longrightarrow> show_nat n = [digit_char n]"
  by (simp add: show_nat.simps)

lemma show_nat_large: "10 \<le> n \<Longrightarrow> show_nat n = show_nat (n div 10) @ [digit_char (n mod 10)]"
  by (subst show_nat.simps) simp

lemma show_nat_nonempty [simp]: "show_nat n \<noteq> []"
  by (subst show_nat.simps) simp

lemma digit_char_inj: "a < 10 \<Longrightarrow> b < 10 \<Longrightarrow> digit_char a = digit_char b \<Longrightarrow> a = b"
  using nth_eq_iff_index_eq [of digits a b] by (simp add: digit_char_def digits_def)

lemma digit_char_in_digits: "d < 10 \<Longrightarrow> digit_char d \<in> set digits"
  unfolding digit_char_def by (rule nth_mem) (simp add: digits_def)

lemma digit_char_not_minus: "d < 10 \<Longrightarrow> digit_char d \<noteq> CHR ''-''"
  using digit_char_in_digits [of d] by (auto simp: digits_def)

lemma show_nat_inj: "show_nat m = show_nat n \<Longrightarrow> m = n"
proof (induction m arbitrary: n rule: show_nat.induct)
  case (1 m)
  show ?case
  proof (cases "m < 10")
    case small_m: True
    show ?thesis
    proof (cases "n < 10")
      case True
      with small_m "1.prems" show ?thesis
        by (simp add: show_nat_small digit_char_inj)
    next
      case False
      with small_m "1.prems" have "[digit_char m] = show_nat (n div 10) @ [digit_char (n mod 10)]"
        by (simp add: show_nat_small show_nat_large)
      then have "show_nat (n div 10) = []" by simp
      then show ?thesis by simp
    qed
  next
    case large_m: False
    show ?thesis
    proof (cases "n < 10")
      case True
      with large_m "1.prems" have "show_nat (m div 10) @ [digit_char (m mod 10)] = [digit_char n]"
        by (simp add: show_nat_small show_nat_large)
      then have "show_nat (m div 10) = []" by simp
      then show ?thesis by simp
    next
      case False
      with large_m "1.prems"
      have heads: "show_nat (m div 10) = show_nat (n div 10)"
        and last: "digit_char (m mod 10) = digit_char (n mod 10)"
        by (simp_all add: show_nat_large)
      from "1.IH" [OF large_m heads] have "m div 10 = n div 10" .
      moreover from last have "m mod 10 = n mod 10" by (simp add: digit_char_inj)
      ultimately show ?thesis by (metis div_mult_mod_eq)
    qed
  qed
qed

lemma show_nat_digits: "c \<in> set (show_nat n) \<Longrightarrow> \<exists>d<10. c = digit_char d"
proof (induction n rule: show_nat.induct)
  case (1 n)
  show ?case
  proof (cases "n < 10")
    case True
    with "1.prems" show ?thesis by (auto simp: show_nat_small)
  next
    case False
    with "1.prems" have "c \<in> set (show_nat (n div 10)) \<or> c = digit_char (n mod 10)"
      by (auto simp: show_nat_large)
    then show ?thesis
    proof
      assume "c \<in> set (show_nat (n div 10))"
      with "1.IH" [OF False] show ?thesis .
    next
      assume "c = digit_char (n mod 10)"
      then show ?thesis by (intro exI [of _ "n mod 10"]) simp
    qed
  qed
qed

lemma show_nat_no_minus: "CHR ''-'' \<notin> set (show_nat n)"
proof
  assume "CHR ''-'' \<in> set (show_nat n)"
  then obtain d where "d < 10" and "CHR ''-'' = digit_char d"
    using show_nat_digits by blast
  then show False using digit_char_not_minus [of d] by simp
qed

lemma show_int_inj: "show_int i = show_int j \<Longrightarrow> i = j"
proof -
  assume eq: "show_int i = show_int j"
  have hd_nat: "show_nat n \<noteq> CHR ''-'' # cs" for n cs
    using show_nat_no_minus [of n] by (cases "show_nat n") auto
  show "i = j"
  proof (cases "i < 0")
    case neg_i: True
    show ?thesis
    proof (cases "j < 0")
      case True
      with neg_i eq have "nat (- i) = nat (- j)" by (auto simp: show_int_def dest: show_nat_inj)
      with neg_i True show ?thesis by simp
    next
      case False
      with neg_i eq hd_nat [of "nat j" "show_nat (nat (- i))"] show ?thesis
        by (simp add: show_int_def)
    qed
  next
    case pos_i: False
    show ?thesis
    proof (cases "j < 0")
      case True
      with pos_i eq hd_nat [of "nat i" "show_nat (nat (- j))"] show ?thesis
        by (simp add: show_int_def)
    next
      case False
      with pos_i eq have "nat i = nat j" by (auto simp: show_int_def dest: show_nat_inj)
      with pos_i False show ?thesis by simp
    qed
  qed
qed

section \<open>Text outside Latin-1\<close>

lemma latin1_Nil [simp]: "latin1 []"
  and latin1_append [simp]: "latin1 (s @ t) \<longleftrightarrow> latin1 s \<and> latin1 t"
  and latin1_Cons: "latin1 (c # s) \<longleftrightarrow> of_char c < (0xC4 :: nat) \<and> latin1 s"
  by (simp_all add: latin1_def)

lemma not_latin1I: "c \<in> set s \<Longrightarrow> \<not> of_char c < (0xC4 :: nat) \<Longrightarrow> \<not> latin1 s"
  by (auto simp: latin1_def list_all_iff)

lemma latin1_special [simp]:
  "latin1 degree_sign" "latin1 newline" "\<not> latin1 bullet" "\<not> latin1 en_dash"
  by (simp_all add: latin1_def degree_sign_def newline_def bullet_def en_dash_def)

lemma latin1_digits: "latin1 (show_nat n)"
proof -
  have "of_char c < (0xC4 :: nat)" if "c \<in> set (show_nat n)" for c
  proof -
    from that obtain d where "d < 10" and "c = digit_char d" using show_nat_digits by blast
    with digit_char_in_digits [of d] show ?thesis by (auto simp: digits_def)
  qed
  then show ?thesis by (simp add: latin1_def list_all_iff)
qed

section \<open>Rounding and rendering\<close>

lemma round_half_even_int [simp]: "round_half_even (of_int k) = k"
  by (simp add: round_half_even_def)

lemma round_half_even_near: "\<bar>of_int (round_half_even x) - x\<bar> \<le> 1 / 2"
  unfolding round_half_even_def Let_def by (auto simp: abs_le_iff)

lemma round_half_even_nonneg: "0 \<le> x \<Longrightarrow> 0 \<le> round_half_even x"
  unfolding round_half_even_def Let_def by (auto simp: add_nonneg_nonneg)

lemma render_Nil [simp]: "render [] = []"
  and render_Cons [simp]: "render (p # ps) = render_piece p @ render ps"
  by (simp_all add: render_def)

lemma render_append [simp]: "render (ps @ qs) = render ps @ render qs"
  by (simp add: render_def)

lemma render_indexed_inj:
  "render [Lit a, IntField i, Lit b] = render [Lit a, IntField j, Lit b] \<Longrightarrow> i = j"
  by (simp add: show_int_inj)

lemmas show_eval = show_nat.simps show_int_def show_fixed_def round_half_even_def
  digit_char_def digits_def Let_def

lemma show_fixed_examples:
  "show_fixed 2 (3071 / 38) = ''80.82''" "show_fixed 1 (3071 / 38) = ''80.8''"
  "show_fixed 2 50 = ''50.00''" "show_fixed 2 (1 / 8) = ''0.12''" "show_fixed 2 (3 / 8) = ''0.38''"
  by (simp_all add: show_eval)

lemma show_nat_examples: "show_nat 0 = ''0''" "show_nat 7 = ''7''" "show_nat 42 = ''42''"
  by (simp_all add: show_nat.simps digit_char_def digits_def)

end
