(* ===== verification/Pyplot.thy ===== *)
theory Pyplot
  imports Text
begin

text \<open>
  The calls of the program to the plotting library (\<^verbatim>\<open>matplotlib.pyplot\<close>), kept as a
  trace of \<open>plt_op\<close> values in the order the program makes them, and what can be read
  off a trace: the files written (\<open>saved\<close>, \<open>written\<close>), the number of figures open after it
  (\<open>open_figures\<close>) and the largest number of figures open at any moment (\<open>peak\<close>).
  The library keeps a stack of figures: \<^verbatim>\<open>figure\<close> opens one, \<^verbatim>\<open>close\<close> closes the current
  one, \<^verbatim>\<open>close('all')\<close> closes all, the \<^verbatim>\<open>view\<close> of a fuzzy variable opens a figure of its
  own, and every other call draws on the current figure, opening one if there is none.
\<close>

section \<open>Plotting operations\<close>

datatype plt_op =
    PltFigure
  | PltFigureSized nat nat
  | PltSubplot nat
  | PltView string
  | PltTitle fstring
  | PltXlabel string
  | PltYlabel string
  | PltBar "string list" real
  | PltSavefig fstring
  | PltClose
  | PltCloseAll

section \<open>Reading a trace\<close>

fun saved_path :: "plt_op \<Rightarrow> fstring list" where
  "saved_path (PltSavefig p) = [p]"
| "saved_path _ = []"

definition saved :: "plt_op list \<Rightarrow> fstring list" where
  "saved ops = concat (map saved_path ops)"

fun title_of :: "plt_op \<Rightarrow> fstring list" where
  "title_of (PltTitle t) = [t]"
| "title_of _ = []"

definition titles :: "plt_op list \<Rightarrow> fstring list" where
  "titles ops = concat (map title_of ops)"

definition written :: "plt_op list \<Rightarrow> string set" where
  "written ops = set (map render (saved ops))"

fun plt_step :: "nat \<Rightarrow> plt_op \<Rightarrow> nat" where
  "plt_step n PltFigure = Suc n"
| "plt_step n (PltFigureSized w h) = Suc n"
| "plt_step n (PltView l) = Suc n"
| "plt_step n PltClose = n - 1"
| "plt_step n PltCloseAll = 0"
| "plt_step n _ = max n 1"

definition open_figures :: "nat \<Rightarrow> plt_op list \<Rightarrow> nat" where
  "open_figures n ops = foldl plt_step n ops"

fun peak :: "nat \<Rightarrow> plt_op list \<Rightarrow> nat" where
  "peak n [] = n"
| "peak n (op # ops) = max n (peak (plt_step n op) ops)"

section \<open>Traces in sequence\<close>

lemma saved_Nil [simp]: "saved [] = []"
  and saved_append [simp]: "saved (ops @ ops') = saved ops @ saved ops'"
  and saved_Cons [simp]: "saved (op # ops) = saved_path op @ saved ops"
  by (simp_all add: saved_def)

lemma titles_Nil [simp]: "titles [] = []"
  and titles_append [simp]: "titles (ops @ ops') = titles ops @ titles ops'"
  and titles_Cons [simp]: "titles (op # ops) = title_of op @ titles ops"
  by (simp_all add: titles_def)

lemma written_Nil [simp]: "written [] = {}"
  and written_append [simp]: "written (ops @ ops') = written ops \<union> written ops'"
  by (simp_all add: written_def)

lemma written_saved: "p \<in> set (saved ops) \<Longrightarrow> render p \<in> written ops"
  by (simp add: written_def)

lemma open_figures_Nil [simp]: "open_figures n [] = n"
  and open_figures_append [simp]:
    "open_figures n (ops @ ops') = open_figures (open_figures n ops) ops'"
  and open_figures_Cons [simp]: "open_figures n (op # ops) = open_figures (plt_step n op) ops"
  by (simp_all add: open_figures_def)

lemma peak_ge: "n \<le> peak n ops"
  by (cases ops) simp_all

lemma peak_append: "peak n (ops @ ops') = max (peak n ops) (peak (open_figures n ops) ops')"
proof (induction ops arbitrary: n)
  case Nil
  show ?case using peak_ge [of n ops'] by simp
next
  case (Cons op ops)
  then show ?case by (simp add: max.assoc)
qed

lemma open_figures_le_peak: "open_figures n ops \<le> peak n ops"
proof (induction ops arbitrary: n)
  case (Cons op ops)
  from Cons [of "plt_step n op"] show ?case by (simp add: max.coboundedI2)
qed simp

lemma open_figures_close_all [simp]: "open_figures n (ops @ [PltCloseAll]) = 0"
  by simp

lemma plt_step_mono: "m \<le> n \<Longrightarrow> plt_step m op \<le> plt_step n op"
  by (cases op) auto

lemma open_figures_mono: "m \<le> n \<Longrightarrow> open_figures m ops \<le> open_figures n ops"
  by (induction ops arbitrary: m n) (simp_all add: plt_step_mono)

section \<open>The figure stack\<close>

text \<open>
  The state of the plotting library in more detail: the stack of open figures, each
  with the size it was opened with and what has been drawn on it, and the figures
  that have been saved, by path.  \<open>plt_exec\<close> is one call; the number of open figures
  of the coarser reading above is the height of this stack.
\<close>

record figure =
  fig_size :: "(nat \<times> nat) option"
  drawn :: "plt_op list"

record plt_state =
  stack :: "figure list"
  stored :: "(fstring \<times> figure) list"

definition blank :: figure where
  "blank = \<lparr>fig_size = None, drawn = []\<rparr>"

definition current :: "figure list \<Rightarrow> figure list" where
  "current st = (if st = [] then [blank] else st)"

definition draw :: "plt_op \<Rightarrow> figure list \<Rightarrow> figure list" where
  "draw op st = (hd (current st))\<lparr>drawn := drawn (hd (current st)) @ [op]\<rparr> # tl (current st)"

fun plt_exec :: "plt_state \<Rightarrow> plt_op \<Rightarrow> plt_state" where
  "plt_exec s PltFigure = s\<lparr>stack := blank # stack s\<rparr>"
| "plt_exec s (PltFigureSized w h) = s\<lparr>stack := \<lparr>fig_size = Some (w, h), drawn = []\<rparr> # stack s\<rparr>"
| "plt_exec s (PltView l) = s\<lparr>stack := \<lparr>fig_size = None, drawn = [PltView l]\<rparr> # stack s\<rparr>"
| "plt_exec s PltClose = s\<lparr>stack := tl (stack s)\<rparr>"
| "plt_exec s PltCloseAll = s\<lparr>stack := []\<rparr>"
| "plt_exec s (PltSavefig p) =
     s\<lparr>stack := current (stack s), stored := (p, hd (current (stack s))) # stored s\<rparr>"
| "plt_exec s op = s\<lparr>stack := draw op (stack s)\<rparr>"

definition plt_run :: "plt_state \<Rightarrow> plt_op list \<Rightarrow> plt_state" where
  "plt_run s ops = foldl plt_exec s ops"

definition plt_init :: plt_state where
  "plt_init = \<lparr>stack = [], stored = []\<rparr>"

inductive plt_reachable :: "plt_state \<Rightarrow> bool" where
  start: "plt_reachable plt_init"
| call: "plt_reachable s \<Longrightarrow> plt_reachable (plt_exec s op)"

inductive_cases plt_reachable_cases: "plt_reachable s"

fun drawing :: "plt_op \<Rightarrow> bool" where
  "drawing PltFigure = False"
| "drawing (PltFigureSized w h) = False"
| "drawing PltClose = False"
| "drawing PltCloseAll = False"
| "drawing (PltSavefig p) = False"
| "drawing _ = True"

definition figure_ok :: "figure \<Rightarrow> bool" where
  "figure_ok f \<longleftrightarrow> list_all drawing (drawn f)"

definition plt_ok :: "plt_state \<Rightarrow> bool" where
  "plt_ok s \<longleftrightarrow> list_all figure_ok (stack s) \<and> list_all (\<lambda>(p, f). figure_ok f) (stored s)"

lemma plt_run_Nil [simp]: "plt_run s [] = s"
  and plt_run_Cons [simp]: "plt_run s (op # ops) = plt_run (plt_exec s op) ops"
  and plt_run_append [simp]: "plt_run s (ops @ ops') = plt_run (plt_run s ops) ops'"
  by (simp_all add: plt_run_def)

lemma current_nonempty [simp]: "current st \<noteq> []"
  by (simp add: current_def)

lemma current_Cons [simp]: "current (f # fs) = f # fs"
  by (simp add: current_def)

lemma length_current: "length (current st) = max (length st) 1"
  by (cases st) (simp_all add: current_def)

lemma draw_Cons [simp]: "draw op (f # fs) = f\<lparr>drawn := drawn f @ [op]\<rparr> # fs"
  by (simp add: draw_def)

lemma draw_Nil [simp]: "draw op [] = [\<lparr>fig_size = None, drawn = [op]\<rparr>]"
  by (simp add: draw_def current_def blank_def)

lemma length_draw: "length (draw op st) = max (length st) 1"
  by (cases st) simp_all

text \<open>The counter of open figures is the height of the stack.\<close>

lemma stack_height_exec: "length (stack (plt_exec s op)) = plt_step (length (stack s)) op"
  by (cases op) (simp_all add: length_current length_draw)

lemma stack_height_run: "length (stack (plt_run s ops)) = open_figures (length (stack s)) ops"
  by (induction ops arbitrary: s) (simp_all add: stack_height_exec)

lemma stored_paths_exec: "map fst (stored (plt_exec s op)) = rev (saved_path op) @ map fst (stored s)"
  by (cases op) simp_all

lemma stored_paths_run: "map fst (stored (plt_run s ops)) = rev (saved ops) @ map fst (stored s)"
  by (induction ops arbitrary: s) (simp_all add: stored_paths_exec)

text \<open>Only drawing calls end up on a figure.\<close>

lemma figure_ok_blank [simp]: "figure_ok blank"
  by (simp add: figure_ok_def blank_def)

lemma current_ok: "list_all figure_ok st \<Longrightarrow> list_all figure_ok (current st)"
  by (simp add: current_def)

lemma draw_ok: "drawing op \<Longrightarrow> list_all figure_ok st \<Longrightarrow> list_all figure_ok (draw op st)"
  by (cases st) (simp_all add: figure_ok_def)

lemma plt_exec_ok: "plt_ok s \<Longrightarrow> plt_ok (plt_exec s op)"
proof (cases op)
  case (PltSavefig p)
  assume "plt_ok s"
  then have "list_all figure_ok (current (stack s))" by (simp add: plt_ok_def current_ok)
  moreover from this have "figure_ok (hd (current (stack s)))"
    by (cases "current (stack s)") simp_all
  ultimately show ?thesis using \<open>plt_ok s\<close> by (simp add: PltSavefig plt_ok_def)
next
  case PltClose
  assume "plt_ok s"
  then show ?thesis by (cases "stack s") (simp_all add: PltClose plt_ok_def)
qed (simp_all add: plt_ok_def draw_ok figure_ok_def blank_def)

lemma plt_reachable_ok: "plt_reachable s \<Longrightarrow> plt_ok s"
  by (induction rule: plt_reachable.induct) (simp_all add: plt_exec_ok, simp add: plt_ok_def plt_init_def)

lemma plt_reachable_run: "plt_reachable s \<Longrightarrow> plt_reachable (plt_run s ops)"
  by (induction ops arbitrary: s) (simp_all add: plt_reachable.call)

end
