(* ===== verification/Plots.thy ===== *)
theory Plots
  imports Sprinkler Pyplot
begin

text \<open>
  The plots of the membership functions (\<^verbatim>\<open>src/fuzzy.py\<close>, lines 43 to 66) and the final
  clean-up (line 293).  The directory of the figures is created when it is missing;
  then, for each of the three variables, the program opens a figure, adds a subplot,
  lets the variable draw itself, sets a title, saves and closes.  The lemmas give the
  files written and count the figures: the variable draws into a figure of its own,
  so the figure the program opened first stays open, one per plot, until the clean-up
  closes them all.
\<close>

section \<open>The directory of the figures\<close>

definition ensure_screenshots :: "string set \<Rightarrow> string set" where
  "ensure_screenshots files =
     (if ''screenshots'' \<notin> files then insert ''screenshots'' files else files)"

section \<open>The three plots\<close>

definition soil_plot :: "plt_op list result" where
  "soil_plot =
     rbind soil_moisture (\<lambda>v.
     Inr [PltFigureSized 12 8, PltSubplot 311, PltView (v_label v),
          PltTitle [Lit ''Soil Moisture Membership Functions''],
          PltSavefig [Lit ''screenshots/soil_moisture_mf.png''], PltClose])"

definition temperature_plot :: "plt_op list result" where
  "temperature_plot =
     rbind temperature (\<lambda>v.
     Inr [PltFigureSized 12 8, PltSubplot 311, PltView (v_label v),
          PltTitle [Lit ''Temperature Membership Functions''],
          PltSavefig [Lit ''screenshots/temperature_mf.png''], PltClose])"

definition water_plot :: "plt_op list result" where
  "water_plot =
     rbind water_sprinkle (\<lambda>v.
     Inr [PltFigureSized 12 8, PltSubplot 311, PltView (v_label v),
          PltTitle [Lit ''Water Sprinkling Membership Functions''],
          PltSavefig [Lit ''screenshots/water_sprinkle_mf.png''], PltClose])"

definition membership_plots :: "plt_op list result" where
  "membership_plots =
     rbind soil_plot (\<lambda>a. rbind temperature_plot (\<lambda>b. rbind water_plot (\<lambda>c. Inr (a @ b @ c))))"

definition cleanup :: "plt_op list" where
  "cleanup = [PltCloseAll]"

section \<open>The directory\<close>

lemma ensure_screenshots_eq: "ensure_screenshots files = insert ''screenshots'' files"
  by (auto simp: ensure_screenshots_def)

lemma ensure_screenshots_idem: "ensure_screenshots (ensure_screenshots files) = ensure_screenshots files"
  by (simp add: ensure_screenshots_eq)

section \<open>The traces\<close>

definition mf_plot_paths :: "fstring list" where
  "mf_plot_paths =
     [[Lit ''screenshots/soil_moisture_mf.png''], [Lit ''screenshots/temperature_mf.png''],
      [Lit ''screenshots/water_sprinkle_mf.png'']]"

lemmas plot_defs = soil_plot_def temperature_plot_def water_plot_def
  soil_moisture_value temperature_value water_sprinkle_value

lemma plots_ok: "is_ok soil_plot" "is_ok temperature_plot" "is_ok water_plot" "is_ok membership_plots"
  by (simp_all add: membership_plots_def plot_defs)

lemma plot_saved:
  "soil_plot = Inr ops \<Longrightarrow> saved ops = [[Lit ''screenshots/soil_moisture_mf.png'']]"
  "temperature_plot = Inr ops \<Longrightarrow> saved ops = [[Lit ''screenshots/temperature_mf.png'']]"
  "water_plot = Inr ops \<Longrightarrow> saved ops = [[Lit ''screenshots/water_sprinkle_mf.png'']]"
  by (auto simp: plot_defs)

lemma plot_figures:
  assumes "soil_plot = Inr ops \<or> temperature_plot = Inr ops \<or> water_plot = Inr ops"
  shows "open_figures n ops = Suc n" and "peak n ops = Suc (Suc n)"
  using assms by (auto simp: plot_defs)

lemma membership_plots_Inr:
  assumes "membership_plots = Inr ops"
  obtains a b c where "soil_plot = Inr a" and "temperature_plot = Inr b" and "water_plot = Inr c"
    and "ops = a @ b @ c"
  using assms by (auto simp: membership_plots_def rbind_eq_Inr_iff)

lemma membership_plots_saved: "membership_plots = Inr ops \<Longrightarrow> saved ops = mf_plot_paths"
  by (erule membership_plots_Inr) (simp add: plot_saved mf_plot_paths_def)

lemma membership_plots_figures:
  assumes "membership_plots = Inr ops"
  shows "open_figures n ops = n + 3" and "peak n ops = n + 4"
proof -
  from assms obtain a b c where a: "soil_plot = Inr a" and b: "temperature_plot = Inr b"
    and c: "water_plot = Inr c" and ops: "ops = a @ b @ c"
    by (rule membership_plots_Inr)
  have fig: "open_figures k a = Suc k" "open_figures k b = Suc k" "open_figures k c = Suc k"
    and pk: "peak k a = Suc (Suc k)" "peak k b = Suc (Suc k)" "peak k c = Suc (Suc k)" for k
    using a b c by (simp_all add: plot_figures)
  show "open_figures n ops = n + 3" by (simp add: ops fig)
  show "peak n ops = n + 4" by (simp add: ops peak_append fig pk)
qed

lemma cleanup_closes: "open_figures n (ops @ cleanup) = 0"
  by (simp add: cleanup_def)

section \<open>The figures that are saved and those that stay open\<close>

definition sized_figure :: figure where
  "sized_figure = \<lparr>fig_size = Some (12, 8), drawn = [PltSubplot 311]\<rparr>"

definition view_figure :: "string \<Rightarrow> string \<Rightarrow> figure" where
  "view_figure l t = \<lparr>fig_size = None, drawn = [PltView l, PltTitle [Lit t]]\<rparr>"

lemma plot_run:
  "soil_plot = Inr ops \<Longrightarrow> plt_run st ops =
     st\<lparr>stack := sized_figure # stack st,
        stored := ([Lit ''screenshots/soil_moisture_mf.png''],
                   view_figure ''Soil Moisture'' ''Soil Moisture Membership Functions'') # stored st\<rparr>"
  "temperature_plot = Inr ops \<Longrightarrow> plt_run st ops =
     st\<lparr>stack := sized_figure # stack st,
        stored := ([Lit ''screenshots/temperature_mf.png''],
                   view_figure ''Temperature'' ''Temperature Membership Functions'') # stored st\<rparr>"
  "water_plot = Inr ops \<Longrightarrow> plt_run st ops =
     st\<lparr>stack := sized_figure # stack st,
        stored := ([Lit ''screenshots/water_sprinkle_mf.png''],
                   view_figure ''Water Sprinkling'' ''Water Sprinkling Membership Functions'') # stored st\<rparr>"
  by (auto simp: plot_defs sized_figure_def view_figure_def)

definition plot_figures :: "(fstring \<times> figure) list" where
  "plot_figures =
     [([Lit ''screenshots/soil_moisture_mf.png''],
       view_figure ''Soil Moisture'' ''Soil Moisture Membership Functions''),
      ([Lit ''screenshots/temperature_mf.png''],
       view_figure ''Temperature'' ''Temperature Membership Functions''),
      ([Lit ''screenshots/water_sprinkle_mf.png''],
       view_figure ''Water Sprinkling'' ''Water Sprinkling Membership Functions'')]"

lemma membership_plots_run:
  assumes "membership_plots = Inr ops"
  shows "plt_run st ops =
     st\<lparr>stack := [sized_figure, sized_figure, sized_figure] @ stack st,
        stored := rev plot_figures @ stored st\<rparr>"
proof -
  from assms obtain a b c where "soil_plot = Inr a" "temperature_plot = Inr b" "water_plot = Inr c"
    and ops: "ops = a @ b @ c"
    by (rule membership_plots_Inr)
  then show ?thesis by (simp add: ops plot_run plot_figures_def)
qed

end
