(* ===== verification/Scenarios.thy ===== *)
theory Scenarios
  imports Sprinkler
begin

text \<open>
  Ground evaluation of the controller: the firing strengths and the crisp output at
  the four reference readings of the specification and the fact that each of the ten
  test cases of the program fires at least one rule.  The centroid is evaluated over
  the 101 sample points of the output universe by rewriting, one reading per lemma.
\<close>

section \<open>Evaluating a centroid over the output universe\<close>

lemmas fire_defs = fire_high_def fire_medium_def fire_low_def

lemmas centroid_eval =
  crisp_def centroid_def curve_area_def curve_moment_def samples_percent_unfold degree_def

lemma sprinkle_curve_high_only:
  "fire_medium s t = 0 \<Longrightarrow> fire_low s t = 0 \<Longrightarrow>
     sprinkle_curve s t = (\<lambda>x. min (fire_high s t) (degree (tri 50 100 100) x))"
  by (rule ext) (simp add: sprinkle_curve_def clipped_def)

lemma sprinkle_curve_medium_only:
  "fire_high s t = 0 \<Longrightarrow> fire_low s t = 0 \<Longrightarrow>
     sprinkle_curve s t = (\<lambda>x. min (fire_medium s t) (degree (tri 20 50 80) x))"
  by (rule ext) (simp add: sprinkle_curve_def clipped_def)

lemma sprinkle_curve_low_only:
  "fire_high s t = 0 \<Longrightarrow> fire_medium s t = 0 \<Longrightarrow>
     sprinkle_curve s t = (\<lambda>x. min (fire_low s t) (degree (tri 0 0 50) x))"
  by (rule ext) (simp add: sprinkle_curve_def clipped_def)

section \<open>The reference readings\<close>

lemma fire_10_40: "fire_high 10 40 = 1 / 2" "fire_medium 10 40 = 0" "fire_low 10 40 = 0"
  by (simp_all add: fire_defs degree_def)

lemma crisp_10_40: "crisp 10 40 = Inr (3071 / 38)"
  by (simp add: crisp_def sprinkle_curve_high_only fire_10_40)
     (simp add: centroid_eval)

lemma fire_90_15: "fire_high 90 15 = 0" "fire_medium 90 15 = 0" "fire_low 90 15 = 4 / 5"
  by (simp_all add: fire_defs degree_def)

lemma crisp_90_15: "crisp 90 15 = Inr (1033 / 61)"
  by (simp add: crisp_def sprinkle_curve_low_only fire_90_15)
     (simp add: centroid_eval)

lemma fire_50_25: "fire_high 50 25 = 0" "fire_medium 50 25 = 1" "fire_low 50 25 = 0"
  by (simp_all add: fire_defs degree_def)

lemma crisp_50_25: "crisp 50 25 = Inr 50"
  by (simp add: crisp_def sprinkle_curve_medium_only fire_50_25)
     (simp add: centroid_eval)

lemma fire_50_10: "fire_high 50 10 = 0" "fire_medium 50 10 = 0" "fire_low 50 10 = 1 / 2"
  by (simp_all add: fire_defs degree_def)

lemma crisp_50_10: "crisp 50 10 = Inr (729 / 38)"
  by (simp add: crisp_def sprinkle_curve_low_only fire_50_10)
     (simp add: centroid_eval)

section \<open>The test cases\<close>

lemma test_cases_in_range:
  "\<forall>(s, t)\<in>set test_cases. 0 \<le> s \<and> s \<le> 100 \<and> 0 \<le> t \<and> t \<le> 50"
  by (simp add: test_cases_def)

lemma test_cases_covered:
  "\<forall>(s, t)\<in>set test_cases. \<not> ((s = 50 \<and> 40 \<le> t) \<or> (s \<le> 20 \<and> t \<le> 10))"
  by (simp add: test_cases_def)

end
