(* ===== verification/Interp.thy ===== *)
theory Interp
  imports Membership
begin

text \<open>
  Reading a sampled membership curve between its sample points: piecewise linear
  interpolation over the sample points of a universe, zero outside them.  This is what
  the plotting code of the program calls to turn a sampled curve and a crisp value
  into a bar height.  The lemmas show that interpolation returns the sampled value at
  every sample point, stays between the smallest and largest sampled value, and is
  exact for a function that is affine between consecutive sample points; this is the
  case for a triangular term whose breakpoints are sample points and whose vertical
  flanks, if any, sit at the ends of the universe (\<open>on_grid\<close>).
\<close>

section \<open>Interpolation\<close>

fun interp :: "(real \<times> real) list \<Rightarrow> real \<Rightarrow> real" where
  "interp [] x = 0"
| "interp [(x0, y0)] x = y0"
| "interp ((x0, y0) # (x1, y1) # ps) x =
     (if x \<le> x1 then y0 + (x - x0) * (y1 - y0) / (x1 - x0) else interp ((x1, y1) # ps) x)"

definition interp_membership :: "real list \<Rightarrow> real list \<Rightarrow> real \<Rightarrow> real" where
  "interp_membership xs ys x =
     (if xs = [] \<or> x < hd xs \<or> last xs < x then 0 else interp (zip xs ys) x)"

section \<open>Functions that interpolation reproduces\<close>

definition affine_between :: "(real \<Rightarrow> real) \<Rightarrow> real \<Rightarrow> real \<Rightarrow> bool" where
  "affine_between f p q \<longleftrightarrow>
     (\<forall>x. p \<le> x \<and> x \<le> q \<longrightarrow> f x = f p + (x - p) * (f q - f p) / (q - p))"

definition steps :: "universe \<Rightarrow> (real \<times> real) list" where
  "steps u = zip (samples u) (tl (samples u))"

definition on_grid :: "universe \<Rightarrow> mf \<Rightarrow> bool" where
  "on_grid u m \<longleftrightarrow>
     list_all (\<lambda>(p, q). (mf_a m \<le> p \<or> q \<le> mf_a m) \<and> (mf_b m \<le> p \<or> q \<le> mf_b m) \<and>
                         (mf_c m \<le> p \<or> q \<le> mf_c m)) (steps u) \<and>
     umin u \<le> mf_a m \<and> mf_c m \<le> last (samples u) \<and>
     (mf_a m < mf_b m \<or> mf_a m = umin u) \<and> (mf_b m < mf_c m \<or> mf_c m = last (samples u))"

section \<open>Sample points\<close>

lemma interp_at_sample:
  "sorted_wrt (<) xs \<Longrightarrow> x \<in> set xs \<Longrightarrow> interp (zip xs (map f xs)) x = f x"
proof (induction xs rule: induct_list012)
  case (3 a b xs)
  from "3.prems"(1) have ab: "a < b" and rest: "\<forall>y\<in>set xs. b < y" and sorted: "sorted_wrt (<) (b # xs)"
    by auto
  show ?case
  proof (cases "x \<le> b")
    case True
    with "3.prems"(2) rest have "x = a \<or> x = b" by auto
    with ab True show ?thesis by auto
  next
    case False
    with "3.prems"(2) ab have "x \<in> set (b # xs)" by auto
    from "3.IH"(2) [OF sorted this] False show ?thesis by simp
  qed
qed simp_all

lemma interp_membership_outside:
  "x < hd xs \<or> last xs < x \<Longrightarrow> interp_membership xs ys x = 0"
  by (simp add: interp_membership_def)

lemma sorted_hd_le: "sorted xs \<Longrightarrow> x \<in> set xs \<Longrightarrow> hd xs \<le> (x::real)"
  by (cases xs) auto

lemma sorted_le_last: "sorted xs \<Longrightarrow> x \<in> set xs \<Longrightarrow> (x::real) \<le> last xs"
  by (induction xs) auto

lemma interp_membership_at_sample:
  assumes "sorted_wrt (<) xs" and "x \<in> set xs"
  shows "interp_membership xs (map f xs) x = f x"
proof -
  from assms(1) have "sorted xs" by (rule strict_sorted_imp_sorted)
  with assms(2) have "hd xs \<le> x" and "x \<le> last xs"
    by (simp_all add: sorted_hd_le sorted_le_last)
  moreover from assms(2) have "xs \<noteq> []" by auto
  ultimately show ?thesis using assms by (simp add: interp_membership_def interp_at_sample)
qed

lemma interp_membership_samples:
  assumes "wf_universe u" and "x \<in> set (samples u)"
  shows "interp_membership (samples u) (map f (samples u)) x = f x"
  using assms by (simp add: interp_membership_at_sample strict_sorted_iff sorted_samples distinct_samples)

section \<open>Bounds\<close>

lemma interp_between:
  assumes "sorted_wrt (<) (map fst ps)" and "\<forall>p\<in>set ps. lo \<le> snd p \<and> snd p \<le> hi"
    and "ps \<noteq> []" and "fst (hd ps) \<le> x"
  shows "lo \<le> interp ps x \<and> interp ps x \<le> hi"
  using assms
proof (induction ps x rule: interp.induct)
  case (3 x0 y0 x1 y1 ps x)
  show ?case
  proof (cases "x \<le> x1")
    case True
    from "3.prems" have lt: "x0 < x1" and x0: "x0 \<le> x"
      and y0: "lo \<le> y0" "y0 \<le> hi" and y1: "lo \<le> y1" "y1 \<le> hi" by auto
    define t where "t = (x - x0) / (x1 - x0)"
    from lt x0 True have t: "0 \<le> t" "t \<le> 1" by (simp_all add: t_def)
    have "(x - x0) * (y1 - y0) / (x1 - x0) = t * (y1 - y0)"
      by (simp add: t_def)
    with True have val: "interp ((x0, y0) # (x1, y1) # ps) x = (1 - t) * y0 + t * y1"
      by (simp add: algebra_simps)
    have "(1 - t) * lo + t * lo \<le> (1 - t) * y0 + t * y1"
      using t y0 y1 by (intro add_mono mult_left_mono) simp_all
    moreover have "(1 - t) * y0 + t * y1 \<le> (1 - t) * hi + t * hi"
      using t y0 y1 by (intro add_mono mult_left_mono) simp_all
    ultimately show ?thesis unfolding val by (simp add: algebra_simps)
  next
    case False
    with "3.IH" "3.prems" show ?thesis by auto
  qed
qed simp_all

lemma interp_membership_between:
  assumes "sorted_wrt (<) xs" and "length ys = length xs" and "\<forall>y\<in>set ys. 0 \<le> y \<and> y \<le> hi"
    and "0 \<le> hi"
  shows "0 \<le> interp_membership xs ys x \<and> interp_membership xs ys x \<le> hi"
proof (cases "xs = [] \<or> x < hd xs \<or> last xs < x")
  case True
  with assms(4) show ?thesis by (auto simp: interp_membership_def)
next
  case False
  have "sorted_wrt (<) (map fst (zip xs ys))" using assms(1,2) by simp
  moreover have "\<forall>p\<in>set (zip xs ys). 0 \<le> snd p \<and> snd p \<le> hi"
    using assms(3) by (auto dest: set_zip_rightD)
  moreover have "zip xs ys \<noteq> []" using False assms(2) by (cases xs; cases ys) auto
  moreover have "fst (hd (zip xs ys)) \<le> x" using False assms(2) by (cases xs; cases ys) auto
  ultimately show ?thesis using False interp_between [of "zip xs ys" 0 hi x]
    by (simp add: interp_membership_def)
qed

section \<open>Exactness on affine pieces\<close>

lemma affine_between_linear:
  assumes "p < q" and "\<And>x. p \<le> x \<Longrightarrow> x \<le> q \<Longrightarrow> f x = s * x + d"
  shows "affine_between f p q"
proof -
  have eq: "f p + (x - p) * (f q - f p) / (q - p) = s * x + d" for x
  proof -
    from assms have "f q - f p = s * (q - p)" by (simp add: algebra_simps)
    with assms(1) have "(x - p) * (f q - f p) / (q - p) = (x - p) * s" by simp
    with assms show ?thesis by (simp add: algebra_simps)
  qed
  show ?thesis
    unfolding affine_between_def
  proof (intro allI impI)
    fix x assume "p \<le> x \<and> x \<le> q"
    then have "f x = s * x + d" by (simp add: assms(2))
    also have "\<dots> = f p + (x - p) * (f q - f p) / (q - p)" by (rule eq [symmetric])
    finally show "f x = f p + (x - p) * (f q - f p) / (q - p)" .
  qed
qed

lemma interp_affine:
  "sorted_wrt (<) xs \<Longrightarrow> \<forall>(p, q)\<in>set (zip xs (tl xs)). affine_between f p q \<Longrightarrow>
     xs \<noteq> [] \<Longrightarrow> hd xs \<le> x \<Longrightarrow> x \<le> last xs \<Longrightarrow> interp (zip xs (map f xs)) x = f x"
proof (induction xs rule: induct_list012)
  case (3 a b xs)
  show ?case
  proof (cases "x \<le> b")
    case True
    from "3.prems"(2) have "affine_between f a b" by simp
    then have "a \<le> x \<and> x \<le> b \<longrightarrow> f x = f a + (x - a) * (f b - f a) / (b - a)"
      unfolding affine_between_def by (rule spec)
    with True "3.prems"(4) have "f x = f a + (x - a) * (f b - f a) / (b - a)" by simp
    with True show ?thesis by simp
  next
    case False
    have "sorted_wrt (<) (b # xs)" using "3.prems"(1) by simp
    moreover have "\<forall>(p, q)\<in>set (zip (b # xs) (tl (b # xs))). affine_between f p q"
      using "3.prems"(2) by simp
    moreover have "hd (b # xs) \<le> x" using False by simp
    moreover have "x \<le> last (b # xs)" using "3.prems"(5) by simp
    ultimately have "interp (zip (b # xs) (map f (b # xs))) x = f x"
      by (intro "3.IH"(2)) simp_all
    with False show ?thesis by simp
  qed
next
  case (2 a)
  then have "x = a" by simp
  then show ?case by simp
qed simp


lemma degree_affine_between:
  assumes wf: "wf_mf m" and pq: "p < q"
    and a: "mf_a m \<le> p \<or> q \<le> mf_a m" and b: "mf_b m \<le> p \<or> q \<le> mf_b m"
    and c: "mf_c m \<le> p \<or> q \<le> mf_c m"
    and left: "mf_a m < mf_b m \<or> mf_a m \<le> p" and right: "mf_b m < mf_c m \<or> q \<le> mf_c m"
  shows "affine_between (degree m) p q"
proof -
  from wf have abc: "mf_a m \<le> mf_b m" "mf_b m \<le> mf_c m" by (simp_all add: wf_mf_def)
  consider "q \<le> mf_a m" | "mf_a m \<le> p" "q \<le> mf_b m" | "mf_b m \<le> p" "q \<le> mf_c m"
    | "mf_c m \<le> p"
    using a b c by blast
  then show ?thesis
  proof cases
    case 1
    with pq left have "mf_a m < mf_b m" by linarith
    with 1 have "degree m x = 0 * x + 0" if "x \<le> q" for x
      using that by (simp add: degree_def)
    with pq show ?thesis by (intro affine_between_linear [where s = 0 and d = 0]) simp_all
  next
    case 2
    with pq have lt: "mf_a m < mf_b m" by linarith
    have "degree m x = (1 / (mf_b m - mf_a m)) * x + (- mf_a m / (mf_b m - mf_a m))"
      if "p \<le> x" "x \<le> q" for x
    proof -
      from that 2 have "mf_a m \<le> x" "x \<le> mf_b m" by linarith+
      with lt have "degree m x = (x - mf_a m) / (mf_b m - mf_a m)"
        by (auto simp: degree_def)
      then show ?thesis by (simp add: diff_divide_distrib)
    qed
    with pq show ?thesis by (rule affine_between_linear)
  next
    case 3
    with pq have lt: "mf_b m < mf_c m" by linarith
    have "degree m x = (- 1 / (mf_c m - mf_b m)) * x + (mf_c m / (mf_c m - mf_b m))"
      if "p \<le> x" "x \<le> q" for x
    proof -
      from that 3 have "mf_b m \<le> x" "x \<le> mf_c m" by linarith+
      with lt abc have "degree m x = (mf_c m - x) / (mf_c m - mf_b m)"
        by (auto simp: degree_def)
      then show ?thesis by (simp add: diff_divide_distrib)
    qed
    with pq show ?thesis by (rule affine_between_linear)
  next
    case 4
    with pq right have "mf_b m < mf_c m" by linarith
    with 4 abc have "degree m x = 0 * x + 0" if "p \<le> x" for x
      using that by (simp add: degree_def)
    with pq show ?thesis by (intro affine_between_linear [where s = 0 and d = 0]) simp_all
  qed
qed

section \<open>Triangular terms on the grid\<close>

lemma strict_sorted_samples: "wf_universe u \<Longrightarrow> sorted_wrt (<) (samples u)"
  by (simp add: strict_sorted_iff sorted_samples distinct_samples)

lemma steps_members:
  assumes "wf_universe u" and "(p, q) \<in> set (steps u)"
  shows "p < q" and "p \<in> set (samples u)" and "q \<in> set (samples u)"
proof -
  from assms(2) obtain i where i: "i < length (samples u)" "i < length (tl (samples u))"
    and p: "p = samples u ! i" and q: "q = tl (samples u) ! i"
    by (auto simp: steps_def in_set_zip)
  from i have Suc: "Suc i < sample_count u" by simp
  with q have q': "q = samples u ! Suc i" by (simp add: nth_tl)
  from samples_strict_mono [OF assms(1) _ Suc, of i] p q' show "p < q" by simp
  from i p show "p \<in> set (samples u)" by simp
  from Suc q' show "q \<in> set (samples u)" by simp
qed

lemma interp_membership_degree:
  assumes u: "wf_universe u" and m: "wf_mf m" and grid: "on_grid u m"
  shows "interp_membership (samples u) (map (degree m) (samples u)) x = degree m x"
proof (cases "x < hd (samples u) \<or> last (samples u) < x")
  case True
  with grid have "x < mf_a m \<or> mf_c m < x" by (auto simp: on_grid_def hd_samples)
  with m True show ?thesis by (simp add: interp_membership_def degree_outside)
next
  case False
  have "affine_between (degree m) p q" if pq: "(p, q) \<in> set (steps u)" for p q
  proof -
    note mem = steps_members [OF u pq]
    from mem(2) u have "umin u \<le> p" by (simp add: samples_in_bounds)
    moreover from mem(3) u have "q \<le> last (samples u)"
      by (simp add: sorted_le_last sorted_samples)
    ultimately show ?thesis
      using grid pq mem(1) by (intro degree_affine_between [OF m]) (auto simp: on_grid_def list_all_iff)
  qed
  then have "\<forall>(p, q)\<in>set (zip (samples u) (tl (samples u))). affine_between (degree m) p q"
    by (auto simp: steps_def)
  from interp_affine [OF strict_sorted_samples [OF u] this] False show ?thesis
    by (simp add: interp_membership_def)
qed


section \<open>Unit-step integer ranges\<close>

lemma steps_arange_unit:
  assumes "lo < hi" and "(p, q) \<in> set (steps (arange lo hi 1))"
  obtains k where "p = of_int k" and "q = of_int (k + 1)"
proof -
  let ?xs = "samples (arange lo hi 1)"
  from assms(2) obtain i where i: "i < length ?xs" "i < length (tl ?xs)"
    and p: "p = ?xs ! i" and q: "q = tl ?xs ! i"
    by (auto simp: steps_def in_set_zip)
  from i have Suc: "Suc i < nat (hi - lo)" by (simp add: sample_count_arange_unit [OF assms(1)])
  with q have q': "q = ?xs ! Suc i" by (simp add: nth_tl sample_count_arange_unit [OF assms(1)])
  from Suc p have "p = of_int (lo + int i)" by (simp add: samples_arange_unit [OF assms(1)])
  moreover from Suc q' have "q = of_int (lo + int i + 1)"
    by (simp add: samples_arange_unit [OF assms(1)])
  ultimately show ?thesis by (rule that)
qed

lemma last_samples_arange_unit:
  assumes "lo < hi"
  shows "last (samples (arange lo hi 1)) = of_int (hi - 1)"
proof -
  from assms have "[0..<nat (hi - lo)] \<noteq> []" by simp
  then have "last (samples (arange lo hi 1)) = of_int lo + real (last [0..<nat (hi - lo)])"
    by (simp add: samples_arange_unit [OF assms] last_map)
  also from assms have "last [0..<nat (hi - lo)] = nat (hi - lo) - 1" by (simp add: last_upt)
  finally show ?thesis using assms by (simp add: of_nat_diff)
qed

lemma int_outside_step: "real_of_int a \<le> of_int k \<or> of_int (k + 1) \<le> real_of_int a"
  unfolding of_int_le_iff by linarith

lemma on_grid_arange_unit:
  assumes "lo < hi" and "lo \<le> a" and "c \<le> hi - 1"
    and "a < b \<or> a = lo" and "b < c \<or> c = hi - 1"
  shows "on_grid (arange lo hi 1) \<lparr>mf_a = of_int a, mf_b = of_int b, mf_c = of_int c\<rparr>"
proof -
  have "(real_of_int a \<le> p \<or> q \<le> real_of_int a) \<and> (real_of_int b \<le> p \<or> q \<le> real_of_int b) \<and>
      (real_of_int c \<le> p \<or> q \<le> real_of_int c)"
    if "(p, q) \<in> set (steps (arange lo hi 1))" for p q
    using steps_arange_unit [OF assms(1) that] int_outside_step by metis
  moreover have "umin (arange lo hi 1) = of_int lo" by (simp add: arange_def)
  ultimately show ?thesis
    using assms by (auto simp: on_grid_def list_all_iff last_samples_arange_unit)
qed

end
