(* ===== verification/Driver.thy ===== *)
theory Driver
  imports Scenarios Interp Pyplot
begin

text \<open>
  The test driver of the program (the loop of \<^verbatim>\<open>src/fuzzy.py\<close>, lines 82 to 99): every test
  case is fed to the simulation, and one figure is drawn and saved for it.  The calls
  to the plotting library are a trace of \<open>plt_op\<close> values.  A test case for which
  no rule fires stops the loop with the error of the engine; the figures saved before
  it stay saved, which \<open>run_cases\<close> records by returning the trace next to the result.
  The library raises that error inside \<^verbatim>\<open>compute()\<close> (line 85), before the figure of
  the iteration is opened; the model keeps the error in the results of the simulation,
  and \<open>plot_case\<close> reads the output before its first plotting call, so that an
  iteration that fails leaves no call in the trace.

  The lemmas characterise the run completely (which cases are plotted, which paths are
  written, when it stops), show that every figure it opens is closed again, and give
  the heights of the bars that are drawn.
\<close>

section \<open>One test case\<close>

definition case_title :: "int \<times> int \<Rightarrow> real \<Rightarrow> fstring" where
  "case_title c y =
     [Lit ''Soil: '', IntField (fst c), Lit ''% | Temp: '', IntField (snd c),
      Lit (degree_sign @ ''C | Sprinkle: ''), FixedField 2 y, Lit ''%'']"

definition membership_bar :: "string list \<Rightarrow> variable \<Rightarrow> string \<Rightarrow> real \<Rightarrow> plt_op result" where
  "membership_bar names v n x =
     rbind (sample_term v n)
       (\<lambda>ys. Inr (PltBar names (interp_membership (samples (v_universe v)) ys x)))"

definition case_bars :: "int \<times> int \<Rightarrow> real \<Rightarrow> plt_op list result" where
  "case_bars c y =
     rbind soil_moisture (\<lambda>sm.
     rbind (membership_bar [''Dry'', ''Moist'', ''Wet''] sm ''dry'' (of_int (fst c))) (\<lambda>b1.
     rbind temperature (\<lambda>tv.
     rbind (membership_bar [''Cold'', ''Warm'', ''Hot''] tv ''cold'' (of_int (snd c))) (\<lambda>b2.
     rbind water_sprinkle (\<lambda>ws.
     rbind (membership_bar [''Low'', ''Medium'', ''High''] ws ''low'' y) (\<lambda>b3.
     Inr [b1, b2, b3]))))))"

definition screenshot_path :: "nat \<Rightarrow> fstring" where
  "screenshot_path i = [Lit ''screenshots/output_'', IntField (int i), Lit ''.png'']"

definition plot_case :: "nat \<Rightarrow> int \<times> int \<Rightarrow> simulation \<Rightarrow> plt_op list result" where
  "plot_case i c s =
     rbind (output_of s ''Water Sprinkling'') (\<lambda>y.
     rbind (case_bars c y) (\<lambda>bars.
     Inr ([PltFigure, PltTitle (case_title c y), PltXlabel ''Inputs'',
           PltYlabel ''Sprinkling Intensity''] @ bars @
          [PltSavefig (screenshot_path i), PltClose])))"

section \<open>The loop\<close>

fun run_cases :: "nat \<Rightarrow> (int \<times> int) list \<Rightarrow> simulation \<Rightarrow> plt_op list \<times> simulation result" where
  "run_cases i [] s = ([], Inr s)"
| "run_cases i (c # cs) s =
     (let s' = run_case s c in
      case plot_case i c s' of
        Inl e \<Rightarrow> ([], Inl e)
      | Inr ops \<Rightarrow> (let (ops', r) = run_cases (Suc i) cs s' in (ops @ ops', r)))"

definition test_run :: "plt_op list \<times> simulation result" where
  "test_run =
     (case sprinkler of Inl e \<Rightarrow> ([], Inl e) | Inr s \<Rightarrow> run_cases 0 test_cases s)"

section \<open>Test cases that fire\<close>

definition fires :: "int \<times> int \<Rightarrow> bool" where
  "fires c \<longleftrightarrow> is_ok (crisp (of_int (fst c)) (of_int (snd c)))"

section \<open>Sample points of the input universes\<close>

lemma samples_celsius: "samples celsius = map real [0..<51]"
  by (simp add: samples_def sample_count_def)

lemma int_in_samples_percent: "0 \<le> k \<Longrightarrow> k \<le> 100 \<Longrightarrow> of_int k \<in> set (samples percent)"
  by (auto simp: samples_percent image_iff intro!: bexI [of _ "nat k"])

lemma int_in_samples_celsius: "0 \<le> k \<Longrightarrow> k \<le> 50 \<Longrightarrow> of_int k \<in> set (samples celsius)"
  by (auto simp: samples_celsius image_iff intro!: bexI [of _ "nat k"])

section \<open>The bars\<close>

lemma membership_bar_Inr:
  "term_of v n = Inr m \<Longrightarrow>
     membership_bar names v n x =
       Inr (PltBar names (interp_membership (samples (v_universe v))
                            (map (degree m) (samples (v_universe v))) x))"
  by (simp add: membership_bar_def sample_term_def)

lemma membership_bar_at_sample:
  "term_of v n = Inr m \<Longrightarrow> wf_universe (v_universe v) \<Longrightarrow> x \<in> set (samples (v_universe v)) \<Longrightarrow>
     membership_bar names v n x = Inr (PltBar names (degree m x))"
  by (simp add: membership_bar_Inr interp_membership_samples)

lemma membership_bar_error: "membership_bar names v n x = Inl e \<Longrightarrow> e = UnknownTerm"
  by (auto simp: membership_bar_def sample_term_def rbind_eq_Inl_iff dest: term_of_error)

lemma on_grid_percent:
  assumes "0 \<le> a" and "c \<le> 100" and "a < b \<or> a = 0" and "b < c \<or> c = 100"
  shows "on_grid percent (tri (of_int a) (of_int b) (of_int c))"
  using on_grid_arange_unit [of 0 101 a c b] assms by (simp add: arange_def)

lemma on_grid_celsius:
  assumes "0 \<le> a" and "c \<le> 50" and "a < b \<or> a = 0" and "b < c \<or> c = 50"
  shows "on_grid celsius (tri (of_int a) (of_int b) (of_int c))"
  using on_grid_arange_unit [of 0 51 a c b] assms by (simp add: arange_def)

lemma terms_on_grid:
  "list_all (\<lambda>(n, m). on_grid (v_universe soil_v) m) (v_terms soil_v)"
  "list_all (\<lambda>(n, m). on_grid (v_universe temp_v) m) (v_terms temp_v)"
  "list_all (\<lambda>(n, m). on_grid (v_universe water_v) m) (v_terms water_v)"
  using on_grid_percent [of 0 50 0] on_grid_percent [of 20 80 50] on_grid_percent [of 50 100 100]
    on_grid_celsius [of 0 20 0] on_grid_celsius [of 10 40 25] on_grid_celsius [of 30 50 50]
  by (simp_all add: soil_v_def temp_v_def water_v_def)

lemma membership_bar_exact:
  "term_of v n = Inr m \<Longrightarrow> wf_universe (v_universe v) \<Longrightarrow> wf_mf m \<Longrightarrow>
     on_grid (v_universe v) m \<Longrightarrow> membership_bar names v n x = Inr (PltBar names (degree m x))"
  by (simp add: membership_bar_Inr interp_membership_degree)

lemma case_bars_value:
  "case_bars c y =
     Inr [PltBar [''Dry'', ''Moist'', ''Wet''] (degree (tri 0 0 50) (of_int (fst c))),
          PltBar [''Cold'', ''Warm'', ''Hot''] (degree (tri 0 0 20) (of_int (snd c))),
          PltBar [''Low'', ''Medium'', ''High''] (degree (tri 0 0 50) y)]"
  using on_grid_percent [of 0 50 0] on_grid_celsius [of 0 20 0]
  by (simp add: case_bars_def soil_moisture_value temperature_value water_sprinkle_value
      membership_bar_exact)

lemma case_bars_ok: "\<exists>b1 b2 b3. case_bars c y = Inr [b1, b2, b3]"
  by (simp add: case_bars_def soil_moisture_value temperature_value water_sprinkle_value
      membership_bar_Inr)

section \<open>One iteration\<close>

lemma plot_case_Inr:
  assumes "output_of s ''Water Sprinkling'' = Inr y"
  obtains bars where "case_bars c y = Inr bars" and "length bars = 3"
    and "plot_case i c s =
      Inr ([PltFigure, PltTitle (case_title c y), PltXlabel ''Inputs'',
            PltYlabel ''Sprinkling Intensity''] @ bars @ [PltSavefig (screenshot_path i), PltClose])"
  using assms case_bars_ok [of c y] by (auto simp: plot_case_def)

lemma plot_case_Inl:
  "output_of s ''Water Sprinkling'' = Inl e \<Longrightarrow> plot_case i c s = Inl e"
  by (simp add: plot_case_def)

lemma bars_keep_figure: "case_bars c y = Inr bars \<Longrightarrow> open_figures (Suc n) bars = Suc n"
  by (auto simp: case_bars_def membership_bar_def rbind_eq_Inr_iff)

lemma bars_save_nothing: "case_bars c y = Inr bars \<Longrightarrow> saved bars = []"
  by (auto simp: case_bars_def membership_bar_def rbind_eq_Inr_iff)

lemma plot_case_trace:
  assumes "plot_case i c s = Inr ops"
  shows "saved ops = [screenshot_path i]" and "open_figures n ops = n"
proof -
  from assms obtain y where y: "output_of s ''Water Sprinkling'' = Inr y"
    by (auto simp: plot_case_def rbind_eq_Inr_iff)
  from plot_case_Inr [OF y, of c i] obtain bars where
    bars: "case_bars c y = Inr bars" and
    "plot_case i c s = Inr ([PltFigure, PltTitle (case_title c y), PltXlabel ''Inputs'',
       PltYlabel ''Sprinkling Intensity''] @ bars @ [PltSavefig (screenshot_path i), PltClose])"
    by blast
  with assms have
    ops: "ops = [PltFigure, PltTitle (case_title c y), PltXlabel ''Inputs'',
            PltYlabel ''Sprinkling Intensity''] @ bars @ [PltSavefig (screenshot_path i), PltClose]"
    by simp
  show "saved ops = [screenshot_path i]" by (simp add: ops bars_save_nothing [OF bars])
  show "open_figures n ops = n" by (simp add: ops bars_keep_figure [OF bars])
qed

lemma bars_peak: "case_bars c y = Inr bars \<Longrightarrow> peak (Suc n) bars = Suc n"
  by (auto simp: case_bars_def membership_bar_def rbind_eq_Inr_iff)

lemma plot_case_peak:
  assumes "plot_case i c s = Inr ops"
  shows "peak n ops = Suc n"
proof -
  from assms obtain y bars where bars: "case_bars c y = Inr bars" and
    ops: "ops = [PltFigure, PltTitle (case_title c y), PltXlabel ''Inputs'',
            PltYlabel ''Sprinkling Intensity''] @ (bars @ [PltSavefig (screenshot_path i), PltClose])"
    by (auto simp: plot_case_def rbind_eq_Inr_iff)
  show ?thesis
    unfolding ops peak_append [of n "[_, _, _, _]"] peak_append [of _ bars]
    by (simp add: bars_peak [OF bars] bars_keep_figure [OF bars])
qed

lemma run_case_absorb: "run_case (run_case s c) d = run_case s d"
  by (simp add: run_case_def compute_def set_input_def fun_upd_twist)

lemma foldl_run_case: "cs \<noteq> [] \<Longrightarrow> foldl run_case s cs = run_case s (last cs)"
proof (induction cs arbitrary: s rule: rev_induct)
  case (snoc c cs)
  show ?case by (cases "cs = []") (simp_all add: snoc.IH run_case_absorb)
qed simp

lemma sim_ctrl_run_case [simp]: "sim_ctrl (run_case s c) = sim_ctrl s"
  by (simp add: run_case_def)

lemma plot_case_program:
  assumes "sim_ctrl s = ctrl_v"
  shows "is_ok (plot_case i c (run_case s c)) \<longleftrightarrow> fires c"
    and "\<not> fires c \<Longrightarrow> plot_case i c (run_case s c) = Inl NoApplicableRule"
proof -
  have out: "output_of (run_case s c) ''Water Sprinkling'' = crisp (of_int (fst c)) (of_int (snd c))"
    using output_run_case [OF assms, of "fst c" "snd c"] by simp
  show "is_ok (plot_case i c (run_case s c)) \<longleftrightarrow> fires c"
  proof (cases "crisp (of_int (fst c)) (of_int (snd c))")
    case (Inl e)
    with out show ?thesis by (simp add: plot_case_Inl fires_def)
  next
    case (Inr y)
    with out have "output_of (run_case s c) ''Water Sprinkling'' = Inr y" by simp
    from plot_case_Inr [OF this, of c i] obtain ops where "plot_case i c (run_case s c) = Inr ops"
      by blast
    with Inr show ?thesis by (simp add: fires_def)
  qed
  show "\<not> fires c \<Longrightarrow> plot_case i c (run_case s c) = Inl NoApplicableRule"
    using out by (cases "crisp (of_int (fst c)) (of_int (snd c))")
      (auto simp: fires_def plot_case_Inl dest: crisp_error)
qed

section \<open>The whole run\<close>

lemma run_cases_Cons_Inr:
  "plot_case i c (run_case s c) = Inr ops \<Longrightarrow>
     run_cases i (c # cs) s =
       (ops @ fst (run_cases (Suc i) cs (run_case s c)), snd (run_cases (Suc i) cs (run_case s c)))"
  by (simp add: split_beta Let_def)

lemma run_cases_Cons_Inl:
  "plot_case i c (run_case s c) = Inl e \<Longrightarrow> run_cases i (c # cs) s = ([], Inl e)"
  by simp

declare run_cases.simps(2) [simp del]

lemma run_cases_saved:
  "sim_ctrl s = ctrl_v \<Longrightarrow>
     saved (fst (run_cases i cs s)) = map screenshot_path [i..<i + length (takeWhile fires cs)]"
proof (induction cs arbitrary: i s)
  case (Cons c cs)
  show ?case
  proof (cases "fires c")
    case True
    with plot_case_program(1) [OF Cons.prems, of i c]
    obtain ops where ops: "plot_case i c (run_case s c) = Inr ops" by (auto simp: is_ok_iff)
    have "sim_ctrl (run_case s c) = ctrl_v" using Cons.prems by simp
    from Cons.IH [OF this, of "Suc i"] plot_case_trace(1) [OF ops] True show ?thesis
      by (simp add: run_cases_Cons_Inr [OF ops] upt_conv_Cons del: upt_Suc)
  next
    case False
    with plot_case_program(2) [OF Cons.prems, of c i] show ?thesis
      by (simp add: run_cases_Cons_Inl)
  qed
qed simp

lemma run_cases_result:
  "sim_ctrl s = ctrl_v \<Longrightarrow>
     snd (run_cases i cs s) =
       (if list_all fires cs then Inr (foldl run_case s cs) else Inl NoApplicableRule)"
proof (induction cs arbitrary: i s)
  case (Cons c cs)
  show ?case
  proof (cases "fires c")
    case True
    with plot_case_program(1) [OF Cons.prems, of i c]
    obtain ops where ops: "plot_case i c (run_case s c) = Inr ops" by (auto simp: is_ok_iff)
    have "sim_ctrl (run_case s c) = ctrl_v" using Cons.prems by simp
    from Cons.IH [OF this, of "Suc i"] True show ?thesis
      by (simp add: run_cases_Cons_Inr [OF ops])
  next
    case False
    with plot_case_program(2) [OF Cons.prems, of c i] show ?thesis
      by (simp add: run_cases_Cons_Inl)
  qed
qed simp

lemma run_cases_balanced: "open_figures n (fst (run_cases i cs s)) = n"
proof (induction cs arbitrary: i s)
  case (Cons c cs)
  show ?case
  proof (cases "plot_case i c (run_case s c)")
    case (Inl e)
    then show ?thesis by (simp add: run_cases_Cons_Inl)
  next
    case (Inr ops)
    with Cons.IH [of "Suc i" "run_case s c"] plot_case_trace(2) [OF Inr, of n] show ?thesis
      by (simp add: run_cases_Cons_Inr)
  qed
qed simp

lemma run_cases_peak: "peak n (fst (run_cases i cs s)) \<le> Suc n"
proof (induction cs arbitrary: i s)
  case (Cons c cs)
  show ?case
  proof (cases "plot_case i c (run_case s c)")
    case (Inl e)
    then show ?thesis by (simp add: run_cases_Cons_Inl)
  next
    case (Inr ops)
    with Cons.IH [of "Suc i" "run_case s c"] plot_case_trace(2) [OF Inr, of n]
      plot_case_peak [OF Inr, of n]
    show ?thesis by (simp add: run_cases_Cons_Inr peak_append)
  qed
qed simp

lemma fires_iff:
  assumes "0 \<le> fst c" "fst c \<le> 100" "0 \<le> snd c" "snd c \<le> 50"
  shows "fires c \<longleftrightarrow> \<not> ((fst c = 50 \<and> 40 \<le> snd c) \<or> (fst c \<le> 20 \<and> snd c \<le> 10))"
proof -
  have "\<not> fires c \<longleftrightarrow> crisp (of_int (fst c)) (of_int (snd c)) = Inl NoApplicableRule"
    by (cases "crisp (of_int (fst c)) (of_int (snd c))") (auto simp: fires_def dest: crisp_error)
  also have "\<dots> \<longleftrightarrow> (fst c = 50 \<and> 40 \<le> snd c) \<or> (fst c \<le> 20 \<and> snd c \<le> 10)"
    using crisp_no_rule_region [of "of_int (fst c)" "of_int (snd c)"] assms by simp
  finally show ?thesis by blast
qed

lemma test_cases_fire_all: "list_all fires test_cases"
  by (simp add: test_cases_def fires_iff)

lemma test_run_value:
  "test_run = run_cases 0 test_cases (ControlSystemSimulation ctrl_v)"
  by (simp add: test_run_def sprinkler_value)

lemma test_run_result:
  "snd test_run = Inr (run_case (ControlSystemSimulation ctrl_v) (60, 5))"
proof -
  have "foldl run_case (ControlSystemSimulation ctrl_v) test_cases =
      run_case (ControlSystemSimulation ctrl_v) (last test_cases)"
    by (rule foldl_run_case) (simp add: test_cases_def)
  then show ?thesis
    using run_cases_result [of "ControlSystemSimulation ctrl_v" 0 test_cases] test_cases_fire_all
    by (simp add: test_run_value test_cases_def)
qed

lemma test_run_saved: "saved (fst test_run) = map screenshot_path [0..<10]"
proof -
  have "takeWhile fires test_cases = test_cases"
    using test_cases_fire_all by (simp add: list_all_iff)
  then have "length (takeWhile fires test_cases) = length test_cases" by (simp only:)
  also have "\<dots> = 10" by (simp add: test_cases_def)
  finally have "[0..<0 + length (takeWhile fires test_cases)] = [0..<10]" by (simp only: add_0)
  with run_cases_saved [of "ControlSystemSimulation ctrl_v" 0 test_cases]
  show ?thesis by (simp only: test_run_value new_simulation)
qed

section \<open>The figures that are saved\<close>

definition level :: "int \<times> int \<Rightarrow> real" where
  "level c = (case crisp (of_int (fst c)) (of_int (snd c)) of Inr y \<Rightarrow> y | Inl e \<Rightarrow> 0)"

definition case_figure :: "int \<times> int \<Rightarrow> figure" where
  "case_figure c =
     \<lparr>fig_size = None,
      drawn = [PltTitle (case_title c (level c)), PltXlabel ''Inputs'',
               PltYlabel ''Sprinkling Intensity'',
               PltBar [''Dry'', ''Moist'', ''Wet''] (degree (tri 0 0 50) (of_int (fst c))),
               PltBar [''Cold'', ''Warm'', ''Hot''] (degree (tri 0 0 20) (of_int (snd c))),
               PltBar [''Low'', ''Medium'', ''High''] (degree (tri 0 0 50) (level c))]\<rparr>"

lemma fires_level: "fires c \<Longrightarrow> crisp (of_int (fst c)) (of_int (snd c)) = Inr (level c)"
  by (cases "crisp (of_int (fst c)) (of_int (snd c))") (simp_all add: fires_def level_def)

lemma plot_case_value:
  assumes "sim_ctrl s = ctrl_v" and "fires c"
  shows "plot_case i c (run_case s c) =
     Inr ([PltFigure] @ drawn (case_figure c) @ [PltSavefig (screenshot_path i), PltClose])"
proof -
  have "output_of (run_case s c) ''Water Sprinkling'' = Inr (level c)"
    using output_run_case [OF assms(1), of "fst c" "snd c"] fires_level [OF assms(2)] by simp
  then show ?thesis by (simp add: plot_case_def case_bars_value case_figure_def)
qed

lemma case_figure_run:
  "plt_run st ([PltFigure] @ drawn (case_figure c) @ [PltSavefig p, PltClose]) =
     st\<lparr>stored := (p, case_figure c) # stored st\<rparr>"
  by (simp add: case_figure_def blank_def)

lemma run_cases_run:
  "sim_ctrl s = ctrl_v \<Longrightarrow> list_all fires cs \<Longrightarrow>
     plt_run st (fst (run_cases i cs s)) =
       st\<lparr>stored := rev (map (\<lambda>(k, c). (screenshot_path k, case_figure c)) (enumerate i cs)) @ stored st\<rparr>"
proof (induction cs arbitrary: i s st)
  case (Cons c cs)
  from Cons.prems have c: "fires c" and cs: "list_all fires cs" by simp_all
  note one = plot_case_value [OF Cons.prems(1) c, of i]
  have ctrl: "sim_ctrl (run_case s c) = ctrl_v" using Cons.prems(1) by simp
  have "fst (run_cases i (c # cs) s) =
      ([PltFigure] @ drawn (case_figure c) @ [PltSavefig (screenshot_path i), PltClose]) @
      fst (run_cases (Suc i) cs (run_case s c))"
    by (simp add: run_cases_Cons_Inr [OF one])
  moreover have "plt_run st
      (([PltFigure] @ drawn (case_figure c) @ [PltSavefig (screenshot_path i), PltClose]) @
       fst (run_cases (Suc i) cs (run_case s c))) =
      plt_run (plt_run st
        ([PltFigure] @ drawn (case_figure c) @ [PltSavefig (screenshot_path i), PltClose]))
        (fst (run_cases (Suc i) cs (run_case s c)))"
    by (rule plt_run_append)
  ultimately have "plt_run st (fst (run_cases i (c # cs) s)) =
      plt_run (st\<lparr>stored := (screenshot_path i, case_figure c) # stored st\<rparr>)
        (fst (run_cases (Suc i) cs (run_case s c)))"
    by (simp only: case_figure_run)
  then show ?case by (simp add: Cons.IH [OF ctrl cs] enumerate_simps)
qed simp

lemma test_run_run:
  "plt_run st (fst test_run) =
     st\<lparr>stored := rev (map (\<lambda>(k, c). (screenshot_path k, case_figure c)) (enumerate 0 test_cases))
                    @ stored st\<rparr>"
  unfolding test_run_value by (rule run_cases_run) (simp_all add: test_cases_fire_all)

lemma run_cases_titles:
  "sim_ctrl s = ctrl_v \<Longrightarrow> list_all fires cs \<Longrightarrow>
     titles (fst (run_cases i cs s)) = map (\<lambda>c. case_title c (level c)) cs"
proof (induction cs arbitrary: i s)
  case (Cons c cs)
  from Cons.prems have c: "fires c" and cs: "list_all fires cs" by simp_all
  note one = plot_case_value [OF Cons.prems(1) c, of i]
  have ctrl: "sim_ctrl (run_case s c) = ctrl_v" using Cons.prems(1) by simp
  show ?case
    by (simp add: run_cases_Cons_Inr [OF one] Cons.IH [OF ctrl cs] case_figure_def)
qed simp

lemma test_run_titles: "titles (fst test_run) = map (\<lambda>c. case_title c (level c)) test_cases"
  unfolding test_run_value by (rule run_cases_titles) (simp_all add: test_cases_fire_all)

section \<open>A title as text\<close>

lemma case_title_render:
  "render (case_title c y) =
     ''Soil: '' @ show_int (fst c) @ ''% | Temp: '' @ show_int (snd c) @ degree_sign @
     ''C | Sprinkle: '' @ show_fixed 2 y @ ''%''"
  by (simp add: case_title_def)

lemma case_title_example:
  "render (case_title (10, 40) (3071 / 38)) =
     ''Soil: 10% | Temp: 40'' @ degree_sign @ ''C | Sprinkle: 80.82%''"
  by (simp add: case_title_render show_eval)

end
