(* ===== verification/Fpdf.thy ===== *)
theory Fpdf
  imports Fuzzy_Prelude Text
begin

text \<open>
  The calls of the program to the PDF library (\<^verbatim>\<open>fpdf.FPDF\<close>), kept as a trace of \<open>pdf_op\<close>
  values in the order the program makes them, and what can be read off a trace: the
  images embedded, the texts written, the fonts selected.  The document is built in
  memory and written by the last call, so a failure on the way leaves no file; the
  failures are those of the engine, that of an image whose file does not exist, and
  that of a text which the font it is set in cannot encode: the built-in fonts of the
  library encode Latin-1 only, and the document is encoded when it is written.
  The file system is the set of the paths that exist.
\<close>

section \<open>Operations on the document\<close>

datatype pdf_op =
    SetAutoPageBreak bool nat
  | AddPage
  | AddFont string string string
  | SetFont string string nat
  | Cell nat nat fstring bool string
  | MultiCell nat nat fstring
  | Ln nat
  | Image fstring nat nat
  | Output string

datatype failure =
    EngineFailure error
  | FileNotFound string
  | NotEncodable string

definition engine :: "error + 'a \<Rightarrow> failure + 'a" where
  "engine r = (case r of Inl e \<Rightarrow> Inl (EngineFailure e) | Inr x \<Rightarrow> Inr x)"

definition embed :: "string set \<Rightarrow> string \<Rightarrow> nat \<Rightarrow> nat \<Rightarrow> failure + pdf_op list" where
  "embed files path x w =
     (if path \<in> files then Inr [Image [Lit path] x w] else Inl (FileNotFound path))"

section \<open>Writing the document\<close>

definition builtin :: "string \<Rightarrow> bool" where
  "builtin family \<longleftrightarrow>
     family \<in> {''Arial'', ''Helvetica'', ''Times'', ''Courier'', ''Symbol'', ''ZapfDingbats''}"

definition stuck :: "string option \<Rightarrow> string \<Rightarrow> string list" where
  "stuck font txt =
     (case font of None \<Rightarrow> [] | Some f \<Rightarrow> if builtin f \<and> \<not> latin1 txt then [txt] else [])"

fun unencodable :: "string option \<Rightarrow> pdf_op list \<Rightarrow> string list" where
  "unencodable font [] = []"
| "unencodable font (SetFont f st sz # ops) = unencodable (Some f) ops"
| "unencodable font (Cell w h t l a # ops) = stuck font (render t) @ unencodable font ops"
| "unencodable font (MultiCell w h t # ops) = stuck font (render t) @ unencodable font ops"
| "unencodable font (op # ops) = unencodable font ops"

definition write_document :: "string \<Rightarrow> pdf_op list \<Rightarrow> string set \<Rightarrow> failure + string set" where
  "write_document name ops files =
     (case unencodable None ops of
        [] \<Rightarrow> Inr (insert name files)
      | txt # more \<Rightarrow> Inl (NotEncodable txt))"

section \<open>Reading a trace\<close>

fun image_path :: "pdf_op \<Rightarrow> fstring list" where
  "image_path (Image p x w) = [p]"
| "image_path _ = []"

definition images :: "pdf_op list \<Rightarrow> fstring list" where
  "images ops = concat (map image_path ops)"

fun cell_text :: "pdf_op \<Rightarrow> fstring list" where
  "cell_text (Cell w h t l a) = [t]"
| "cell_text (MultiCell w h t) = [t]"
| "cell_text _ = []"

definition texts :: "pdf_op list \<Rightarrow> fstring list" where
  "texts ops = concat (map cell_text ops)"

fun font_family :: "pdf_op \<Rightarrow> string list" where
  "font_family (SetFont f st sz) = [f]"
| "font_family _ = []"

definition fonts_used :: "pdf_op list \<Rightarrow> string set" where
  "fonts_used ops = set (concat (map font_family ops))"

fun page_break :: "pdf_op \<Rightarrow> nat" where
  "page_break AddPage = 1"
| "page_break _ = 0"

definition pages :: "pdf_op list \<Rightarrow> nat" where
  "pages ops = sum_list (map page_break ops)"

lemma images_Nil [simp]: "images [] = []"
  and images_Cons [simp]: "images (op # ops) = image_path op @ images ops"
  and images_append [simp]: "images (ops @ ops') = images ops @ images ops'"
  by (simp_all add: images_def)

lemma texts_Nil [simp]: "texts [] = []"
  and texts_Cons [simp]: "texts (op # ops) = cell_text op @ texts ops"
  and texts_append [simp]: "texts (ops @ ops') = texts ops @ texts ops'"
  by (simp_all add: texts_def)

lemma fonts_used_Nil [simp]: "fonts_used [] = {}"
  and fonts_used_Cons [simp]: "fonts_used (op # ops) = set (font_family op) \<union> fonts_used ops"
  and fonts_used_append [simp]: "fonts_used (ops @ ops') = fonts_used ops \<union> fonts_used ops'"
  by (simp_all add: fonts_used_def)

lemma pages_Nil [simp]: "pages [] = 0"
  and pages_Cons [simp]: "pages (op # ops) = page_break op + pages ops"
  and pages_append [simp]: "pages (ops @ ops') = pages ops + pages ops'"
  by (simp_all add: pages_def)

section \<open>Failures\<close>

lemma engine_simps [simp]: "engine (Inr x) = Inr x" "engine (Inl e) = Inl (EngineFailure e)"
  by (simp_all add: engine_def)

lemma engine_ok [simp]: "is_ok (engine r) \<longleftrightarrow> is_ok r"
  by (cases r) simp_all

lemma embed_Inr_iff: "embed files path x w = Inr ops \<longleftrightarrow> path \<in> files \<and> ops = [Image [Lit path] x w]"
  by (auto simp: embed_def)

lemma embed_Inl_iff: "embed files path x w = Inl e \<longleftrightarrow> path \<notin> files \<and> e = FileNotFound path"
  by (auto simp: embed_def)

section \<open>Texts that a font cannot encode\<close>

lemma stuck_None [simp]: "stuck None txt = []"
  by (simp add: stuck_def)

lemma stuck_Some:
  "stuck (Some f) txt = (if builtin f \<and> \<not> latin1 txt then [txt] else [])"
  by (simp add: stuck_def)

lemma unencodable_no_text:
  "texts pre = [] \<Longrightarrow>
     unencodable font (pre @ SetFont f st sz # ops) = unencodable (Some f) ops"
proof (induction pre arbitrary: font)
  case (Cons op pre)
  then show ?case by (cases op) simp_all
qed simp

lemma unencodable_unicode:
  "\<forall>f\<in>fonts_used ops. \<not> builtin f \<Longrightarrow> \<not> builtin g \<Longrightarrow> unencodable (Some g) ops = []"
proof (induction ops arbitrary: g)
  case (Cons op ops)
  then show ?case by (cases op) (simp_all add: stuck_Some)
qed simp

lemma unencodable_builtin:
  "\<forall>f\<in>fonts_used ops. builtin f \<Longrightarrow> builtin g \<Longrightarrow>
     unencodable (Some g) ops = filter (\<lambda>txt. \<not> latin1 txt) (map render (texts ops))"
proof (induction ops arbitrary: g)
  case (Cons op ops)
  then show ?case by (cases op) (simp_all add: stuck_Some)
qed simp

lemma unencodable_one_font:
  assumes "texts pre = []" and "fonts_used ops \<subseteq> {f}"
  shows "unencodable None (pre @ SetFont f st sz # ops) =
     (if builtin f then filter (\<lambda>txt. \<not> latin1 txt) (map render (texts ops)) else [])"
  using assms unencodable_builtin [of ops f] unencodable_unicode [of ops f]
  by (auto simp: unencodable_no_text)

lemma builtin_Arial [simp]: "builtin ''Arial''" and not_builtin_Book [simp]: "\<not> builtin ''Book Antiqua''"
  by (simp_all add: builtin_def)

lemma write_document_Inr_iff:
  "write_document name ops files = Inr out \<longleftrightarrow>
     unencodable None ops = [] \<and> out = insert name files"
  by (auto simp: write_document_def split: list.splits)

lemma write_document_Inl_iff:
  "write_document name ops files = Inl e \<longleftrightarrow>
     unencodable None ops \<noteq> [] \<and> e = NotEncodable (hd (unencodable None ops))"
  by (auto simp: write_document_def split: list.splits)

end
