(* ===== verification/Report.thy ===== *)
theory Report
  imports Driver Fpdf
begin

text \<open>
  The report of the program (\<^verbatim>\<open>src/fuzzy.py\<close>, lines 214 to 275): the page that documents
  the rule base and the page of test results, as traces of \<open>pdf_op\<close> values.  The test
  results are computed again by the simulation, one test case after the other, and each
  entry embeds the figure of the driver when the file exists; the file system is the
  set of the paths that exist.

  The lemmas show that the documented rules are the rules of the control system, that
  the labels partition the readings, that the page of results re-computes exactly the
  levels the driver plotted, and that it embeds exactly the figures the driver saved.
\<close>

section \<open>The rule base as documented\<close>

definition rules_table :: "(string \<times> string \<times> string \<times> string) list" where
  "rules_table =
     [(''Rule 1'', ''IF soil is dry AND temperature is hot'', ''THEN sprinkle high'',
       ''High temperature combined with dry soil requires maximum irrigation''),
      (''Rule 2'', ''IF soil is dry AND temperature is warm'', ''THEN sprinkle medium'',
       ''Warm conditions with dry soil need moderate watering''),
      (''Rule 3'', ''IF soil is moist AND temperature is warm'', ''THEN sprinkle medium'',
       ''Optimal moisture maintenance during warm weather''),
      (''Rule 4'', ''IF soil is moist AND temperature is cold'', ''THEN sprinkle low'',
       ''Cold weather reduces evaporation need''),
      (''Rule 5'', ''IF soil is wet'', ''THEN sprinkle low'',
       ''Wet soil needs minimal watering regardless of temperature'')]"

definition rule_entry :: "string \<Rightarrow> string \<times> string \<times> string \<times> string \<Rightarrow> pdf_op list" where
  "rule_entry font_name r =
     (case r of (rule_num, condition, action, explanation) \<Rightarrow>
        [Ln 5, SetFont font_name ''B'' 12, Cell 200 6 [Lit rule_num] True [],
         SetFont font_name [] 12, Cell 200 6 [Lit condition] True [],
         Cell 200 6 [Lit action] True [],
         Cell 200 6 [Lit ''Explanation: '', Lit explanation] True []])"

definition rules_page :: "string \<Rightarrow> pdf_op list" where
  "rules_page font_name =
     [AddPage, SetFont font_name ''B'' 16, Cell 200 10 [Lit ''Fuzzy Rule Base Design''] True []] @
     concat (map (rule_entry font_name) rules_table)"

section \<open>The analysis of a test case\<close>

definition soil_label :: "int \<Rightarrow> string" where
  "soil_label soil =
     (if soil < 20 then ''Very Dry'' else if soil < 40 then ''Dry''
      else if soil < 60 then ''Moderate'' else if soil < 80 then ''Wet'' else ''Very Wet'')"

definition temp_label :: "int \<Rightarrow> string" where
  "temp_label temp =
     (if temp < 15 then ''Cold'' else if temp < 25 then ''Cool''
      else if temp < 35 then ''Warm'' else ''Hot'')"

definition reasoning :: "int \<Rightarrow> int \<Rightarrow> string" where
  "reasoning soil temp =
     (if soil < 40 \<and> temp > 30 then ''High water need due to dry soil and high temperature''
      else if 40 \<le> soil \<and> soil \<le> 60 then ''Moderate watering to maintain moisture''
      else if soil > 60 then ''Minimal watering needed due to sufficient soil moisture''
      else ''Balanced watering based on conditions'')"

definition analysis :: "int \<times> int \<Rightarrow> real \<Rightarrow> fstring" where
  "analysis c y =
     [Lit (''Environmental Conditions:'' @ newline @ bullet @ '' Soil Moisture: ''),
      IntField (fst c), Lit ''% - '', Lit (soil_label (fst c)),
      Lit (newline @ bullet @ '' Temperature: ''),
      IntField (snd c), Lit (degree_sign @ ''C - ''), Lit (temp_label (snd c)),
      Lit (newline @ newline @ ''System Response:'' @ newline @ bullet @ '' Sprinkling Level: ''),
      FixedField 1 y, Lit (''%'' @ newline @ bullet @ '' Reasoning: ''),
      Lit (reasoning (fst c) (snd c))]"

section \<open>The page of test results\<close>

definition result_entry ::
    "string \<Rightarrow> string set \<Rightarrow> nat \<Rightarrow> int \<times> int \<Rightarrow> simulation \<Rightarrow> pdf_op list result" where
  "result_entry font_name files i c s =
     rbind (output_of s ''Water Sprinkling'') (\<lambda>y.
     Inr ([SetFont font_name ''B'' 14,
           Cell 200 10 [Lit ''Test Case '', IntField (int i + 1)] True [],
           SetFont font_name [] 12,
           MultiCell 0 10 (analysis c y)] @
          (if render (screenshot_path i) \<in> files then [Image (screenshot_path i) 10 180] else []) @
          [Ln 10]))"

fun result_entries ::
    "string \<Rightarrow> string set \<Rightarrow> nat \<Rightarrow> (int \<times> int) list \<Rightarrow> simulation \<Rightarrow>
       (simulation \<times> pdf_op list) result" where
  "result_entries font_name files i [] s = Inr (s, [])"
| "result_entries font_name files i (c # cs) s =
     (let s' = run_case s c in
      rbind (result_entry font_name files i c s') (\<lambda>ops.
      rbind (result_entries font_name files (Suc i) cs s') (\<lambda>(s'', ops').
      Inr (s'', ops @ ops'))))"

definition results_page ::
    "string \<Rightarrow> string set \<Rightarrow> simulation \<Rightarrow> (simulation \<times> pdf_op list) result" where
  "results_page font_name files s =
     rbind (result_entries font_name files 0 test_cases s) (\<lambda>(s', ops).
     Inr (s', [AddPage, SetFont font_name ''B'' 16,
               Cell 200 10 [Lit ''Test Results and Analysis''] True []] @ ops))"

section \<open>The documented rules are the rules of the control system\<close>

fun describe_expr :: "expr \<Rightarrow> string" where
  "describe_expr (Leaf l n) =
     (if l = ''Soil Moisture'' then ''soil'' else if l = ''Temperature'' then ''temperature''
      else l) @ '' is '' @ n"
| "describe_expr (And p q) = describe_expr p @ '' AND '' @ describe_expr q"
| "describe_expr (Or p q) = describe_expr p @ '' OR '' @ describe_expr q"
| "describe_expr (Not_expr p) = ''NOT '' @ describe_expr p"

definition describe_rule :: "rule \<Rightarrow> string \<times> string" where
  "describe_rule r =
     (''IF '' @ describe_expr (antecedent r), ''THEN sprinkle '' @ snd (consequent r))"

lemma rules_table_length: "length rules_table = length [rule1, rule2, rule3, rule4, rule5]"
  by (simp add: rules_table_def)

lemma rules_table_describes:
  "map (\<lambda>(n, c, a, e). (c, a)) rules_table = map describe_rule [rule1, rule2, rule3, rule4, rule5]"
  by (simp add: rules_table_def describe_rule_def rule_defs)

lemma rules_table_numbered:
  "map fst rules_table = map (\<lambda>i. ''Rule '' @ show_nat (Suc i)) [0..<5]"
  by (simp add: rules_table_def upt_rec show_nat.simps digit_char_def digits_def)

lemma rules_page_texts:
  "texts (rules_page f) =
     [Lit ''Fuzzy Rule Base Design''] #
     concat (map (\<lambda>(n, c, a, e). [[Lit n], [Lit c], [Lit a], [Lit ''Explanation: '', Lit e]])
               rules_table)"
  by (simp add: rules_page_def rules_table_def rule_entry_def)

section \<open>The labels\<close>

lemma soil_label_cases:
  "soil_label s \<in> {''Very Dry'', ''Dry'', ''Moderate'', ''Wet'', ''Very Wet''}"
  by (simp add: soil_label_def)

lemma soil_label_iff:
  "soil_label s = ''Very Dry'' \<longleftrightarrow> s < 20"
  "soil_label s = ''Dry'' \<longleftrightarrow> 20 \<le> s \<and> s < 40"
  "soil_label s = ''Moderate'' \<longleftrightarrow> 40 \<le> s \<and> s < 60"
  "soil_label s = ''Wet'' \<longleftrightarrow> 60 \<le> s \<and> s < 80"
  "soil_label s = ''Very Wet'' \<longleftrightarrow> 80 \<le> s"
  by (auto simp: soil_label_def)

lemma temp_label_iff:
  "temp_label t = ''Cold'' \<longleftrightarrow> t < 15"
  "temp_label t = ''Cool'' \<longleftrightarrow> 15 \<le> t \<and> t < 25"
  "temp_label t = ''Warm'' \<longleftrightarrow> 25 \<le> t \<and> t < 35"
  "temp_label t = ''Hot'' \<longleftrightarrow> 35 \<le> t"
  by (auto simp: temp_label_def)

lemma reasoning_iff:
  "reasoning s t = ''High water need due to dry soil and high temperature'' \<longleftrightarrow> s < 40 \<and> 30 < t"
  "reasoning s t = ''Moderate watering to maintain moisture'' \<longleftrightarrow> 40 \<le> s \<and> s \<le> 60"
  "reasoning s t = ''Minimal watering needed due to sufficient soil moisture'' \<longleftrightarrow> 60 < s"
  "reasoning s t = ''Balanced watering based on conditions'' \<longleftrightarrow> s < 40 \<and> t \<le> 30"
  by (auto simp: reasoning_def)

lemma moderate_boundary:
  "(reasoning s t = ''Moderate watering to maintain moisture'' \<longleftrightarrow> soil_label s = ''Moderate'')
     \<longleftrightarrow> s \<noteq> 60"
  by (auto simp: reasoning_def soil_label_def)

lemma high_temperature_boundary:
  "reasoning s t = ''High water need due to dry soil and high temperature'' \<Longrightarrow>
     soil_label s \<in> {''Very Dry'', ''Dry''} \<and> temp_label t \<in> {''Warm'', ''Hot''}"
  by (auto simp: reasoning_def soil_label_def temp_label_def split: if_splits)

lemma test_cases_never_balanced:
  "\<forall>(s, t)\<in>set test_cases. reasoning s t \<noteq> ''Balanced watering based on conditions''"
  by (simp add: test_cases_def reasoning_def)

section \<open>The entries of the page of results\<close>

lemma result_entry_Inl: "output_of s ''Water Sprinkling'' = Inl e \<Longrightarrow> result_entry f files i c s = Inl e"
  by (simp add: result_entry_def)

lemma result_entry_Inr:
  assumes "result_entry f files i c s = Inr ops"
  obtains y where "output_of s ''Water Sprinkling'' = Inr y"
    and "texts ops = [[Lit ''Test Case '', IntField (int i + 1)], analysis c y]"
    and "images ops = (if render (screenshot_path i) \<in> files then [screenshot_path i] else [])"
    and "fonts_used ops = {f}" and "pages ops = 0"
  using assms by (auto simp: result_entry_def rbind_eq_Inr_iff)

lemma result_entry_program:
  assumes "sim_ctrl s = ctrl_v"
  shows "is_ok (result_entry f files i c (run_case s c)) \<longleftrightarrow> fires c"
    and "\<not> fires c \<Longrightarrow> result_entry f files i c (run_case s c) = Inl NoApplicableRule"
proof -
  have out: "output_of (run_case s c) ''Water Sprinkling'' = crisp (of_int (fst c)) (of_int (snd c))"
    using output_run_case [OF assms, of "fst c" "snd c"] by simp
  show "is_ok (result_entry f files i c (run_case s c)) \<longleftrightarrow> fires c"
    using out by (cases "crisp (of_int (fst c)) (of_int (snd c))")
      (simp_all add: result_entry_def fires_def)
  show "\<not> fires c \<Longrightarrow> result_entry f files i c (run_case s c) = Inl NoApplicableRule"
    using out by (cases "crisp (of_int (fst c)) (of_int (snd c))")
      (auto simp: fires_def result_entry_Inl dest: crisp_error)
qed

lemma result_entries_Cons_Inr:
  "result_entries f files i (c # cs) s = Inr (s', ops) \<longleftrightarrow>
     (\<exists>ops1 ops2. result_entry f files i c (run_case s c) = Inr ops1 \<and>
        result_entries f files (Suc i) cs (run_case s c) = Inr (s', ops2) \<and> ops = ops1 @ ops2)"
  by (auto simp: rbind_eq_Inr_iff Let_def)

lemma result_entries_Cons_Inl:
  "result_entry f files i c (run_case s c) = Inl e \<Longrightarrow> result_entries f files i (c # cs) s = Inl e"
  by (simp add: Let_def)

declare result_entries.simps(2) [simp del]

lemma result_entries_state:
  "result_entries f files i cs s = Inr (s', ops) \<Longrightarrow> s' = foldl run_case s cs"
  by (induction cs arbitrary: i s ops) (auto simp: result_entries_Cons_Inr)

lemma result_entries_images:
  "result_entries f files i cs s = Inr (s', ops) \<Longrightarrow>
     images ops = filter (\<lambda>p. render p \<in> files) (map screenshot_path [i..<i + length cs])"
proof (induction cs arbitrary: i s ops)
  case (Cons c cs)
  from Cons.prems obtain ops1 ops2 where
    one: "result_entry f files i c (run_case s c) = Inr ops1" and
    rest: "result_entries f files (Suc i) cs (run_case s c) = Inr (s', ops2)" and
    ops: "ops = ops1 @ ops2"
    by (auto simp: result_entries_Cons_Inr)
  from result_entry_Inr [OF one]
  have "images ops1 = (if render (screenshot_path i) \<in> files then [screenshot_path i] else [])" by metis
  with Cons.IH [OF rest] show ?case by (simp add: ops upt_conv_Cons del: upt_Suc)
qed simp

lemma result_entries_fonts:
  "result_entries f files i cs s = Inr (s', ops) \<Longrightarrow> fonts_used ops \<subseteq> {f} \<and> pages ops = 0"
proof (induction cs arbitrary: i s ops)
  case (Cons c cs)
  from Cons.prems obtain ops1 ops2 where
    one: "result_entry f files i c (run_case s c) = Inr ops1" and
    rest: "result_entries f files (Suc i) cs (run_case s c) = Inr (s', ops2)" and
    ops: "ops = ops1 @ ops2"
    by (auto simp: result_entries_Cons_Inr)
  from result_entry_Inr [OF one] have "fonts_used ops1 = {f}" and "pages ops1 = 0" by metis+
  with Cons.IH [OF rest] show ?case by (simp add: ops)
qed simp

lemma rules_page_fonts [simp]: "fonts_used (rules_page f) = {f}"
  and rules_page_pages [simp]: "pages (rules_page f) = 1"
  and rules_page_images [simp]: "images (rules_page f) = []"
  by (simp_all add: rules_page_def rules_table_def rule_entry_def)

lemma result_entries_ok_iff:
  "sim_ctrl s = ctrl_v \<Longrightarrow> is_ok (result_entries f files i cs s) \<longleftrightarrow> list_all fires cs"
proof (induction cs arbitrary: i s)
  case (Cons c cs)
  have ctrl: "sim_ctrl (run_case s c) = ctrl_v" using Cons.prems by simp
  show ?case
  proof (cases "fires c")
    case True
    with result_entry_program(1) [OF Cons.prems, of f files i c]
    obtain ops1 where one: "result_entry f files i c (run_case s c) = Inr ops1"
      by (auto simp: is_ok_iff)
    from Cons.IH [OF ctrl, of "Suc i"] True show ?thesis
      by (auto simp: is_ok_iff result_entries_Cons_Inr one)
  next
    case False
    with result_entry_program(2) [OF Cons.prems, of c f files i] show ?thesis
      by (simp add: result_entries_Cons_Inl)
  qed
qed simp

lemma result_entries_error:
  "sim_ctrl s = ctrl_v \<Longrightarrow> result_entries f files i cs s = Inl e \<Longrightarrow> e = NoApplicableRule"
proof (induction cs arbitrary: i s)
  case (Cons c cs)
  have ctrl: "sim_ctrl (run_case s c) = ctrl_v" using Cons.prems by simp
  show ?case
  proof (cases "fires c")
    case True
    with result_entry_program(1) [OF Cons.prems(1), of f files i c]
    obtain ops1 where one: "result_entry f files i c (run_case s c) = Inr ops1"
      by (auto simp: is_ok_iff)
    with Cons.prems(2) have "result_entries f files (Suc i) cs (run_case s c) = Inl e"
      by (auto simp: result_entries.simps(2) Let_def rbind_eq_Inl_iff)
    from Cons.IH [OF ctrl this] show ?thesis .
  next
    case False
    with result_entry_program(2) [OF Cons.prems(1), of c f files i] Cons.prems(2) show ?thesis
      by (simp add: result_entries_Cons_Inl)
  qed
qed simp

lemma results_page_Inr:
  "results_page f files s = Inr (s', ops) \<Longrightarrow>
     s' = foldl run_case s test_cases \<and>
     images ops = filter (\<lambda>p. render p \<in> files) (map screenshot_path [0..<length test_cases])"
  by (auto simp: results_page_def rbind_eq_Inr_iff
      dest: result_entries_state result_entries_images)

lemma results_page_fonts:
  assumes "results_page f files s = Inr (s', ops)"
  shows "fonts_used ops = {f} \<and> pages ops = 1"
proof -
  from assms obtain x where x: "result_entries f files 0 test_cases s = Inr (s', x)"
    and "fonts_used ops = {f} \<union> fonts_used x" and "pages ops = 1 + pages x"
    by (auto simp: results_page_def rbind_eq_Inr_iff)
  with result_entries_fonts [OF x] show ?thesis by auto
qed

lemma results_page_ok: "sim_ctrl s = ctrl_v \<Longrightarrow> is_ok (results_page f files s)"
  using result_entries_ok_iff [of s f files 0 test_cases] test_cases_fire_all
  by (auto simp: results_page_def is_ok_iff)

section \<open>The texts of the page of results\<close>

definition entry_texts :: "nat \<times> int \<times> int \<Rightarrow> fstring list" where
  "entry_texts kc = [[Lit ''Test Case '', IntField (int (fst kc) + 1)], analysis (snd kc) (level (snd kc))]"

lemma result_entries_texts:
  "sim_ctrl s = ctrl_v \<Longrightarrow> result_entries f files i cs s = Inr (s', ops) \<Longrightarrow>
     texts ops = concat (map entry_texts (enumerate i cs))"
proof (induction cs arbitrary: i s ops)
  case (Cons c cs)
  from Cons.prems(2) obtain ops1 ops2 where
    one: "result_entry f files i c (run_case s c) = Inr ops1" and
    rest: "result_entries f files (Suc i) cs (run_case s c) = Inr (s', ops2)" and
    ops: "ops = ops1 @ ops2"
    by (auto simp: result_entries_Cons_Inr)
  have ctrl: "sim_ctrl (run_case s c) = ctrl_v" using Cons.prems(1) by simp
  from result_entry_Inr [OF one] obtain y where
    y: "output_of (run_case s c) ''Water Sprinkling'' = Inr y" and
    t: "texts ops1 = [[Lit ''Test Case '', IntField (int i + 1)], analysis c y]"
    by metis
  from y output_run_case [OF Cons.prems(1), of "fst c" "snd c"]
  have "crisp (of_int (fst c)) (of_int (snd c)) = Inr y" by simp
  then have "y = level c" by (simp add: level_def)
  with t Cons.IH [OF ctrl rest] show ?case by (simp add: ops entry_texts_def enumerate_simps)
qed simp

lemma results_page_texts:
  assumes "sim_ctrl s = ctrl_v" and "results_page f files s = Inr (s', ops)"
  shows "texts ops =
     [Lit ''Test Results and Analysis''] # concat (map entry_texts (enumerate 0 test_cases))"
proof -
  from assms(2) obtain x where x: "result_entries f files 0 test_cases s = Inr (s', x)"
    and "texts ops = [Lit ''Test Results and Analysis''] # texts x"
    by (auto simp: results_page_def rbind_eq_Inr_iff)
  with result_entries_texts [OF assms(1) x] show ?thesis by simp
qed

end
