(* ===== verification/Pages.thy ===== *)
theory Pages
  imports Fpdf
begin

text \<open>
  The pages of the report with fixed content (\<^verbatim>\<open>src/fuzzy.py\<close>, lines 107 to 211 and 277
  to 283): the choice of the font with its fall-back, the title page, the three
  sections of text, the page of screenshots, the page of the membership plots and
  the conclusion.  The title page is given the names and the date; \<open>team_members\<close> are
  the names the program passes, and the date is that of the run.  An image
  is embedded without a check, so a page with images is a result that fails when a
  file does not exist.  The lemmas say when each page succeeds, count its pages and
  images, and show which texts need a font beyond Latin-1.
\<close>

section \<open>Fonts\<close>

datatype console_line =
    Printed string
  | PrintedError string failure string

definition load_fonts :: "string set \<Rightarrow> (string \<times> nat) \<times> pdf_op list \<times> console_line list" where
  "load_fonts files =
     (if ''fonts/bookantiqua.ttf'' \<notin> files then
        ((''Arial'', 12), [],
         [PrintedError ''Error loading fonts: '' (FileNotFound ''fonts/bookantiqua.ttf'')
            ''. Using Arial instead.''])
      else if ''fonts/bookantiqua_bold.ttf'' \<notin> files then
        ((''Arial'', 12), [AddFont ''Book Antiqua'' [] ''fonts/bookantiqua.ttf''],
         [PrintedError ''Error loading fonts: '' (FileNotFound ''fonts/bookantiqua_bold.ttf'')
            ''. Using Arial instead.''])
      else
        ((''Book Antiqua'', 12),
         [AddFont ''Book Antiqua'' [] ''fonts/bookantiqua.ttf'',
          AddFont ''Book Antiqua'' ''B'' ''fonts/bookantiqua_bold.ttf''], []))"

section \<open>Title page\<close>

definition team_members :: "string list" where
  "team_members =
     [''WAINAINA, NIXON MBURU '' @ en_dash @ '' 665507'',
      ''WILLIAM MUNGAI '' @ en_dash @ '' 666494'',
      ''BRACKCIDIS TEMKO '' @ en_dash @ '' 666989'',
      ''LEE KAMAU '' @ en_dash @ '' 666591'',
      ''STEPHEN KAHANYA 668435'']"

definition title_page :: "string \<Rightarrow> nat \<Rightarrow> string list \<Rightarrow> string \<Rightarrow> pdf_op list" where
  "title_page font_name default_font_size members today =
     [SetFont font_name ''B'' 24,
      Cell 200 40 [Lit ''Fuzzy Logic Sprinkler System''] True ''C'',
      Ln 20,
      SetFont font_name ''B'' default_font_size,
      Cell 200 10 [Lit ''Team Members:''] True [],
      SetFont font_name [] default_font_size] @
     map (\<lambda>member. Cell 200 10 [Lit member] True []) members @
     [Ln 10,
      Cell 200 10 [Lit ''Date: '', Lit today] True []]"

section \<open>Sections of text\<close>

definition introduction_text :: string where
  "introduction_text =
     ''This report presents an advanced fuzzy logic-based sprinkler control'' @
     '' system designed to optimize irrigation based on environmental'' @
     '' conditions. The system demonstrates the practical application of fuzzy'' @
     '' logic in agricultural automation, providing intelligent and efficient'' @
     '' water management.'' @ newline @ newline @
     ''The primary advantage of this fuzzy logic approach is its ability to'' @
     '' handle imprecise input data and provide smooth, continuous output'' @
     '' adjustments, unlike traditional binary systems. This results in more'' @
     '' natural and efficient irrigation control.''"

definition system_description_text :: string where
  "system_description_text =
     ''The intelligent sprinkler system incorporates multiple components'' @
     '' working in harmony:'' @ newline @ newline @ ''Input Variables:'' @ newline @
     ''1. Soil Moisture (0-100%): Measures water content in soil'' @ newline @ ''   '' @
     bullet @ '' Dry (0-50%): Indicates urgent watering needs'' @ newline @ ''   '' @
     bullet @ '' Moist (20-80%): Optimal moisture range'' @ newline @ ''   '' @ bullet @
     '' Wet (50-100%): Sufficient water content'' @ newline @ newline @
     ''2. Temperature (0-50'' @ degree_sign @ ''C): Monitors environmental temperature'' @
     newline @ ''   '' @ bullet @ '' Cold (0-20'' @ degree_sign @
     ''C): Low evaporation conditions'' @ newline @ ''   '' @ bullet @ '' Warm (10-40'' @
     degree_sign @ ''C): Moderate water requirements'' @ newline @ ''   '' @ bullet @
     '' Hot (30-50'' @ degree_sign @ ''C): High evaporation risk'' @ newline @ newline @
     ''Output Control:'' @ newline @ bullet @
     '' Water Sprinkling Level (0-100%): Automated adjustment based on'' @
     '' conditions'' @ newline @ ''   '' @ bullet @
     '' Low (0-50%): Conservative water usage'' @ newline @ ''   '' @ bullet @
     '' Medium (20-80%): Balanced irrigation'' @ newline @ ''   '' @ bullet @
     '' High (50-100%): Intensive watering''"

definition methodology_text :: string where
  "methodology_text =
     ''The system employs triangular membership functions for both inputs and'' @
     '' outputs, providing a balanced approach to fuzzy set representation. The'' @
     '' rule base is designed to prioritize water conservation while'' @
     '' maintaining optimal growing conditions.'' @ newline @ newline @
     ''Key Implementation Features:'' @ newline @ ''1. Continuous variable monitoring'' @
     newline @ ''2. Real-time adjustment capability'' @ newline @
     ''3. Smooth transition between states'' @ newline @
     ''4. Adaptive response to changing conditions''"

definition sections :: "(string \<times> string) list" where
  "sections =
     [(''Introduction'', introduction_text),
      (''System Description'', system_description_text),
      (''Methodology'', methodology_text)]"

definition section_page :: "string \<Rightarrow> nat \<Rightarrow> string \<times> string \<Rightarrow> pdf_op list" where
  "section_page font_name default_font_size sec =
     (case sec of (title, content) \<Rightarrow>
        [AddPage, SetFont font_name ''B'' 16, Cell 200 10 [Lit title] True [],
         SetFont font_name [] default_font_size, MultiCell 0 10 [Lit content]])"

definition section_pages :: "string \<Rightarrow> nat \<Rightarrow> pdf_op list" where
  "section_pages font_name default_font_size =
     concat (map (section_page font_name default_font_size) sections)"

section \<open>Screenshots\<close>

definition screenshots :: "(string \<times> string) list" where
  "screenshots =
     [(''Screenshot from 2025-03-23 14-12-50.png'', ''System Components and Variables''),
      (''Screenshot from 2025-03-23 14-13-19.png'', ''Membership Functions Implementation''),
      (''Screenshot from 2025-03-23 14-13-47.png'', ''Rule Base and Control System'')]"

definition screenshot_entry ::
    "string set \<Rightarrow> string \<Rightarrow> nat \<Rightarrow> string \<times> string \<Rightarrow> failure + pdf_op list" where
  "screenshot_entry files font_name default_font_size shot =
     (case shot of (img_file, caption) \<Rightarrow>
        rbind (embed files img_file 10 190) (\<lambda>img.
        Inr ([Ln 5] @ img @
             [SetFont font_name ''B'' default_font_size, Ln 2,
              Cell 200 10 [Lit caption] True ''C'', Ln 5])))"

fun screenshot_entries ::
    "string set \<Rightarrow> string \<Rightarrow> nat \<Rightarrow> (string \<times> string) list \<Rightarrow> failure + pdf_op list" where
  "screenshot_entries files font_name default_font_size [] = Inr []"
| "screenshot_entries files font_name default_font_size (shot # shots) =
     rbind (screenshot_entry files font_name default_font_size shot) (\<lambda>ops.
     rbind (screenshot_entries files font_name default_font_size shots) (\<lambda>ops'.
     Inr (ops @ ops')))"

definition screenshots_page :: "string set \<Rightarrow> string \<Rightarrow> nat \<Rightarrow> failure + pdf_op list" where
  "screenshots_page files font_name default_font_size =
     rbind (screenshot_entries files font_name default_font_size screenshots) (\<lambda>ops.
     Inr ([AddPage, SetFont font_name ''B'' 16,
           Cell 200 10 [Lit ''Implementation Screenshots''] True [],
           SetFont font_name [] default_font_size,
           MultiCell 0 5
             [Lit (''The following screenshots show the system implementation and key'' @
                   '' components:'')]] @ ops))"

section \<open>Membership plots\<close>

definition mf_page :: "string set \<Rightarrow> string \<Rightarrow> failure + pdf_op list" where
  "mf_page files font_name =
     rbind (embed files ''screenshots/soil_moisture_mf.png'' 10 180) (\<lambda>a.
     rbind (embed files ''screenshots/temperature_mf.png'' 10 180) (\<lambda>b.
     rbind (embed files ''screenshots/water_sprinkle_mf.png'' 10 180) (\<lambda>c.
     Inr ([AddPage, SetFont font_name ''B'' 16,
           Cell 200 10 [Lit ''System Membership Functions''] True []] @ a @ b @ c))))"

section \<open>Conclusion\<close>

definition conclusion_text :: string where
  "conclusion_text =
     ''The fuzzy logic sprinkler system demonstrates effective decision-making'' @
     '' capabilities in determining appropriate water sprinkling levels based'' @
     '' on environmental conditions. The system successfully adapts to various'' @
     '' combinations of soil moisture and temperature, providing an intelligent'' @
     '' solution for automated irrigation control. The membership functions and'' @
     '' rule base ensure smooth transitions between different sprinkling'' @
     '' levels, avoiding abrupt changes that could stress the plants or waste'' @
     '' water.''"

definition conclusion_page :: "string \<Rightarrow> pdf_op list" where
  "conclusion_page font_name =
     [AddPage, SetFont font_name ''B'' 16, Cell 200 10 [Lit ''Conclusion''] True [],
      SetFont font_name [] 12, MultiCell 0 10 [Lit conclusion_text]]"

section \<open>The font that is chosen\<close>

lemma load_fonts_name:
  "fst (fst (load_fonts files)) =
     (if {''fonts/bookantiqua.ttf'', ''fonts/bookantiqua_bold.ttf''} \<subseteq> files
      then ''Book Antiqua'' else ''Arial'')"
  by (simp add: load_fonts_def)

lemma load_fonts_size [simp]: "snd (fst (load_fonts files)) = 12"
  by (simp add: load_fonts_def)

lemma load_fonts_quiet:
  "snd (snd (load_fonts files)) = [] \<longleftrightarrow>
     {''fonts/bookantiqua.ttf'', ''fonts/bookantiqua_bold.ttf''} \<subseteq> files"
  by (simp add: load_fonts_def)

lemma load_fonts_cases:
  "(\<exists>ops. load_fonts files = ((''Book Antiqua'', 12), ops, [])) \<or>
   (\<exists>ops msg. load_fonts files = ((''Arial'', 12), ops, [msg]))"
  by (simp add: load_fonts_def)

section \<open>Pages and images of the fixed pages\<close>

lemma title_page_pages [simp]: "pages (title_page f d ms today) = 0"
  by (simp add: title_page_def pages_def comp_def)

lemma title_page_images [simp]: "images (title_page f d ms today) = []"
  by (simp add: title_page_def images_def comp_def)

lemma section_pages_pages [simp]: "pages (section_pages f d) = 3"
  by (simp add: section_pages_def sections_def section_page_def)

lemma section_pages_images [simp]: "images (section_pages f d) = []"
  by (simp add: section_pages_def sections_def section_page_def)

lemma conclusion_page_pages [simp]: "pages (conclusion_page f) = 1"
  and conclusion_page_images [simp]: "images (conclusion_page f) = []"
  by (simp_all add: conclusion_page_def)

section \<open>Pages with images\<close>

lemma screenshot_entry_Inr_iff:
  "screenshot_entry files f d (img, cap) = Inr ops \<longleftrightarrow>
     img \<in> files \<and>
     ops = [Ln 5, Image [Lit img] 10 190, SetFont f ''B'' d, Ln 2, Cell 200 10 [Lit cap] True ''C'', Ln 5]"
  by (auto simp: screenshot_entry_def rbind_eq_Inr_iff embed_Inr_iff)

lemma screenshot_entry_Inl_iff:
  "screenshot_entry files f d (img, cap) = Inl e \<longleftrightarrow> img \<notin> files \<and> e = FileNotFound img"
  by (auto simp: screenshot_entry_def rbind_eq_Inl_iff embed_Inl_iff embed_Inr_iff)

lemma screenshot_entries_ok_iff:
  "is_ok (screenshot_entries files f d shots) \<longleftrightarrow> fst ` set shots \<subseteq> files"
proof (induction shots)
  case (Cons shot shots)
  obtain img cap where shot: "shot = (img, cap)" by (cases shot)
  show ?case
  proof (cases "img \<in> files")
    case True
    then obtain ops where "screenshot_entry files f d (img, cap) = Inr ops"
      by (simp add: screenshot_entry_Inr_iff)
    with Cons.IH True show ?thesis by (auto simp: shot is_ok_iff rbind_eq_Inr_iff)
  next
    case False
    then have "screenshot_entry files f d (img, cap) = Inl (FileNotFound img)"
      by (simp add: screenshot_entry_Inl_iff)
    with False show ?thesis by (simp add: shot)
  qed
qed simp

lemma screenshot_entries_Inl:
  "screenshot_entries files f d shots = Inl e \<Longrightarrow>
     \<exists>img\<in>fst ` set shots. img \<notin> files \<and> e = FileNotFound img"
proof (induction shots)
  case (Cons shot shots)
  obtain img cap where shot: "shot = (img, cap)" by (cases shot)
  from Cons.prems consider "screenshot_entry files f d (img, cap) = Inl e"
    | "screenshot_entries files f d shots = Inl e"
    by (auto simp: shot rbind_eq_Inl_iff)
  then show ?case
  proof cases
    case 1
    then show ?thesis by (auto simp: shot screenshot_entry_Inl_iff)
  next
    case 2
    with Cons.IH show ?thesis by auto
  qed
qed simp

lemma screenshot_entries_images:
  "screenshot_entries files f d shots = Inr ops \<Longrightarrow> images ops = map (\<lambda>shot. [Lit (fst shot)]) shots"
proof (induction shots arbitrary: ops)
  case (Cons shot shots)
  obtain img cap where shot: "shot = (img, cap)" by (cases shot)
  from Cons.prems obtain a b where a: "screenshot_entry files f d (img, cap) = Inr a"
    and b: "screenshot_entries files f d shots = Inr b" and ops: "ops = a @ b"
    by (auto simp: shot rbind_eq_Inr_iff)
  from a have "images a = [[Lit img]]" by (simp add: screenshot_entry_Inr_iff)
  with Cons.IH [OF b] show ?case by (simp add: ops shot)
qed simp

lemma screenshot_entries_pages:
  "screenshot_entries files f d shots = Inr ops \<Longrightarrow> pages ops = 0"
proof (induction shots arbitrary: ops)
  case (Cons shot shots)
  obtain img cap where shot: "shot = (img, cap)" by (cases shot)
  from Cons.prems obtain a b where a: "screenshot_entry files f d (img, cap) = Inr a"
    and b: "screenshot_entries files f d shots = Inr b" and ops: "ops = a @ b"
    by (auto simp: shot rbind_eq_Inr_iff)
  from a have "pages a = 0" by (simp add: screenshot_entry_Inr_iff)
  with Cons.IH [OF b] show ?case by (simp add: ops)
qed simp

lemma screenshots_page_ok_iff:
  "is_ok (screenshots_page files f d) \<longleftrightarrow> fst ` set screenshots \<subseteq> files"
  using screenshot_entries_ok_iff [of files f d screenshots]
  by (auto simp: screenshots_page_def is_ok_iff rbind_eq_Inr_iff)

lemma screenshots_page_Inr:
  assumes "screenshots_page files f d = Inr ops"
  shows "images ops = map (\<lambda>shot. [Lit (fst shot)]) screenshots" and "pages ops = 1"
  using assms
  by (auto simp: screenshots_page_def rbind_eq_Inr_iff
      dest: screenshot_entries_images screenshot_entries_pages)

lemma screenshots_page_Inl:
  "screenshots_page files f d = Inl e \<Longrightarrow>
     \<exists>img\<in>fst ` set screenshots. img \<notin> files \<and> e = FileNotFound img"
  by (auto simp: screenshots_page_def rbind_eq_Inl_iff dest: screenshot_entries_Inl)

definition mf_images :: "string list" where
  "mf_images =
     [''screenshots/soil_moisture_mf.png'', ''screenshots/temperature_mf.png'',
      ''screenshots/water_sprinkle_mf.png'']"

lemma mf_page_ok_iff: "is_ok (mf_page files f) \<longleftrightarrow> set mf_images \<subseteq> files"
  by (auto simp: mf_page_def mf_images_def is_ok_iff rbind_eq_Inr_iff embed_Inr_iff)

lemma mf_page_Inr:
  assumes "mf_page files f = Inr ops"
  shows "images ops = map (\<lambda>p. [Lit p]) mf_images" and "pages ops = 1"
  using assms by (auto simp: mf_page_def mf_images_def rbind_eq_Inr_iff embed_Inr_iff)

lemma mf_page_Inl:
  "mf_page files f = Inl e \<Longrightarrow> \<exists>img\<in>set mf_images. img \<notin> files \<and> e = FileNotFound img"
  by (auto simp: mf_page_def mf_images_def rbind_eq_Inl_iff embed_Inl_iff embed_Inr_iff)

section \<open>Fonts of the fixed pages\<close>

lemma title_page_fonts [simp]: "fonts_used (title_page f d ms today) = {f}"
  by (auto simp: title_page_def fonts_used_def)

lemma section_pages_fonts [simp]: "fonts_used (section_pages f d) = {f}"
  by (simp add: section_pages_def sections_def section_page_def)

lemma conclusion_page_fonts [simp]: "fonts_used (conclusion_page f) = {f}"
  by (simp add: conclusion_page_def)

lemma screenshot_entries_fonts:
  "screenshot_entries files f d shots = Inr ops \<Longrightarrow> fonts_used ops \<subseteq> {f}"
proof (induction shots arbitrary: ops)
  case (Cons shot shots)
  obtain img cap where shot: "shot = (img, cap)" by (cases shot)
  from Cons.prems obtain a b where a: "screenshot_entry files f d (img, cap) = Inr a"
    and b: "screenshot_entries files f d shots = Inr b" and ops: "ops = a @ b"
    by (auto simp: shot rbind_eq_Inr_iff)
  from a have "fonts_used a = {f}" by (simp add: screenshot_entry_Inr_iff)
  with Cons.IH [OF b] show ?case by (simp add: ops)
qed simp

lemma screenshots_page_fonts:
  assumes "screenshots_page files f d = Inr ops"
  shows "fonts_used ops = {f}"
proof -
  from assms obtain x where x: "screenshot_entries files f d screenshots = Inr x"
    and "fonts_used ops = {f} \<union> fonts_used x"
    by (auto simp: screenshots_page_def rbind_eq_Inr_iff)
  with screenshot_entries_fonts [OF x] show ?thesis by auto
qed

lemma mf_page_fonts: "mf_page files f = Inr ops \<Longrightarrow> fonts_used ops = {f}"
  by (auto simp: mf_page_def rbind_eq_Inr_iff embed_Inr_iff)

section \<open>Texts beyond Latin-1\<close>

lemma load_fonts_texts [simp]: "texts (fst (snd (load_fonts files))) = []"
  by (simp add: load_fonts_def)

lemma title_page_Cons:
  "title_page f d ms today = SetFont f ''B'' 24 # tl (title_page f d ms today)"
  "fonts_used (tl (title_page f d ms today)) = {f}"
  by (auto simp: title_page_def fonts_used_def)

lemma title_page_texts:
  "map render (texts (title_page f d ms today)) =
     [''Fuzzy Logic Sprinkler System'', ''Team Members:''] @ ms @ [''Date: '' @ today]"
  by (simp add: title_page_def texts_def comp_def map_concat)

lemma section_pages_texts:
  "texts (section_pages f d) =
     [[Lit ''Introduction''], [Lit introduction_text],
      [Lit ''System Description''], [Lit system_description_text],
      [Lit ''Methodology''], [Lit methodology_text]]"
  by (simp add: section_pages_def sections_def section_page_def)


lemma system_description_not_latin1: "\<not> latin1 system_description_text"
  by (rule not_latin1I [of "CHR 0xE2"]) (simp_all add: system_description_text_def bullet_def)

lemma headings_latin1:
  "latin1 ''Fuzzy Logic Sprinkler System''" "latin1 ''Team Members:''" "latin1 ''Date: ''"
  "latin1 ''Introduction''" "latin1 ''System Description''" "latin1 ''Methodology''"
  by (simp_all add: latin1_def)

lemma team_members_not_latin1: "\<not> latin1 (hd team_members)"
  by (rule not_latin1I [of "CHR 0xE2"]) (simp_all add: team_members_def en_dash_def)

lemma plain_texts_latin1: "latin1 introduction_text" "latin1 methodology_text" "latin1 conclusion_text"
  by (simp_all add: introduction_text_def methodology_text_def conclusion_text_def)
     (simp_all add: latin1_def newline_def)

end
