(* ===== verification/Program.thy ===== *)
theory Program
  imports Plots Report Pages
begin

text \<open>
  The program as a whole (\<^verbatim>\<open>src/fuzzy.py\<close> from the first line to the last): the set-up of
  the controller, the plots of the membership functions, the loop over the test cases,
  the report inside its \<^verbatim>\<open>try\<close> block, and the clean-up.  A run starts from the files
  that exist, the names for the title page and the date; it ends with the files that
  exist then, the lines printed, the trace of the plotting calls, and the error that
  ended it early if there was one.  An error of the set-up or of the loop ends the run;
  an error inside the report is caught and printed.

  The report has two ways to fail, both inside the \<^verbatim>\<open>try\<close> block: an image whose file
  does not exist, at the call that embeds it, and a text that the chosen font cannot
  encode, at the call that writes the document.  \<open>report_body\<close> is the list of the
  calls up to and including the last one, \<open>report\<close> hands it to \<open>write_document\<close> and
  prints the outcome.  The lemmas say which of the three outcomes a run has, by the
  files that exist before it.
\<close>

section \<open>The report\<close>

definition report_body ::
    "string set \<Rightarrow> string list \<Rightarrow> string \<Rightarrow> simulation \<Rightarrow> failure + (simulation \<times> pdf_op list)" where
  "report_body files members today s =
     (case load_fonts files of ((font_name, default_font_size), font_ops, msgs) \<Rightarrow>
        rbind (screenshots_page files font_name default_font_size) (\<lambda>shots.
        rbind (mf_page files font_name) (\<lambda>mfs.
        rbind (engine (results_page font_name files s)) (\<lambda>(s', results).
        Inr (s',
             [SetAutoPageBreak True 15, AddPage] @ font_ops @
             title_page font_name default_font_size members today @
             section_pages font_name default_font_size @ shots @ mfs @
             rules_page font_name @ results @ conclusion_page font_name @
             [Output ''Fuzzy_Logic_Report.pdf''])))))"

definition report ::
    "string set \<Rightarrow> string list \<Rightarrow> string \<Rightarrow> simulation \<Rightarrow> string set \<times> console_line list" where
  "report files members today s =
     (case rbind (report_body files members today s)
             (\<lambda>(s', ops). write_document ''Fuzzy_Logic_Report.pdf'' ops files) of
        Inr files' \<Rightarrow>
          (files',
           snd (snd (load_fonts files)) @
           [Printed ''Enhanced report generated: Fuzzy_Logic_Report V1.4.pdf''])
      | Inl e \<Rightarrow>
          (files,
           snd (snd (load_fonts files)) @ [PrintedError ''Error generating PDF report: '' e []]))"

section \<open>The run\<close>

record outcome =
  files_after :: "string set"
  console :: "console_line list"
  plotted :: "plt_op list"
  crash :: "error option"

definition script :: "string set \<Rightarrow> string list \<Rightarrow> string \<Rightarrow> outcome" where
  "script files members today =
     (case sprinkler of
        Inl e \<Rightarrow> \<lparr>files_after = files, console = [], plotted = [], crash = Some e\<rparr>
      | Inr s \<Rightarrow>
          (let files0 = ensure_screenshots files in
           case membership_plots of
             Inl e \<Rightarrow> \<lparr>files_after = files0, console = [], plotted = [], crash = Some e\<rparr>
           | Inr plots \<Rightarrow>
               (let files1 = files0 \<union> written plots;
                    (trace, r) = run_cases 0 test_cases s;
                    files2 = files1 \<union> written trace
                in case r of
                     Inl e \<Rightarrow>
                       \<lparr>files_after = files2, console = [], plotted = plots @ trace,
                        crash = Some e\<rparr>
                   | Inr s' \<Rightarrow>
                       (let (files3, printed) = report files2 members today s'
                        in \<lparr>files_after = files3, console = printed,
                             plotted = plots @ trace @ cleanup, crash = None\<rparr>))))"

section \<open>When the report is written\<close>

definition report_inputs :: "string set" where
  "report_inputs = fst ` set screenshots \<union> set mf_images"

definition font_files :: "string set" where
  "font_files = {''fonts/bookantiqua.ttf'', ''fonts/bookantiqua_bold.ttf''}"

definition first_unencodable :: "string list \<Rightarrow> string \<Rightarrow> string" where
  "first_unencodable members today =
     hd (filter (\<lambda>txt. \<not> latin1 txt) (members @ [''Date: '' @ today, system_description_text]))"

lemma report_body_ok_iff:
  assumes "sim_ctrl s = ctrl_v"
  shows "is_ok (report_body files ms today s) \<longleftrightarrow> report_inputs \<subseteq> files"
proof -
  obtain f d fo msgs where lf: "load_fonts files = ((f, d), fo, msgs)"
    by (metis prod.exhaust)
  have page: "is_ok (results_page f files s)" using assms by (rule results_page_ok)
  show ?thesis
    using screenshots_page_ok_iff [of files f d] mf_page_ok_iff [of files f] page
    by (auto simp: report_body_def lf report_inputs_def is_ok_iff rbind_eq_Inr_iff)
qed

lemma report_body_Inl:
  assumes "sim_ctrl s = ctrl_v" and "report_body files ms today s = Inl e"
  shows "\<exists>img\<in>report_inputs. img \<notin> files \<and> e = FileNotFound img"
proof -
  obtain f d fo msgs where lf: "load_fonts files = ((f, d), fo, msgs)"
    by (metis prod.exhaust)
  from results_page_ok [OF assms(1), of f files]
  obtain s' ops where "results_page f files s = Inr (s', ops)" by (auto simp: is_ok_iff)
  with assms(2) have "screenshots_page files f d = Inl e \<or> mf_page files f = Inl e"
    by (auto simp: report_body_def lf rbind_eq_Inl_iff)
  then show ?thesis
    by (auto simp: report_inputs_def dest!: screenshots_page_Inl mf_page_Inl)
qed

lemma report_body_Inr:
  assumes "report_body files ms today s = Inr (s', ops)"
  obtains f d fo msgs shots mfs results where "load_fonts files = ((f, d), fo, msgs)"
    and "screenshots_page files f d = Inr shots" and "mf_page files f = Inr mfs"
    and "results_page f files s = Inr (s', results)"
    and "ops = [SetAutoPageBreak True 15, AddPage] @ fo @ title_page f d ms today @
           section_pages f d @ shots @ mfs @ rules_page f @ results @ conclusion_page f @
           [Output ''Fuzzy_Logic_Report.pdf'']"
proof -
  obtain f d fo msgs where lf: "load_fonts files = ((f, d), fo, msgs)"
    by (metis prod.exhaust)
  from assms obtain shots mfs results where
    "screenshots_page files f d = Inr shots" "mf_page files f = Inr mfs"
    "engine (results_page f files s) = Inr (s', results)"
    "ops = [SetAutoPageBreak True 15, AddPage] @ fo @ title_page f d ms today @
       section_pages f d @ shots @ mfs @ rules_page f @ results @ conclusion_page f @
       [Output ''Fuzzy_Logic_Report.pdf'']"
    by (auto simp: report_body_def lf rbind_eq_Inr_iff)
  moreover from this(3) have "results_page f files s = Inr (s', results)"
    by (cases "results_page f files s") simp_all
  ultimately show ?thesis using lf by (rule_tac that)
qed

lemma report_body_fonts:
  assumes "report_body files ms today s = Inr (s', ops)"
  shows "fonts_used ops = {fst (fst (load_fonts files))}"
proof -
  from assms obtain f d fo msgs shots mfs results where lf: "load_fonts files = ((f, d), fo, msgs)"
    and pg: "screenshots_page files f d = Inr shots" "mf_page files f = Inr mfs"
      "results_page f files s = Inr (s', results)"
    and ops: "ops = [SetAutoPageBreak True 15, AddPage] @ fo @ title_page f d ms today @
           section_pages f d @ shots @ mfs @ rules_page f @ results @ conclusion_page f @
           [Output ''Fuzzy_Logic_Report.pdf'']"
    by (rule report_body_Inr)
  have "fonts_used fo = {}" using lf by (auto simp: load_fonts_def split: if_splits)
  with pg show ?thesis
    by (simp add: ops lf screenshots_page_fonts mf_page_fonts results_page_fonts)
qed

lemma report_body_pages:
  assumes "report_body files ms today s = Inr (s', ops)"
  shows "pages ops = 9"
proof -
  from assms obtain f d fo msgs shots mfs results where lf: "load_fonts files = ((f, d), fo, msgs)"
    and pg: "screenshots_page files f d = Inr shots" "mf_page files f = Inr mfs"
      "results_page f files s = Inr (s', results)"
    and ops: "ops = [SetAutoPageBreak True 15, AddPage] @ fo @ title_page f d ms today @
           section_pages f d @ shots @ mfs @ rules_page f @ results @ conclusion_page f @
           [Output ''Fuzzy_Logic_Report.pdf'']"
    by (rule report_body_Inr)
  have "pages fo = 0" using lf by (auto simp: load_fonts_def split: if_splits)
  with pg show ?thesis
    by (simp add: ops screenshots_page_Inr mf_page_Inr results_page_fonts)
qed

lemma report_body_texts:
  assumes "report_body files ms today s = Inr (s', ops)"
  shows "[Lit system_description_text] \<in> set (texts ops)"
proof -
  from assms obtain f d fo msgs shots mfs results where
    "ops = [SetAutoPageBreak True 15, AddPage] @ fo @ title_page f d ms today @
           section_pages f d @ shots @ mfs @ rules_page f @ results @ conclusion_page f @
           [Output ''Fuzzy_Logic_Report.pdf'']"
    by (rule report_body_Inr)
  then show ?thesis by (simp add: section_pages_texts)
qed

lemma report_body_unencodable:
  assumes "report_body files ms today s = Inr (s', ops)"
  shows "unencodable None ops =
     (if font_files \<subseteq> files then []
      else filter (\<lambda>txt. \<not> latin1 txt) (map render (texts ops)))"
proof -
  from assms obtain f d fo msgs shots mfs results where lf: "load_fonts files = ((f, d), fo, msgs)"
    and pg: "screenshots_page files f d = Inr shots" "mf_page files f = Inr mfs"
      "results_page f files s = Inr (s', results)"
    and ops: "ops = [SetAutoPageBreak True 15, AddPage] @ fo @ title_page f d ms today @
           section_pages f d @ shots @ mfs @ rules_page f @ results @ conclusion_page f @
           [Output ''Fuzzy_Logic_Report.pdf'']"
    by (rule report_body_Inr)
  define pre where "pre = [SetAutoPageBreak True 15, AddPage] @ fo"
  define rest where "rest = tl (title_page f d ms today) @ section_pages f d @ shots @ mfs @
      rules_page f @ results @ conclusion_page f @ [Output ''Fuzzy_Logic_Report.pdf'']"
  have split: "ops = pre @ SetFont f ''B'' 24 # rest"
    using title_page_Cons(1) [of f d ms today] by (simp add: ops pre_def rest_def)
  have pre: "texts pre = []" using load_fonts_texts [of files] by (simp add: pre_def lf)
  have rest: "fonts_used rest \<subseteq> {f}"
    using pg
    by (simp add: rest_def title_page_Cons(2) screenshots_page_fonts mf_page_fonts
        results_page_fonts)
  have f: "f = (if font_files \<subseteq> files then ''Book Antiqua'' else ''Arial'')"
    using load_fonts_name [of files] by (simp add: lf font_files_def)
  from unencodable_one_font [OF pre rest, of "''B''" 24] show ?thesis
    by (simp add: split f pre)
qed

lemma report_body_first_unencodable:
  assumes "report_body files ms today s = Inr (s', ops)"
  shows "\<exists>more. filter (\<lambda>txt. \<not> latin1 txt) (map render (texts ops)) =
           first_unencodable ms today # more"
    and "\<not> latin1 (first_unencodable ms today)"
proof -
  let ?P = "\<lambda>txt. \<not> latin1 txt"
  from assms obtain f d fo msgs shots mfs results where lf: "load_fonts files = ((f, d), fo, msgs)"
    and ops: "ops = [SetAutoPageBreak True 15, AddPage] @ fo @ title_page f d ms today @
           section_pages f d @ shots @ mfs @ rules_page f @ results @ conclusion_page f @
           [Output ''Fuzzy_Logic_Report.pdf'']"
    by (rule report_body_Inr)
  have fo: "texts fo = []" using load_fonts_texts [of files] by (simp add: lf)
  have known: "filter ?P (ms @ [''Date: '' @ today, system_description_text]) \<noteq> []"
    by (simp add: system_description_not_latin1)
  then obtain x xs where xs: "filter ?P (ms @ [''Date: '' @ today, system_description_text]) = x # xs"
    by (cases "filter ?P (ms @ [''Date: '' @ today, system_description_text])") auto
  then have x: "first_unencodable ms today = x" by (simp add: first_unencodable_def)
  have "\<exists>more. filter ?P (map render (texts ops)) =
      filter ?P (ms @ [''Date: '' @ today, system_description_text]) @ more"
    by (simp add: ops fo title_page_texts section_pages_texts plain_texts_latin1
        system_description_not_latin1 headings_latin1)
  with xs x show "\<exists>more. filter ?P (map render (texts ops)) = first_unencodable ms today # more"
    by auto
  have "x \<in> set (filter ?P (ms @ [''Date: '' @ today, system_description_text]))"
    unfolding xs by simp
  then have "\<not> latin1 x" unfolding set_filter by blast
  with x show "\<not> latin1 (first_unencodable ms today)" by simp
qed

lemma first_unencodable_hd:
  "ms \<noteq> [] \<Longrightarrow> \<not> latin1 (hd ms) \<Longrightarrow> first_unencodable ms today = hd ms"
  by (cases ms) (simp_all add: first_unencodable_def)

lemma first_unencodable_team: "first_unencodable team_members today = hd team_members"
  using team_members_not_latin1 by (intro first_unencodable_hd) (simp_all add: team_members_def)

lemma load_fonts_missing:
  assumes "\<not> font_files \<subseteq> files"
  shows "\<exists>missing\<in>font_files - files.
     snd (snd (load_fonts files)) =
       [PrintedError ''Error loading fonts: '' (FileNotFound missing) ''. Using Arial instead.'']"
  using assms by (auto simp: load_fonts_def font_files_def)

lemma report_value:
  assumes "sim_ctrl s = ctrl_v"
  shows "report files ms today s =
     (if \<not> report_inputs \<subseteq> files then
        (files, snd (snd (load_fonts files)) @
           [PrintedError ''Error generating PDF report: ''
              (FileNotFound (hd (filter (\<lambda>p. p \<notin> files) (map fst screenshots @ mf_images)))) []])
      else if \<not> font_files \<subseteq> files then
        (files, snd (snd (load_fonts files)) @
           [PrintedError ''Error generating PDF report: ''
              (NotEncodable (first_unencodable ms today)) []])
      else
        (insert ''Fuzzy_Logic_Report.pdf'' files,
         snd (snd (load_fonts files)) @
           [Printed ''Enhanced report generated: Fuzzy_Logic_Report V1.4.pdf'']))"
proof (cases "report_body files ms today s")
  case (Inr r)
  obtain s' ops where r: "r = (s', ops)" by (cases r)
  from Inr r have body: "report_body files ms today s = Inr (s', ops)" by simp
  from body report_body_ok_iff [OF assms, of files ms today] have inputs: "report_inputs \<subseteq> files"
    by simp
  from report_body_first_unencodable(1) [OF body] obtain more where
    "filter (\<lambda>txt. \<not> latin1 txt) (map render (texts ops)) = first_unencodable ms today # more" ..
  with report_body_unencodable [OF body] inputs show ?thesis
    by (simp add: report_def body write_document_def)
next
  case (Inl e)
  obtain f d fo msgs where lf: "load_fonts files = ((f, d), fo, msgs)"
    by (metis prod.exhaust)
  from results_page_ok [OF assms, of f files]
  obtain s' ops where "results_page f files s = Inr (s', ops)" by (auto simp: is_ok_iff)
  with Inl have "e = FileNotFound (hd (filter (\<lambda>p. p \<notin> files) (map fst screenshots @ mf_images)))"
    by (auto simp: report_body_def lf rbind_eq_Inl_iff screenshots_page_def screenshots_def
        screenshot_entry_def embed_def mf_page_def mf_images_def split: if_splits)
  with Inl report_body_ok_iff [OF assms, of files ms today] show ?thesis
    by (simp add: report_def)
qed

section \<open>The files of a run\<close>

lemma written_membership_plots: "membership_plots = Inr plots \<Longrightarrow> written plots = set mf_images"
  by (simp add: written_def membership_plots_saved mf_plot_paths_def mf_images_def)

definition output_images :: "string set" where
  "output_images = (\<lambda>i. render (screenshot_path i)) ` {0..<10}"

lemma written_test_run: "written (fst test_run) = output_images"
  by (simp add: written_def test_run_saved output_images_def image_image)

lemma output_image_head: "p \<in> output_images \<Longrightarrow> hd p = CHR ''s''"
  by (auto simp: output_images_def screenshot_path_def)

lemma screenshots_not_written:
  "fst ` set screenshots \<inter> (insert ''screenshots'' (set mf_images \<union> output_images)) = {}"
  by (auto simp: screenshots_def mf_images_def dest: output_image_head)

lemma report_not_written:
  "''Fuzzy_Logic_Report.pdf'' \<notin> insert ''screenshots'' (set mf_images \<union> output_images)"
  "''Fuzzy_Logic_Report V1.4.pdf'' \<notin> insert ''screenshots'' (set mf_images \<union> output_images)"
  by (auto simp: mf_images_def dest: output_image_head)

section \<open>The outcome of a run\<close>

definition files_before_report :: "string set \<Rightarrow> string set" where
  "files_before_report files = insert ''screenshots'' files \<union> set mf_images \<union> output_images"

lemma report_inputs_before_report:
  "report_inputs \<subseteq> files_before_report files \<longleftrightarrow> fst ` set screenshots \<subseteq> files"
  using screenshots_not_written unfolding report_inputs_def files_before_report_def by blast

lemma font_files_not_written:
  "font_files \<inter> (insert ''screenshots'' (set mf_images \<union> output_images)) = {}"
  by (auto simp: font_files_def mf_images_def dest: output_image_head)

lemma font_files_before_report:
  "font_files \<subseteq> files_before_report files \<longleftrightarrow> font_files \<subseteq> files"
  using font_files_not_written unfolding files_before_report_def by blast

lemma load_fonts_before_report: "load_fonts (files_before_report files) = load_fonts files"
  using font_files_before_report [of files]
  by (auto simp: load_fonts_def font_files_def files_before_report_def mf_images_def
      dest: output_image_head)

lemma script_value:
  obtains plots where "membership_plots = Inr plots"
    and "script files ms today =
      \<lparr>files_after = fst (report (files_before_report files) ms today
                             (run_case (ControlSystemSimulation ctrl_v) (60, 5))),
       console = snd (report (files_before_report files) ms today
                        (run_case (ControlSystemSimulation ctrl_v) (60, 5))),
       plotted = plots @ fst test_run @ cleanup, crash = None\<rparr>"
proof -
  from plots_ok(4) obtain plots where plots: "membership_plots = Inr plots"
    by (auto simp: is_ok_iff)
  have run: "run_cases 0 test_cases (ControlSystemSimulation ctrl_v) =
      (fst test_run, Inr (run_case (ControlSystemSimulation ctrl_v) (60, 5)))"
    using test_run_result by (simp add: test_run_value prod_eq_iff)
  have "ensure_screenshots files \<union> written plots \<union> written (fst test_run) =
      files_before_report files"
    by (simp add: ensure_screenshots_eq written_membership_plots [OF plots] written_test_run
        files_before_report_def)
  then have "script files ms today =
      \<lparr>files_after = fst (report (files_before_report files) ms today
                             (run_case (ControlSystemSimulation ctrl_v) (60, 5))),
       console = snd (report (files_before_report files) ms today
                        (run_case (ControlSystemSimulation ctrl_v) (60, 5))),
       plotted = plots @ fst test_run @ cleanup, crash = None\<rparr>"
    by (simp add: script_def sprinkler_value plots run Let_def split_beta)
  with plots show ?thesis by (rule that)
qed

lemma script_files:
  "files_after (script files ms today) =
     (if fst ` set screenshots \<subseteq> files \<and> font_files \<subseteq> files
      then insert ''Fuzzy_Logic_Report.pdf'' (files_before_report files)
      else files_before_report files)"
proof -
  obtain plots where "script files ms today =
      \<lparr>files_after = fst (report (files_before_report files) ms today
                             (run_case (ControlSystemSimulation ctrl_v) (60, 5))),
       console = snd (report (files_before_report files) ms today
                        (run_case (ControlSystemSimulation ctrl_v) (60, 5))),
       plotted = plots @ fst test_run @ cleanup, crash = None\<rparr>"
    by (rule script_value)
  then show ?thesis
    by (simp add: report_value report_inputs_before_report font_files_before_report)
qed

lemma script_plotted:
  "open_figures 0 (plotted (script files ms today)) = 0"
  "peak 0 (plotted (script files ms today)) = 4"
  "\<exists>ops. plotted (script files ms today) = ops @ cleanup \<and> open_figures 0 ops = 3"
proof -
  obtain plots where plots: "membership_plots = Inr plots" and
    "script files ms today =
      \<lparr>files_after = fst (report (files_before_report files) ms today
                             (run_case (ControlSystemSimulation ctrl_v) (60, 5))),
       console = snd (report (files_before_report files) ms today
                        (run_case (ControlSystemSimulation ctrl_v) (60, 5))),
       plotted = plots @ fst test_run @ cleanup, crash = None\<rparr>"
    by (rule script_value)
  then have tr: "plotted (script files ms today) = plots @ fst test_run @ cleanup" by simp
  note fig = membership_plots_figures [OF plots, of 0, simplified]
  have run: "open_figures 3 (fst test_run) = 3" "peak 3 (fst test_run) \<le> 4"
    using run_cases_balanced [of 3 0 test_cases] run_cases_peak [of 3 0 test_cases]
    by (simp_all add: test_run_value)
  show "open_figures 0 (plotted (script files ms today)) = 0"
    by (simp add: tr cleanup_def)
  show "peak 0 (plotted (script files ms today)) = 4"
    using run peak_ge [of 3 "fst test_run"]
    by (simp add: tr peak_append fig cleanup_def)
  have "open_figures 0 (plots @ fst test_run) = 3" by (simp add: fig run)
  then show "\<exists>ops. plotted (script files ms today) = ops @ cleanup \<and> open_figures 0 ops = 3"
    by (intro exI [of _ "plots @ fst test_run"]) (simp add: tr)
qed

lemma missing_before_report:
  "filter (\<lambda>p. p \<notin> files_before_report files) (map fst screenshots @ mf_images) =
     filter (\<lambda>p. p \<notin> files) (map fst screenshots)"
proof -
  have "p \<notin> files_before_report files \<longleftrightarrow> p \<notin> files" if "p \<in> set (map fst screenshots)" for p
    using that screenshots_not_written unfolding files_before_report_def set_map by blast
  then have "filter (\<lambda>p. p \<notin> files_before_report files) (map fst screenshots) =
      filter (\<lambda>p. p \<notin> files) (map fst screenshots)"
    by (intro filter_cong) simp_all
  moreover have "filter (\<lambda>p. p \<notin> files_before_report files) mf_images = []"
    by (auto simp: files_before_report_def filter_empty_conv)
  ultimately show ?thesis by simp
qed

lemma script_console:
  "console (script files ms today) =
     snd (snd (load_fonts files)) @
     (if \<not> fst ` set screenshots \<subseteq> files then
        [PrintedError ''Error generating PDF report: ''
           (FileNotFound (hd (filter (\<lambda>p. p \<notin> files) (map fst screenshots)))) []]
      else if \<not> font_files \<subseteq> files then
        [PrintedError ''Error generating PDF report: ''
           (NotEncodable (first_unencodable ms today)) []]
      else [Printed ''Enhanced report generated: Fuzzy_Logic_Report V1.4.pdf''])"
proof -
  obtain plots where "script files ms today =
      \<lparr>files_after = fst (report (files_before_report files) ms today
                             (run_case (ControlSystemSimulation ctrl_v) (60, 5))),
       console = snd (report (files_before_report files) ms today
                        (run_case (ControlSystemSimulation ctrl_v) (60, 5))),
       plotted = plots @ fst test_run @ cleanup, crash = None\<rparr>"
    by (rule script_value)
  then show ?thesis
    by (simp add: report_value report_inputs_before_report font_files_before_report
        load_fonts_before_report missing_before_report del: filter_append)
qed

lemma script_crash: "crash (script files ms today) = None"
proof -
  obtain plots where "script files ms today =
      \<lparr>files_after = fst (report (files_before_report files) ms today
                             (run_case (ControlSystemSimulation ctrl_v) (60, 5))),
       console = snd (report (files_before_report files) ms today
                        (run_case (ControlSystemSimulation ctrl_v) (60, 5))),
       plotted = plots @ fst test_run @ cleanup, crash = None\<rparr>"
    by (rule script_value)
  then show ?thesis by simp
qed

section \<open>The figures of a run\<close>

definition case_figures :: "(fstring \<times> figure) list" where
  "case_figures = map (\<lambda>(k, c). (screenshot_path k, case_figure c)) (enumerate 0 test_cases)"

lemma script_figures:
  "\<exists>ops. plotted (script files ms today) = ops @ cleanup
     \<and> plt_run plt_init ops =
         \<lparr>stack = [sized_figure, sized_figure, sized_figure],
          stored = rev (plot_figures @ case_figures)\<rparr>"
proof -
  obtain plots where plots: "membership_plots = Inr plots" and
    "script files ms today =
      \<lparr>files_after = fst (report (files_before_report files) ms today
                             (run_case (ControlSystemSimulation ctrl_v) (60, 5))),
       console = snd (report (files_before_report files) ms today
                        (run_case (ControlSystemSimulation ctrl_v) (60, 5))),
       plotted = plots @ fst test_run @ cleanup, crash = None\<rparr>"
    by (rule script_value)
  then have tr: "plotted (script files ms today) = (plots @ fst test_run) @ cleanup" by simp
  have "plt_run plt_init (plots @ fst test_run) =
      \<lparr>stack = [sized_figure, sized_figure, sized_figure],
       stored = rev (plot_figures @ case_figures)\<rparr>"
    by (simp add: membership_plots_run [OF plots] test_run_run plt_init_def case_figures_def)
  with tr show ?thesis by blast
qed

lemma plot_figures_unsized: "list_all (\<lambda>pf. fig_size (snd pf) = None) (plot_figures @ case_figures)"
  by (auto simp: plot_figures_def view_figure_def case_figures_def case_figure_def list_all_iff)

end
