(* ===== verification/Reach.thy ===== *)
theory Reach
  imports Sprinkler
begin

text \<open>
  The states of the simulation that the program can reach.  The program builds one
  simulation (\<^verbatim>\<open>src/fuzzy.py\<close>, line 41) and from then on only assigns inputs and
  computes (lines 83 to 85 and 251 to 253); \<open>reachable\<close> closes the simulation it
  builds under these two operations, with any label and any value in an assignment.
  \<open>sim_ok\<close> is the invariant of these states: the control system is the one the
  program built, and the results are either those of a fresh simulation or one entry
  for the water sprinkling level, which is a number of the output universe or one of
  the two errors of an inference.  The lemmas show that the simulation of the program
  satisfies the invariant and that both operations keep it; no error of a look-up
  (unknown variable, unknown term) and no error of the set-up can show at run time,
  because every rule refers to terms that the variables declare.
\<close>

section \<open>Reachable states and their invariant\<close>

inductive reachable :: "simulation \<Rightarrow> bool" where
  start: "sprinkler = Inr s \<Longrightarrow> reachable s"
| assign: "reachable s \<Longrightarrow> reachable (set_input l x s)"
| computed: "reachable s \<Longrightarrow> reachable (compute s)"

definition result_ok :: "real result \<Rightarrow> bool" where
  "result_ok r \<longleftrightarrow>
     (case r of Inr y \<Rightarrow> 0 \<le> y \<and> y \<le> 100 | Inl e \<Rightarrow> e = MissingInput \<or> e = NoApplicableRule)"

definition sim_ok :: "simulation \<Rightarrow> bool" where
  "sim_ok s \<longleftrightarrow>
     sprinkle_ctrl = Inr (sim_ctrl s) \<and>
     (sim_output s = [] \<or> (\<exists>r. sim_output s = [(''Water Sprinkling'', r)] \<and> result_ok r))"

section \<open>Results of an inference\<close>

lemma result_ok_simps [simp]:
  "result_ok (Inr y) \<longleftrightarrow> 0 \<le> y \<and> y \<le> 100"
  "result_ok (Inl e) \<longleftrightarrow> e = MissingInput \<or> e = NoApplicableRule"
  by (simp_all add: result_ok_def)

lemma result_ok_crisp: "result_ok (crisp s t)"
  by (cases "crisp s t") (auto dest: crisp_error crisp_bounds)

lemma infer_variable_ok: "result_ok (infer_variable ctrl_v inp water_v)"
proof (cases "inp ''Soil Moisture'' = None \<or> inp ''Temperature'' = None")
  case True
  then show ?thesis by (simp add: infer_missing_input)
next
  case False
  then obtain s t where "inp ''Soil Moisture'' = Some s" "inp ''Temperature'' = Some t" by auto
  then show ?thesis by (simp add: infer_variable_sprinkler result_ok_crisp)
qed

lemma infer_sprinkler:
  "infer ctrl_v inp = [(''Water Sprinkling'', infer_variable ctrl_v inp water_v)]"
  by (simp add: infer_def)

section \<open>The invariant is established and kept\<close>

lemma sim_ok_start: "sprinkler = Inr s \<Longrightarrow> sim_ok s"
  by (auto simp: sim_ok_def sprinkler_value sprinkle_ctrl_value)

lemma sim_ok_set_input: "sim_ok s \<Longrightarrow> sim_ok (set_input l x s)"
  by (simp add: sim_ok_def)

lemma sim_ok_compute: "sim_ok s \<Longrightarrow> sim_ok (compute s)"
  by (auto simp: sim_ok_def sprinkle_ctrl_value sim_output_compute infer_sprinkler
      infer_variable_ok)

lemma sim_ok_run_case: "sim_ok s \<Longrightarrow> sim_ok (run_case s c)"
  by (simp add: run_case_def sim_ok_compute sim_ok_set_input)

lemma reachable_run_case: "reachable s \<Longrightarrow> reachable (run_case s c)"
  by (simp add: run_case_def reachable.intros)

lemma reachable_foldl: "reachable s \<Longrightarrow> reachable (foldl run_case s cs)"
  by (induction cs arbitrary: s) (simp_all add: reachable_run_case)

lemma sim_ok_output:
  "sim_ok s \<Longrightarrow> output_of s ''Water Sprinkling'' = Inl UnknownVariable \<or>
     result_ok (output_of s ''Water Sprinkling'')"
  by (auto simp: sim_ok_def output_of_def)

end
