(* ===== verification/Regions.thy ===== *)
theory Regions
  imports Scenarios
begin

text \<open>
  The output of the controller over whole regions of readings, not at single points.
  Two facts about a centroid carry the proofs: a centroid lies below a bound when the
  weights, counted against the bound, sum to a positive number, and the centroid of a
  curve that is symmetric about the middle of the output universe is the middle.  In
  a region where one consequent term fires alone the aggregate is that term clipped
  at the firing strength, so the output is known from the strength alone:

  \<^item> wet soil (80 and more) fires \<open>low\<close> alone, whatever the temperature, with a
    strength of at least 3/5, and the output is below 20;
  \<^item> soil up to 50 at a temperature between 20 and 30 fires \<open>medium\<close> alone, and the
    output is exactly 50, whatever the two readings;
  \<^item> dry soil (up to 20) in heat (40 and more) fires \<open>high\<close> alone with a strength of
    at least 1/2, and the output is above 75.

  A third fact compares the centroids of two curves over the same sorted samples:
  when the quotient of the weights falls from left to right, the centroid of the
  curve in the numerator is the smaller one (\<open>centroid_cross\<close>, by induction over the
  samples).  A term that falls from its apex, clipped at two levels, gives such a pair,
  so the centroid of the clipped \<open>low\<close> falls when the strength rises and that of the
  clipped \<open>high\<close> rises with it.  Hence the output is monotone inside these regions;
  the last section shows by two readings that it is not monotone in the cold.
\<close>

section \<open>Centroids against a bound\<close>

lemma curve_against_bound:
  "(\<Sum>x\<leftarrow>samples u. (b - x) * f x) = b * curve_area u f - curve_moment u f"
  "(\<Sum>x\<leftarrow>samples u. (x - b) * f x) = curve_moment u f - b * curve_area u f"
  by (simp_all add: curve_area_def curve_moment_def left_diff_distrib sum_list_subtractf
      sum_list_const_mult)

lemma curve_area_pos_if_moment:
  assumes "\<forall>x. 0 \<le> f x" and "curve_moment u f \<noteq> b * curve_area u f"
  shows "0 < curve_area u f"
proof -
  have "curve_area u f \<noteq> 0"
  proof
    assume zero: "curve_area u f = 0"
    with assms(1) have "\<forall>x\<in>set (samples u). f x = 0" by (simp add: curve_area_eq_0_iff)
    then have "curve_moment u f = 0" by (simp add: curve_moment_def cong: map_cong)
    with assms(2) zero show False by simp
  qed
  with curve_area_nonneg [OF assms(1), of u] show ?thesis by simp
qed

lemma centroid_less:
  assumes "\<forall>x. 0 \<le> f x" and "0 < (\<Sum>x\<leftarrow>samples u. (b - x) * f x)"
  shows "holds (centroid u f) (\<lambda>y. y < b)"
proof -
  from assms(2) have less: "curve_moment u f < b * curve_area u f"
    by (simp add: curve_against_bound)
  with curve_area_pos_if_moment [OF assms(1), where u = u and b = b] have "0 < curve_area u f" by simp
  with less show ?thesis by (simp add: centroid_def pos_divide_less_eq)
qed

lemma centroid_greater:
  assumes "\<forall>x. 0 \<le> f x" and "0 < (\<Sum>x\<leftarrow>samples u. (x - b) * f x)"
  shows "holds (centroid u f) (\<lambda>y. b < y)"
proof -
  from assms(2) have less: "b * curve_area u f < curve_moment u f"
    by (simp add: curve_against_bound)
  with curve_area_pos_if_moment [OF assms(1), where u = u and b = b] have "0 < curve_area u f" by simp
  with less show ?thesis by (simp add: centroid_def pos_less_divide_eq)
qed

lemma sum_list_mono_weights:
  "\<forall>x\<in>set xs. f x \<le> g x \<Longrightarrow> (\<Sum>x\<leftarrow>xs. f x) \<le> (\<Sum>x\<leftarrow>xs. (g x :: real))"
  by (induction xs) (simp_all add: add_mono)

section \<open>Symmetric curves\<close>

lemma rev_samples_percent: "rev (samples percent) = map (\<lambda>x. 100 - x) (samples percent)"
proof (rule nth_equalityI)
  show "length (rev (samples percent)) = length (map (\<lambda>x. 100 - x) (samples percent))" by simp
next
  fix i assume "i < length (rev (samples percent))"
  then have i: "i < 101" by simp
  then show "rev (samples percent) ! i = map (\<lambda>x. 100 - x) (samples percent) ! i"
    by (simp add: rev_nth nth_samples)
qed

lemma centroid_symmetric:
  assumes sym: "\<forall>x. f (100 - x) = f x" and nonneg: "\<forall>x. 0 \<le> f x" and pos: "0 < f 50"
  shows "centroid percent f = Inr 50"
proof -
  have "curve_moment percent f = (\<Sum>x\<leftarrow>rev (samples percent). x * f x)"
    unfolding curve_moment_def by (simp only: rev_map [symmetric] sum_list_rev)
  also have "\<dots> = (\<Sum>x\<leftarrow>samples percent. (100 - x) * f x)"
    by (simp add: rev_samples_percent comp_def sym)
  also have "\<dots> = 100 * curve_area percent f - curve_moment percent f"
    by (rule curve_against_bound(1))
  finally have half: "curve_moment percent f = 50 * curve_area percent f" by simp
  have "0 < curve_area percent f"
    using nonneg apexes_sampled(2) pos by (rule curve_area_pos)
  with half show ?thesis by (simp add: centroid_def)
qed

section \<open>Wet soil\<close>

lemma fire_wet:
  assumes "80 \<le> s" and "s \<le> 100"
  shows "fire_high s t = 0" and "fire_medium s t = 0"
    and "fire_low s t = degree (tri 50 100 100) s" and "3 / 5 \<le> degree (tri 50 100 100) s"
  using assms by (auto simp: fire_defs degree_def field_simps)

lemma low_against_20:
  assumes "3 / 5 \<le> a"
  shows "(20 - x) * min (3 / 5) (degree (tri 0 0 50) x) \<le> (20 - x) * min a (degree (tri 0 0 50) x)"
proof (cases "x \<le> 20")
  case True
  with assms show ?thesis by (intro mult_left_mono min.mono) simp_all
next
  case False
  then have "degree (tri 0 0 50) x \<le> 3 / 5" by (simp add: degree_def field_simps)
  with assms show ?thesis by (simp add: min_absorb2)
qed

lemma low_at_least: "(\<Sum>x\<leftarrow>samples percent. (20 - x) * min (3 / 5) (degree (tri 0 0 50) x)) = 361 / 10"
  by (simp add: samples_percent_unfold degree_def)

lemma crisp_wet:
  assumes "80 \<le> s" and "s \<le> 100"
  shows "crisp s t = crisp s t'" and "holds (crisp s t) (\<lambda>y. y < 20)"
proof -
  let ?a = "degree (tri 50 100 100) s"
  have curve: "sprinkle_curve s t = (\<lambda>x. min ?a (degree (tri 0 0 50) x))" for t
    by (simp add: sprinkle_curve_low_only fire_wet [OF assms])
  show "crisp s t = crisp s t'" by (simp add: crisp_def curve)
  have "361 / 10 \<le> (\<Sum>x\<leftarrow>samples percent. (20 - x) * min ?a (degree (tri 0 0 50) x))"
    unfolding low_at_least [symmetric]
    by (intro sum_list_mono_weights ballI low_against_20 fire_wet(4) [OF assms])
  then have "0 < (\<Sum>x\<leftarrow>samples percent. (20 - x) * sprinkle_curve s t x)"
    by (simp add: curve)
  with centroid_less [where f = "sprinkle_curve s t" and u = percent and b = 20]
  show "holds (crisp s t) (\<lambda>y. y < 20)"
    by (cases "centroid percent (sprinkle_curve s t)") (simp_all add: crisp_def)
qed

section \<open>The plateau of the medium term\<close>

lemma fire_plateau:
  assumes "0 \<le> s" and "s \<le> 50" and "20 \<le> t" and "t \<le> 30"
  shows "fire_high s t = 0" and "fire_low s t = 0" and "0 < fire_medium s t"
  using assms by (auto simp: fire_defs degree_def less_max_iff_disj)

lemma medium_symmetric: "degree (tri 20 50 80) (100 - x) = degree (tri 20 50 80) x"
  by (auto simp: degree_def)

lemma crisp_plateau:
  assumes "0 \<le> s" and "s \<le> 50" and "20 \<le> t" and "t \<le> 30"
  shows "crisp s t = Inr 50"
proof -
  have curve: "sprinkle_curve s t = (\<lambda>x. min (fire_medium s t) (degree (tri 20 50 80) x))"
    by (simp add: sprinkle_curve_medium_only fire_plateau [OF assms])
  have "centroid percent (sprinkle_curve s t) = Inr 50"
    unfolding curve using fire_plateau(3) [OF assms]
    by (intro centroid_symmetric) (simp_all add: medium_symmetric degree_def)
  then show ?thesis by (simp add: crisp_def)
qed

section \<open>Dry soil in heat\<close>

lemma fire_dry_hot:
  assumes "0 \<le> s" and "s \<le> 20" and "40 \<le> t" and "t \<le> 50"
  shows "fire_medium s t = 0" and "fire_low s t = 0" and "1 / 2 \<le> fire_high s t"
  using assms by (auto simp: fire_defs degree_def field_simps)

lemma high_against_75:
  assumes "1 / 2 \<le> a"
  shows "(x - 75) * min (1 / 2) (degree (tri 50 100 100) x) \<le> (x - 75) * min a (degree (tri 50 100 100) x)"
proof (cases "75 \<le> x")
  case True
  with assms show ?thesis by (intro mult_left_mono min.mono) simp_all
next
  case False
  then have "degree (tri 50 100 100) x \<le> 1 / 2" by (simp add: degree_def field_simps)
  with assms show ?thesis by (simp add: min_absorb2)
qed

lemma high_at_least:
  "(\<Sum>x\<leftarrow>samples percent. (x - 75) * min (1 / 2) (degree (tri 50 100 100) x)) = 221 / 2"
  by (simp add: samples_percent_unfold degree_def)

lemma crisp_dry_hot:
  assumes "0 \<le> s" and "s \<le> 20" and "40 \<le> t" and "t \<le> 50"
  shows "holds (crisp s t) (\<lambda>y. 75 < y)"
proof -
  have curve: "sprinkle_curve s t = (\<lambda>x. min (fire_high s t) (degree (tri 50 100 100) x))"
    by (simp add: sprinkle_curve_high_only fire_dry_hot [OF assms])
  have "221 / 2 \<le> (\<Sum>x\<leftarrow>samples percent. (x - 75) * min (fire_high s t) (degree (tri 50 100 100) x))"
    unfolding high_at_least [symmetric]
    by (intro sum_list_mono_weights ballI high_against_75 fire_dry_hot(3) [OF assms])
  then have "0 < (\<Sum>x\<leftarrow>samples percent. (x - 75) * sprinkle_curve s t x)"
    by (simp add: curve)
  with centroid_greater [where f = "sprinkle_curve s t" and u = percent and b = 75]
  show ?thesis
    by (cases "centroid percent (sprinkle_curve s t)") (simp_all add: crisp_def)
qed

section \<open>Comparing the centroids of two curves\<close>

lemma cross_sum:
  "(\<Sum>y\<leftarrow>xs. (x - y) * (a * u y - b * v y)) =
     x * a * (\<Sum>y\<leftarrow>xs. u y) - x * b * (\<Sum>y\<leftarrow>xs. v y)
       - a * (\<Sum>y\<leftarrow>xs. y * u y) + b * (\<Sum>y\<leftarrow>xs. y * (v y :: real))"
  by (induction xs) (simp_all add: algebra_simps)

lemma sum_list_nonpos_terms: "\<forall>x\<in>set xs. f x \<le> 0 \<Longrightarrow> (\<Sum>x\<leftarrow>xs. (f x :: real)) \<le> 0"
  by (induction xs) (simp_all add: add_nonpos_nonpos)

lemma weighted_cross:
  assumes "sorted xs"
    and "\<forall>x\<in>set xs. \<forall>y\<in>set xs. x \<le> y \<longrightarrow> v y * u x \<le> v x * u y"
  shows "(\<Sum>x\<leftarrow>xs. x * v x) * (\<Sum>x\<leftarrow>xs. u x) \<le> (\<Sum>x\<leftarrow>xs. x * u x) * (\<Sum>x\<leftarrow>xs. (v x :: real))"
  using assms
proof (induction xs)
  case Nil
  show ?case by simp
next
  case (Cons x xs)
  let ?Mv = "\<Sum>y\<leftarrow>xs. y * v y" and ?Mu = "\<Sum>y\<leftarrow>xs. y * u y"
  let ?Av = "\<Sum>y\<leftarrow>xs. v y" and ?Au = "\<Sum>y\<leftarrow>xs. u y"
  from Cons.prems have first: "\<forall>y\<in>set xs. x \<le> y" and "sorted xs" by simp_all
  with Cons have IH: "?Mv * ?Au \<le> ?Mu * ?Av" by simp
  have "(x - y) * (v x * u y - u x * v y) \<le> 0" if "y \<in> set xs" for y
  proof -
    from that first have "x \<le> y" by simp
    moreover from this that Cons.prems(2) have "v y * u x \<le> v x * u y" by simp
    ultimately show ?thesis by (intro mult_nonpos_nonneg) (simp_all add: mult.commute)
  qed
  then have "(\<Sum>y\<leftarrow>xs. (x - y) * (v x * u y - u x * v y)) \<le> 0"
    by (intro sum_list_nonpos_terms) simp
  then have "x * v x * ?Au - x * u x * ?Av - v x * ?Mu + u x * ?Mv \<le> 0"
    by (simp only: cross_sum)
  with IH show ?case by (simp add: algebra_simps)
qed

lemma centroid_cross:
  assumes "wf_universe w" and "\<forall>x. 0 \<le> f x" and "\<forall>x. 0 \<le> g x"
    and cross: "\<forall>x\<in>set (samples w). \<forall>y\<in>set (samples w). x \<le> y \<longrightarrow> g y * f x \<le> g x * f y"
    and "centroid w f = Inr c" and "centroid w g = Inr c'"
  shows "c' \<le> c"
proof -
  from assms(5,6) have c: "c = curve_moment w f / curve_area w f" "curve_area w f \<noteq> 0"
    and c': "c' = curve_moment w g / curve_area w g" "curve_area w g \<noteq> 0"
    by (simp_all add: centroid_Inr_iff)
  with curve_area_nonneg [OF assms(2), of w] curve_area_nonneg [OF assms(3), of w]
  have pos: "0 < curve_area w f" "0 < curve_area w g" by simp_all
  from weighted_cross [OF sorted_samples [OF assms(1)] cross]
  have "curve_moment w g * curve_area w f \<le> curve_moment w f * curve_area w g"
    by (simp add: curve_moment_def curve_area_def)
  with pos show ?thesis by (simp add: c c' frac_le_eq divide_le_0_iff)
qed

lemma clip_cross:
  assumes "0 \<le> a" and "a \<le> b" and "0 \<le> d'" and "d' \<le> d"
  shows "min b d' * min a d \<le> min b d * min a (d' :: real)"
proof (cases "a \<le> d'")
  case True
  with assms have "min a d = a" "min a d' = a" by simp_all
  with assms show ?thesis by (simp add: mult_right_mono min.coboundedI2)
next
  case False
  with assms have d': "min a d' = d'" "min b d' = d'" by simp_all
  from assms have "min a d \<le> min b d" by (intro min.mono) simp_all
  with assms have "d' * min a d \<le> d' * min b d" by (intro mult_left_mono)
  then show ?thesis by (simp add: d' mult.commute)
qed

section \<open>More strength, less or more water\<close>

lemma low_clip_antimono:
  assumes "0 \<le> a" and "a \<le> b"
    and "centroid percent (\<lambda>x. min a (degree (tri 0 0 50) x)) = Inr c"
    and "centroid percent (\<lambda>x. min b (degree (tri 0 0 50) x)) = Inr c'"
  shows "c' \<le> c"
proof (rule centroid_cross [OF _ _ _ _ assms(3,4)])
  show "\<forall>x\<in>set (samples percent). \<forall>y\<in>set (samples percent). x \<le> y \<longrightarrow>
      min b (degree (tri 0 0 50) y) * min a (degree (tri 0 0 50) x)
        \<le> min b (degree (tri 0 0 50) x) * min a (degree (tri 0 0 50) y)"
  proof (intro ballI impI)
    fix x y :: real assume "x \<in> set (samples percent)" and "x \<le> y"
    then have "0 \<le> x" by (auto dest: samples_in_bounds [rotated])
    with \<open>x \<le> y\<close> have "degree (tri 0 0 50) y \<le> degree (tri 0 0 50) x"
      by (intro degree_antimono_falling) simp_all
    with assms(1,2) show "min b (degree (tri 0 0 50) y) * min a (degree (tri 0 0 50) x)
        \<le> min b (degree (tri 0 0 50) x) * min a (degree (tri 0 0 50) y)"
      by (intro clip_cross) simp_all
  qed
qed (use assms(1,2) in simp_all)

lemma high_clip_mono:
  assumes "0 \<le> a" and "a \<le> b"
    and "centroid percent (\<lambda>x. min a (degree (tri 50 100 100) x)) = Inr c"
    and "centroid percent (\<lambda>x. min b (degree (tri 50 100 100) x)) = Inr c'"
  shows "c \<le> c'"
proof (rule centroid_cross [OF _ _ _ _ assms(4,3)])
  show "\<forall>x\<in>set (samples percent). \<forall>y\<in>set (samples percent). x \<le> y \<longrightarrow>
      min a (degree (tri 50 100 100) y) * min b (degree (tri 50 100 100) x)
        \<le> min a (degree (tri 50 100 100) x) * min b (degree (tri 50 100 100) y)"
  proof (intro ballI impI)
    fix x y :: real assume "y \<in> set (samples percent)" and "x \<le> y"
    then have "y \<le> 100" by (auto dest: samples_in_bounds [rotated])
    with \<open>x \<le> y\<close> have "degree (tri 50 100 100) x \<le> degree (tri 50 100 100) y"
      by (intro degree_mono_rising) simp_all
    with assms(1,2) clip_cross [of a b "degree (tri 50 100 100) x" "degree (tri 50 100 100) y"]
    show "min a (degree (tri 50 100 100) y) * min b (degree (tri 50 100 100) x)
        \<le> min a (degree (tri 50 100 100) x) * min b (degree (tri 50 100 100) y)"
      by (simp add: mult.commute)
  qed
qed (use assms(1,2) in simp_all)

lemma crisp_wet_antimono:
  assumes "80 \<le> s" and "s \<le> s'" and "s' \<le> 100"
  shows "\<exists>y y'. crisp s t = Inr y \<and> crisp s' t' = Inr y' \<and> y' \<le> y"
proof -
  from assms have s: "80 \<le> s" "s \<le> 100" and s': "80 \<le> s'" "s' \<le> 100" by simp_all
  from crisp_wet(2) [OF s, of t] crisp_wet(2) [OF s', of t']
  obtain y y' where y: "crisp s t = Inr y" and y': "crisp s' t' = Inr y'"
    by (auto simp: holds_iff)
  have curve: "sprinkle_curve s t = (\<lambda>x. min (degree (tri 50 100 100) s) (degree (tri 0 0 50) x))"
    "sprinkle_curve s' t' = (\<lambda>x. min (degree (tri 50 100 100) s') (degree (tri 0 0 50) x))"
    by (simp_all add: sprinkle_curve_low_only fire_wet [OF s] fire_wet [OF s'])
  have "degree (tri 50 100 100) s \<le> degree (tri 50 100 100) s'"
    using assms by (intro degree_mono_rising) simp_all
  with y y' have "y' \<le> y"
    by (rule_tac low_clip_antimono [of "degree (tri 50 100 100) s" "degree (tri 50 100 100) s'"])
       (simp_all add: crisp_Inr_iff curve)
  with y y' show ?thesis by simp
qed

lemma fire_heat:
  assumes "0 \<le> s" and "s < 50" and "40 \<le> t" and "t \<le> 50"
  shows "fire_medium s t = 0" and "fire_low s t = 0" and "0 < fire_high s t"
  using assms by (auto simp: fire_defs degree_def)

lemma crisp_heat_mono:
  assumes "0 \<le> s'" and "s' \<le> s" and "s < 50" and "40 \<le> t" and "t \<le> t'" and "t' \<le> 50"
  shows "\<exists>y y'. crisp s t = Inr y \<and> crisp s' t' = Inr y' \<and> y \<le> y'"
proof -
  from assms have st: "0 \<le> s" "s < 50" "40 \<le> t" "t \<le> 50"
    and st': "0 \<le> s'" "s' < 50" "40 \<le> t'" "t' \<le> 50" by simp_all
  from fire_heat(3) [OF st] fire_heat(3) [OF st'] crisp_ok_iff [of s t] crisp_ok_iff [of s' t']
  obtain y y' where y: "crisp s t = Inr y" and y': "crisp s' t' = Inr y'"
    by (auto simp: is_ok_iff)
  have curve: "sprinkle_curve s t = (\<lambda>x. min (fire_high s t) (degree (tri 50 100 100) x))"
    "sprinkle_curve s' t' = (\<lambda>x. min (fire_high s' t') (degree (tri 50 100 100) x))"
    by (simp_all add: sprinkle_curve_high_only fire_heat [OF st] fire_heat [OF st'])
  have "degree (tri 0 0 50) s \<le> degree (tri 0 0 50) s'"
    using assms by (intro degree_antimono_falling) simp_all
  moreover have "degree (tri 30 50 50) t \<le> degree (tri 30 50 50) t'"
    using assms by (intro degree_mono_rising) simp_all
  ultimately have "fire_high s t \<le> fire_high s' t'"
    unfolding fire_high_def by (rule min.mono)
  with y y' have "y \<le> y'"
    by (rule_tac high_clip_mono [of "fire_high s t" "fire_high s' t'"])
       (simp_all add: crisp_Inr_iff curve)
  with y y' show ?thesis by simp
qed

section \<open>Cold weather\<close>

lemma fire_60_5: "fire_high 60 5 = 0" "fire_medium 60 5 = 0" "fire_low 60 5 = 2 / 3"
  by (simp_all add: fire_defs degree_def)

lemma fire_70_5: "fire_high 70 5 = 0" "fire_medium 70 5 = 0" "fire_low 70 5 = 2 / 5"
  by (simp_all add: fire_defs degree_def)

lemma crisp_60_5: "crisp 60 5 = Inr (3539 / 199)"
  by (simp add: crisp_def sprinkle_curve_low_only fire_60_5)
     (simp add: centroid_eval)

lemma crisp_70_5: "crisp 70 5 = Inr (1633 / 81)"
  by (simp add: crisp_def sprinkle_curve_low_only fire_70_5)
     (simp add: centroid_eval)

end
