(* ===== verification/Spec2Isabelle.thy ===== *)
theory Spec2Isabelle
  imports Program Reach Regions
begin

text \<open>
  \<^bold>\<open>A verification development for the fuzzy sprinkler controller\<close> (\<^verbatim>\<open>src/fuzzy.py\<close>).

  \<^bold>\<open>The program.\<close>  The script declares two input variables (soil moisture over
  0..100, temperature over 0..50) and one output variable (water sprinkling over
  0..100), gives each three triangular terms, states five rules, builds a control
  system and a simulation from them, and feeds ten test cases through the simulation:
  for each it assigns the two inputs, computes, reads the crisp output and saves a bar
  chart.  It then writes a PDF report that documents the rules and runs the test cases
  once more, embedding the saved charts.  The inference itself (fuzzification, rule
  evaluation by minimum, clipping, aggregation by maximum, centroid defuzzification)
  is done by the fuzzy-control library the script calls; that library is not part of
  the repository, so the engine is modelled from the repository's specification.

  \<^bold>\<open>Theories.\<close>
  \<^item> \<open>Fuzzy_Prelude\<close>: the error values, results \<open>error + 'a\<close> with \<open>rbind\<close>, the unit
    interval, maxima of lists, bounds of weighted means.
  \<^item> \<open>Universe\<close>: a universe \<open>[umin, umax]\<close> with a step, its \<open>samples\<close>, and \<open>arange\<close>
    for \<^verbatim>\<open>np.arange\<close> (lines 15 to 17).
  \<^item> \<open>Membership\<close>: triangular terms, \<open>trimf\<close> for \<^verbatim>\<open>fuzz.trimf\<close> with its shape check,
    and \<open>degree\<close>.
  \<^item> \<open>Variable\<close>: variables with a table of terms; \<open>Antecedent\<close>, \<open>Consequent\<close>,
    \<open>set_term\<close> for \<^verbatim>\<open>v['name'] = ...\<close>, \<open>termDegree\<close>.
  \<^item> \<open>Rule\<close>: antecedent expressions and \<open>evaluate\<close>.  A reference \<^verbatim>\<open>v['name']\<close> of the
    script is the pair of the variable's label and the term's name, resolved when the
    rule is evaluated.
  \<^item> \<open>Defuzz\<close>: the discrete \<open>centroid\<close> over the samples of a universe.
  \<^item> \<open>Inference\<close>: control systems, \<open>activations\<close>, \<open>clipped\<close>, \<open>aggregated\<close>,
    \<open>infer_variable\<close>, \<open>infer\<close>.
  \<^item> \<open>Simulation\<close>: the state of a simulation and \<open>set_input\<close>, \<open>compute\<close>,
    \<open>output_of\<close> for \<^verbatim>\<open>sim.input[l] = x\<close>, \<^verbatim>\<open>sim.compute()\<close>, \<^verbatim>\<open>sim.output[l]\<close>.
  \<^item> \<open>Sprinkler\<close>: the script's own declarations, line by line: \<open>soil_moisture_decl\<close>,
    \<open>temperature_decl\<close>, \<open>water_sprinkle_decl\<close> (15 to 17), \<open>soil_moisture\<close>,
    \<open>temperature\<close>, \<open>water_sprinkle\<close> (20 to 30), \<open>rule1\<close> to \<open>rule5\<close> (33 to 37),
    \<open>sprinkle_ctrl\<close> and \<open>sprinkler\<close> (40, 41), \<open>test_cases\<close> (69 to 80) and the loop
    body \<open>run_case\<close> (83 to 85); then the values the construction yields and the
    aggregate of the five rules in closed form (\<open>sprinkle_curve\<close>, \<open>crisp\<close>).
  \<^item> \<open>Scenarios\<close>: ground evaluation at the reference readings.
  \<^item> \<open>Regions\<close>: the output over whole regions of readings in which one consequent
    term fires alone, from three facts about centroids (a bound, symmetry, and the
    comparison of two curves whose quotient is monotone).
  \<^item> \<open>Reach\<close>: the states of the simulation that assignments and computations reach
    from the simulation of line 41 (\<open>reachable\<close>), and their invariant \<open>sim_ok\<close>.
  \<^item> \<open>Text\<close>: formatted strings as lists of pieces (literal, integer field,
    fixed-point field) and their rendering in decimal.
  \<^item> \<open>Interp\<close>: linear interpolation of a sampled curve, for
    \<^verbatim>\<open>fuzz.interp_membership\<close>, and when it reproduces a function exactly.
  \<^item> \<open>Pyplot\<close>: the calls to the plotting library as a trace of \<open>plt_op\<close> values;
    \<open>saved\<close> and \<open>written\<close> read the files written off a trace, \<open>open_figures\<close> and
    \<open>peak\<close> the number of open figures; \<open>plt_exec\<close> runs a call on the stack of figures
    and keeps what each saved figure holds.
  \<^item> \<open>Plots\<close>: the directory of the figures (lines 43, 44), the three plots of the
    membership functions \<open>soil_plot\<close>, \<open>temperature_plot\<close>, \<open>water_plot\<close> (47 to 66) and
    \<open>cleanup\<close> (293).
  \<^item> \<open>Driver\<close>: the loop over the test cases (lines 82 to 99): \<open>case_title\<close> (89),
    \<open>membership_bar\<close> and \<open>case_bars\<close> (92 to 94), \<open>screenshot_path\<close> (97), \<open>plot_case\<close>
    (88 to 99), \<open>run_cases\<close> and \<open>test_run\<close> (82 to 99).
  \<^item> \<open>Fpdf\<close>: the calls to the PDF library as a trace of \<open>pdf_op\<close> values, the
    failures of the report, \<open>embed\<close> for an image that must exist, and
    \<open>write_document\<close> for the call that writes the file (286), which fails on a text
    that the font it is set in cannot encode (\<open>unencodable\<close>).
  \<^item> \<open>Report\<close>: the documented rule base \<open>rules_table\<close>, \<open>rule_entry\<close>, \<open>rules_page\<close>
    (214 to 243) and the test results \<open>soil_label\<close>, \<open>temp_label\<close>, \<open>reasoning\<close>,
    \<open>analysis\<close> (259 to 270), \<open>result_entry\<close>, \<open>result_entries\<close>, \<open>results_page\<close> (246 to
    275).  The files that exist are a set of paths, which stands for \<^verbatim>\<open>os.path.exists\<close>.
  \<^item> \<open>Pages\<close>: the pages with fixed content: \<open>load_fonts\<close> (108 to 116),
    \<open>title_page\<close> (119 to 139) and \<open>team_members\<close> (127 to 133), \<open>sections\<close> and
    \<open>section_pages\<close> (142 to 181),
    \<open>screenshots\<close> and \<open>screenshots_page\<close> (184 to 203), \<open>mf_page\<close> (206 to 211),
    \<open>conclusion_page\<close> (278 to 283).
  \<^item> \<open>Program\<close>: \<open>report_body\<close>, the calls of the report in their order (103 to
    286), \<open>report\<close> with its \<^verbatim>\<open>try\<close> and \<^verbatim>\<open>except\<close> (102 to 290), which writes the
    document or prints the failure, and \<open>script\<close>, the statements of the module in
    their order (set-up, directory, plots, loop, report, clean-up), with the \<open>outcome\<close>
    of a run.
  \<^item> this theory: the properties of the program as a whole.

  \<^bold>\<open>Modelling decisions.\<close>  Numbers are exact reals, so rounding of binary floating
  point is not modelled; the readings of the test cases are integers, as in the script,
  and are converted when assigned.  Setup errors, which the library raises as
  exceptions, are values of \<open>error + 'a\<close>: the declarations of the script are results,
  and \<open>sprinkle_ctrl_value\<close> and \<open>sprinkler_value\<close> show they are all \<open>Inr\<close>.  Errors of
  an inference are reported per output variable in the result list, as the
  specification has it, where the library raises an exception inside \<^verbatim>\<open>compute()\<close>
  (line 85).  The driver and the report therefore read the output first thing after
  computing, before any call that plots or writes: an inference that yields no output
  ends their loop at that test case and leaves no call of that iteration in the trace,
  which is what the exception of the library does.  The loop of the driver
  returns the trace of what it has drawn next to its result, so that the figures saved
  before an error are accounted for; the report builds its document in memory, so its
  pages are results.  There is no loop whose termination
  is in question and no fuel: every function is structurally recursive over a list or
  an expression.  The centroid sums over the 101 integer points of the output universe.

  \<^bold>\<open>The libraries.\<close>  The plotting and PDF libraries are not modelled; the program's
  calls to them are recorded, with their arguments, in the order they are made.  What
  the theorems need of the libraries is stated where a trace is read: a figure stack
  for the plotting calls (\<open>plt_step\<close>: \<^verbatim>\<open>figure\<close> and the \<^verbatim>\<open>view\<close> of a variable open a
  figure, \<^verbatim>\<open>close\<close> closes the current one, any other call uses the current figure and
  opens one if there is none), an image that fails when its file does not exist
  (\<open>embed\<close>), a font file that fails to load when it does not exist (\<open>load_fonts\<close>), and
  a document that is written by the last call only, and a built-in font (one that is
  not loaded from a file, such as the Arial of the fall-back) that encodes Latin-1
  only.  The encoding is checked when the document is written (\<open>write_document\<close>),
  as the release of the library does whose \<^verbatim>\<open>add_font\<close> takes the argument \<^verbatim>\<open>uni\<close>; a
  release that checks at the call that sets the text fails earlier, with the same
  files and a different message when a screenshot is missing as well.  Strings are
  sequences of the bytes of their UTF-8 encoding, and \<open>latin1\<close> holds of those whose
  characters all lie within Latin-1.  The pages counted by \<open>pages\<close> are the calls
  that add a page; the breaks that the library inserts by itself when a page is full
  (line 104) are part of the layout.

  \<^bold>\<open>Not modelled.\<close>  The pixels of a figure and the layout of a page.  The date
  (line 139) is a parameter of a run.  The names on the title page are a parameter of
  \<open>title_page\<close>, \<open>report\<close> and \<open>script\<close> as well, so that the theorems about a run hold
  for every list of names; the list of the program is \<open>team_members\<close>, for which C28
  is stated.  The text of an error message of a library is kept as the failure it
  reports.  The imports (lines 1 to 8) carry no behaviour.

  \<^bold>\<open>What the theorems show.\<close>  A crisp output always lies in 0..100 (C1).  The rule
  base does not cover every reading: within the universes it yields no output exactly
  when soil moisture is 50 and temperature is at least 40, or soil moisture is at most
  20 and temperature at most 10 (C2); all ten test cases lie outside that region and
  produce an output (C3).  The outputs at the four reference readings fall in their
  bands (C4).  The outcome of one pass of the loop depends on the test case only, not
  on what the simulation held before (C5).  Every state of the simulation that the
  program can reach holds results that are a number of the output universe or one of
  the two errors of an inference (C6).  The terms of a variable have degrees summing
  to at most one (C7).  Over whole regions of readings the output is known: wet soil
  decides alone and gives less than 20 (C8), soil up to 50 at 20 to 30 degrees gives
  exactly 50 (C9), dry soil in heat gives more than 75 (C29).  Among wet soils the
  wetter never gets more water (C30), in heat the drier and hotter reading never gets
  less (C31), but in the cold a soil moisture of 70 gets more water than one of 60
  (C32).  A computation with an input missing reports it (C10).
  The driver runs through all ten test cases and saves ten figures (C11); on any list
  of test cases it stops at the first that fires no rule, keeping the figures saved
  before (C12); it closes every figure it opens (C13); its bar charts draw one height
  per group, the degree of the first term (C14); its file names are pairwise different
  (C15).  Interpolating the sampled curve of a term of the program gives its degree
  exactly (C18).  The rule table of the report states the rules of the control system
  (C16), and the page of test results embeds exactly the figures the driver saved
  (C17).  A run of the whole program is never ended by an error and leaves its
  thirteen figures (C19); it writes the report exactly when the three screenshots the
  report embeds and the two files of the font exist beforehand (C20); with a
  screenshot missing it prints the error of the first one that is missing (C21); the
  message printed on success names a file that is not written (C22); three figures
  stay open until the clean-up (C23); with a font file missing every text of the
  report is set in a font that cannot encode all of them (C24), and the run prints
  the error and writes no report (C28).  The content of every saved figure is
  determined (C25), and the report states the levels that the figures show (C26); its
  label and its reasoning disagree about the moderate band at a soil moisture of 60,
  the reading of the last test case (C27).
\<close>

section \<open>Simulations of the program's control system\<close>

lemma sim_ctrl_of_program: "sprinkle_ctrl = Inr (sim_ctrl sim) \<longleftrightarrow> sim_ctrl sim = ctrl_v"
  by (auto simp: sprinkle_ctrl_value)

lemma program_simulation: "sprinkle_ctrl = Inr (sim_ctrl (ControlSystemSimulation ctrl_v))"
  by (simp add: sprinkle_ctrl_value)

lemma output_of_program:
  "sprinkle_ctrl = Inr (sim_ctrl sim) \<Longrightarrow>
     output_of (run_case sim (s, t)) ''Water Sprinkling'' = crisp (of_int s) (of_int t)"
  by (simp add: sim_ctrl_of_program output_run_case)

section \<open>Range of the output\<close>

text \<open>
  C1.  Whatever the simulation held before and whatever the reading, a crisp output
  that one pass of the loop produces for the water sprinkling level lies between 0 and
  100, the bounds of the output universe.
\<close>

theorem output_within_universe:
  assumes "sprinkle_ctrl = Inr (sim_ctrl sim)"
    and "output_of (run_case sim c) ''Water Sprinkling'' = Inr y"
  shows "0 \<le> y \<and> y \<le> 100"
proof -
  obtain s t where c: "c = (s, t)" by (cases c)
  with assms have "crisp (of_int s) (of_int t) = Inr y" by (simp add: output_of_program)
  then show ?thesis by (simp add: crisp_bounds)
qed

theorem output_within_universe_witness:
  "sprinkle_ctrl = Inr (sim_ctrl (ControlSystemSimulation ctrl_v)) \<and>
   output_of (run_case (ControlSystemSimulation ctrl_v) (10, 40)) ''Water Sprinkling'' = Inr (3071 / 38) \<and>
   (0::real) \<le> 3071 / 38 \<and> (3071 / 38 :: real) \<le> 100"
proof -
  have out: "output_of (run_case (ControlSystemSimulation ctrl_v) (10, 40)) ''Water Sprinkling''
      = Inr (3071 / 38)"
    using crisp_10_40 by (simp add: output_of_program [OF program_simulation])
  from output_within_universe [OF program_simulation out] program_simulation out
  show ?thesis by simp
qed

section \<open>Readings no rule covers\<close>

text \<open>
  C2.  For readings within the universes (soil moisture 0..100, temperature 0..50) a
  pass of the loop reports that no rule applies exactly when soil moisture is 50 and
  temperature is at least 40, or soil moisture is at most 20 and temperature is at most
  10; for every other reading it produces a crisp output.
\<close>

theorem no_rule_region:
  assumes "sprinkle_ctrl = Inr (sim_ctrl sim)"
    and "0 \<le> s" and "s \<le> 100" and "0 \<le> t" and "t \<le> 50"
  shows "output_of (run_case sim (s, t)) ''Water Sprinkling'' = Inl NoApplicableRule
           \<longleftrightarrow> (s = 50 \<and> 40 \<le> t) \<or> (s \<le> 20 \<and> t \<le> 10)"
  using assms crisp_no_rule_region [of "of_int s" "of_int t"]
  by (simp add: output_of_program)

theorem no_rule_region_witness:
  "output_of (run_case (ControlSystemSimulation ctrl_v) (50, 45)) ''Water Sprinkling'' = Inl NoApplicableRule
   \<and> output_of (run_case (ControlSystemSimulation ctrl_v) (10, 5)) ''Water Sprinkling'' = Inl NoApplicableRule
   \<and> output_of (run_case (ControlSystemSimulation ctrl_v) (50, 39)) ''Water Sprinkling'' \<noteq> Inl NoApplicableRule"
  using no_rule_region [OF program_simulation, of 50 45]
    no_rule_region [OF program_simulation, of 10 5]
    no_rule_region [OF program_simulation, of 50 39]
  by simp

section \<open>The test cases\<close>

text \<open>
  C3.  Each of the ten test cases of the program produces a crisp output: none of
  them falls into the region that no rule covers, so the loop never stops on an error.
\<close>

theorem test_cases_fire:
  assumes "sprinkle_ctrl = Inr (sim_ctrl sim)"
  shows "\<forall>c\<in>set test_cases. is_ok (output_of (run_case sim c) ''Water Sprinkling'')"
proof
  fix c assume c: "c \<in> set test_cases"
  obtain s t where st: "c = (s, t)" by (cases c)
  from c st test_cases_in_range test_cases_covered
  have range: "0 \<le> s" "s \<le> 100" "0 \<le> t" "t \<le> 50"
    and covered: "\<not> ((s = 50 \<and> 40 \<le> t) \<or> (s \<le> 20 \<and> t \<le> 10))"
    by auto
  from range covered crisp_no_rule_region [of "of_int s" "of_int t"]
  have "crisp (of_int s) (of_int t) \<noteq> Inl NoApplicableRule" by simp
  moreover have "output_of (run_case sim (s, t)) ''Water Sprinkling'' = crisp (of_int s) (of_int t)"
    using assms by (rule output_of_program)
  ultimately show "is_ok (output_of (run_case sim c) ''Water Sprinkling'')"
    using st by (cases "crisp (of_int s) (of_int t)") (auto dest: crisp_error)
qed

theorem test_cases_fire_witness:
  "(30, 35) \<in> set test_cases \<and>
   is_ok (output_of (run_case (ControlSystemSimulation ctrl_v) (30, 35)) ''Water Sprinkling'')"
  using test_cases_fire [OF program_simulation] by (simp add: test_cases_def)

section \<open>Reference readings\<close>

text \<open>
  C4.  At the four reference readings the output falls in the expected band: dry and
  hot (10, 40) gives more than 65, wet (90, 15) less than 20, moist and warm (50, 25)
  between 35 and 55, moist and cold (50, 10) less than 25.
\<close>

theorem reference_bands:
  assumes "sprinkle_ctrl = Inr (sim_ctrl sim)"
  shows "holds (output_of (run_case sim (10, 40)) ''Water Sprinkling'') (\<lambda>y. 65 < y)
    \<and> holds (output_of (run_case sim (90, 15)) ''Water Sprinkling'') (\<lambda>y. y < 20)
    \<and> holds (output_of (run_case sim (50, 25)) ''Water Sprinkling'') (\<lambda>y. 35 \<le> y \<and> y \<le> 55)
    \<and> holds (output_of (run_case sim (50, 10)) ''Water Sprinkling'') (\<lambda>y. y < 25)"
  using crisp_10_40 crisp_90_15 crisp_50_25 crisp_50_10
  by (simp add: output_of_program [OF assms])

theorem reference_bands_witness:
  "holds (output_of (run_case (ControlSystemSimulation ctrl_v) (90, 15)) ''Water Sprinkling'') (\<lambda>y. y < 20)"
  using reference_bands [OF program_simulation] by simp

section \<open>One pass of the loop\<close>

text \<open>
  C5.  The results of one pass of the loop depend on the test case only: two
  simulations of the program's control system, whatever inputs and results they held
  before, hold the same results after the pass.
\<close>

theorem run_case_forgets:
  assumes "sprinkle_ctrl = Inr (sim_ctrl sim)" and "sprinkle_ctrl = Inr (sim_ctrl sim')"
  shows "sim_output (run_case sim c) = sim_output (run_case sim' c)"
proof -
  from assms have ctrl: "sim_ctrl sim = ctrl_v" "sim_ctrl sim' = ctrl_v"
    by (simp_all add: sim_ctrl_of_program)
  show ?thesis
    unfolding run_case_def
    by (rule compute_cong_inputs)
       (auto simp: ctrl rule1_def rule2_def rule3_def rule4_def rule5_def Rule_def)
qed

theorem run_case_forgets_witness:
  "sim_output (run_case (ControlSystemSimulation ctrl_v) (70, 20)) =
   sim_output (run_case (run_case (ControlSystemSimulation ctrl_v) (30, 35)) (70, 20))"
proof -
  have "sprinkle_ctrl = Inr (sim_ctrl (run_case (ControlSystemSimulation ctrl_v) (30, 35)))"
    by (simp add: sprinkle_ctrl_value run_case_def)
  from run_case_forgets [OF program_simulation this] show ?thesis .
qed

section \<open>Reachable states of the simulation\<close>

text \<open>
  C6.  Every state of the simulation that the program can reach, from the simulation it
  builds by assigning inputs (any label, any value) and computing, in any order, holds
  the control system of the program, and its results are either those of a fresh
  simulation or a single entry for the water sprinkling level: a number between 0 and
  100, \<open>MissingInput\<close> or \<open>NoApplicableRule\<close>.  No error of the set-up and no failed
  look-up of a variable or a term can show at run time.
\<close>

theorem reachable_states_ok:
  assumes "reachable s"
  shows "sprinkle_ctrl = Inr (sim_ctrl s)
    \<and> (sim_output s = [] \<or>
        (\<exists>r. sim_output s = [(''Water Sprinkling'', r)]
           \<and> (case r of Inr y \<Rightarrow> 0 \<le> y \<and> y \<le> 100
                       | Inl e \<Rightarrow> e = MissingInput \<or> e = NoApplicableRule)))"
proof -
  from assms have "sim_ok s"
    by induction (simp_all add: sim_ok_start sim_ok_set_input sim_ok_compute)
  then show ?thesis by (simp add: sim_ok_def result_ok_def)
qed

theorem reachable_states_ok_witness:
  "reachable (compute (set_input ''Soil Moisture'' 10 (ControlSystemSimulation ctrl_v)))
   \<and> sim_output (compute (set_input ''Soil Moisture'' 10 (ControlSystemSimulation ctrl_v)))
       = [(''Water Sprinkling'', Inl MissingInput)]"
proof -
  have r: "reachable (compute (set_input ''Soil Moisture'' 10 (ControlSystemSimulation ctrl_v)))"
    by (intro reachable.intros sprinkler_value)
  from reachable_states_ok [OF r] r show ?thesis
    by (simp add: sim_output_compute infer_sprinkler infer_missing_input)
qed

section \<open>Terms and rules\<close>

text \<open>
  C7.  The terms of each variable of the program overlap moderately: at every crisp
  value the degrees of the three terms sum to at most one, and at most two of them are
  non-zero.
\<close>

theorem terms_overlap_bounded:
  assumes "sprinkle_ctrl = Inr cs" and "v \<in> set (cs_variables cs)"
  shows "sum_list (map snd (fuzzify v x)) \<le> 1
    \<and> length (filter (\<lambda>nd. 0 < snd nd) (fuzzify v x)) \<le> 2"
  using assms fuzzify_sum [of v x] fuzzify_two [of v x]
  by (auto simp: sprinkle_ctrl_value)

theorem terms_overlap_bounded_witness:
  "sum_list (map snd (fuzzify soil_v 35)) \<le> 1
    \<and> length (filter (\<lambda>nd. 0 < snd nd) (fuzzify soil_v 35)) \<le> 2
    \<and> map snd (fuzzify soil_v 35) = [3 / 10, 1 / 2, 0]"
proof -
  have "map snd (fuzzify soil_v 35) = [3 / 10, 1 / 2, 0]"
    by (simp add: fuzzify_def soil_v_def degree_def)
  with terms_overlap_bounded [OF sprinkle_ctrl_value, of soil_v 35] show ?thesis by simp
qed

section \<open>Regions of readings\<close>

text \<open>
  C8.  Wet soil decides alone: for a soil moisture between 80 and 100 the water
  sprinkling level of a pass of the loop does not depend on the temperature (nor on
  what the simulation held before), and it is a number below 20.
\<close>

theorem wet_soil_ignores_temperature:
  assumes "sprinkle_ctrl = Inr (sim_ctrl sim)" and "sprinkle_ctrl = Inr (sim_ctrl sim')"
    and "80 \<le> s" and "s \<le> 100"
  shows "output_of (run_case sim (s, t)) ''Water Sprinkling'' =
      output_of (run_case sim' (s, t')) ''Water Sprinkling''
    \<and> holds (output_of (run_case sim (s, t)) ''Water Sprinkling'') (\<lambda>y. y < 20)"
  using assms crisp_wet(1) [of "of_int s" "of_int t" "of_int t'"] crisp_wet(2) [of "of_int s" "of_int t"]
  by (simp add: output_of_program)

theorem wet_soil_ignores_temperature_witness:
  "output_of (run_case (ControlSystemSimulation ctrl_v) (90, 45)) ''Water Sprinkling'' =
     Inr (1033 / 61)"
  using wet_soil_ignores_temperature [OF program_simulation program_simulation, of 90 45 15]
    crisp_90_15
  by (simp add: output_of_program [OF program_simulation])

text \<open>
  C9.  The controller has a plateau: for a soil moisture of at most 50 and a
  temperature between 20 and 30 only the rules for \<open>medium\<close> fire, and the water
  sprinkling level is exactly 50 whatever the two readings, because the aggregate is
  symmetric about the middle of the output universe.
\<close>

theorem medium_plateau:
  assumes "sprinkle_ctrl = Inr (sim_ctrl sim)"
    and "0 \<le> s" and "s \<le> 50" and "20 \<le> t" and "t \<le> 30"
  shows "output_of (run_case sim (s, t)) ''Water Sprinkling'' = Inr 50"
  using assms crisp_plateau [of "of_int s" "of_int t"] by (simp add: output_of_program)

theorem medium_plateau_witness:
  "(40, 25) \<in> set test_cases
   \<and> output_of (run_case (ControlSystemSimulation ctrl_v) (40, 25)) ''Water Sprinkling'' = Inr 50
   \<and> output_of (run_case (ControlSystemSimulation ctrl_v) (0, 20)) ''Water Sprinkling'' = Inr 50"
  using medium_plateau [OF program_simulation, of 40 25]
    medium_plateau [OF program_simulation, of 0 20]
  by (simp add: test_cases_def)

section \<open>Missing inputs\<close>

text \<open>
  C10.  A computation on a simulation in which soil moisture or temperature has not
  been assigned reports \<open>MissingInput\<close> for the water sprinkling level instead of
  a number; this is the case for a fresh simulation and after assigning only one of
  the two inputs.
\<close>

theorem missing_input_reported:
  assumes "sprinkle_ctrl = Inr (sim_ctrl sim)"
    and "sim_input sim ''Soil Moisture'' = None \<or> sim_input sim ''Temperature'' = None"
  shows "output_of (compute sim) ''Water Sprinkling'' = Inl MissingInput"
  using assms by (simp add: sim_ctrl_of_program output_compute_program infer_missing_input)

theorem missing_input_reported_witness:
  "output_of (compute (ControlSystemSimulation ctrl_v)) ''Water Sprinkling'' = Inl MissingInput
   \<and> output_of (compute (set_input ''Soil Moisture'' 30 (ControlSystemSimulation ctrl_v)))
         ''Water Sprinkling'' = Inl MissingInput"
  using missing_input_reported [of "ControlSystemSimulation ctrl_v"]
    missing_input_reported [of "set_input ''Soil Moisture'' 30 (ControlSystemSimulation ctrl_v)"]
  by (simp add: sprinkle_ctrl_value)

section \<open>The test driver\<close>

lemma fires_program:
  "sprinkle_ctrl = Inr (sim_ctrl sim) \<Longrightarrow>
     fires c \<longleftrightarrow> is_ok (output_of (run_case sim c) ''Water Sprinkling'')"
  using output_of_program [of sim "fst c" "snd c"] by (simp add: fires_def)

text \<open>
  C11.  The run of the test driver completes: the setup succeeds, the loop goes through
  all ten test cases, leaves the simulation holding the last of them, and saves one
  figure per test case, to the paths numbered 0 to 9 in this order.
\<close>

theorem driver_completes:
  "\<exists>s. sprinkler = Inr s \<and> snd test_run = Inr (run_case s (60, 5))
     \<and> saved (fst test_run) = map screenshot_path [0..<10]"
  by (simp add: sprinkler_value test_run_result test_run_saved)

text \<open>
  C12.  The loop of the driver stops at the first test case for which no rule fires:
  it ends with the simulation of the last test case when every test case fires and with
  \<open>NoApplicableRule\<close> otherwise, and the figures it has saved are those of the test cases
  before the first that does not fire.
\<close>

theorem driver_stops_at_uncovered_case:
  assumes "sprinkle_ctrl = Inr (sim_ctrl sim)"
  shows "snd (run_cases i cs sim) =
      (if list_all fires cs then Inr (foldl run_case sim cs) else Inl NoApplicableRule)
    \<and> saved (fst (run_cases i cs sim)) = map screenshot_path [i..<i + length (takeWhile fires cs)]"
  using assms by (simp add: sim_ctrl_of_program run_cases_result run_cases_saved)

theorem driver_stops_at_uncovered_case_witness:
  "snd (run_cases 0 [(30, 35), (10, 5), (70, 20)] (ControlSystemSimulation ctrl_v))
     = Inl NoApplicableRule
   \<and> saved (fst (run_cases 0 [(30, 35), (10, 5), (70, 20)] (ControlSystemSimulation ctrl_v)))
     = [screenshot_path 0]"
  using driver_stops_at_uncovered_case [OF program_simulation, of 0 "[(30, 35), (10, 5), (70, 20)]"]
  by (simp add: fires_iff)

text \<open>
  C13.  The driver never holds more than one figure open beyond those that were open
  before, and closes every figure it opens: after the loop, whether it completes or
  stops on an error, as many figures are open as before it.
\<close>

theorem figures_closed:
  "peak n (fst (run_cases i cs sim)) \<le> Suc n \<and> open_figures n (fst (run_cases i cs sim)) = n"
  by (simp add: run_cases_peak run_cases_balanced)

text \<open>
  C14.  The bar chart of a test case draws every group of three bars with one height,
  the degree of the first term of the variable: the bars labelled Dry, Moist and Wet
  all have the degree of \<open>dry\<close> at the soil moisture reading, the bars labelled Cold,
  Warm and Hot the degree of \<open>cold\<close> at the temperature reading, and the bars labelled
  Low, Medium and High the degree of \<open>low\<close> at the computed level.
\<close>

theorem bars_show_first_term:
  "case_bars c y =
     Inr [PltBar [''Dry'', ''Moist'', ''Wet''] (degree (tri 0 0 50) (of_int (fst c))),
          PltBar [''Cold'', ''Warm'', ''Hot''] (degree (tri 0 0 20) (of_int (snd c))),
          PltBar [''Low'', ''Medium'', ''High''] (degree (tri 0 0 50) y)]"
  by (rule case_bars_value)

theorem bars_show_first_term_witness:
  "case_bars (70, 20) (145853 / 4097) =
     Inr [PltBar [''Dry'', ''Moist'', ''Wet''] 0, PltBar [''Cold'', ''Warm'', ''Hot''] 0,
          PltBar [''Low'', ''Medium'', ''High''] (58997 / 204850)]
   \<and> fuzzify soil_v 70 = [(''dry'', 0), (''moist'', 1 / 3), (''wet'', 2 / 5)]"
proof -
  have "fuzzify soil_v 70 = [(''dry'', 0), (''moist'', 1 / 3), (''wet'', 2 / 5)]"
    by (simp add: fuzzify_def soil_v_def degree_def)
  with bars_show_first_term [of "(70, 20)" "145853 / 4097"] show ?thesis
    by (simp add: degree_def)
qed

text \<open>
  C18.  Reading a term of the program off its sampled curve by interpolation gives
  the degree of the term at every crisp value, inside and outside the universe: the
  sampled curves that the plots and the library work with lose nothing.
\<close>

theorem sampled_terms_exact:
  assumes "sprinkle_ctrl = Inr cs" and "v \<in> set (cs_variables cs)"
    and "sample_term v n = Inr ys"
  shows "termDegree v n x = Inr (interp_membership (samples (v_universe v)) ys x)"
proof -
  from assms(3) obtain m where m: "term_of v n = Inr m"
    and ys: "ys = map (degree m) (samples (v_universe v))"
    by (auto simp: sample_term_def rbind_eq_Inr_iff)
  from assms(1,2) have v: "v = soil_v \<or> v = temp_v \<or> v = water_v"
    by (auto simp: sprinkle_ctrl_value)
  from m have mem: "(n, m) \<in> set (v_terms v)"
    by (auto simp: term_of_def split: option.splits dest: map_of_SomeD)
  from v wf_variables mem have "wf_universe (v_universe v)" and "wf_mf m"
    by (auto simp: wf_variable_def)
  moreover from v terms_on_grid mem have "on_grid (v_universe v) m"
    by (auto simp: list_all_iff)
  ultimately show ?thesis by (simp add: termDegree_def m ys interp_membership_degree)
qed

theorem sampled_terms_exact_witness:
  "sample_term soil_v ''moist'' = Inr (map (degree (tri 20 50 80)) (samples percent))
   \<and> termDegree soil_v ''moist'' (71 / 2) =
       Inr (interp_membership (samples percent) (map (degree (tri 20 50 80)) (samples percent)) (71 / 2))
   \<and> termDegree soil_v ''moist'' (71 / 2) = Inr (31 / 60)"
proof -
  have ys: "sample_term soil_v ''moist'' = Inr (map (degree (tri 20 50 80)) (samples percent))"
    by (simp add: sample_term_def)
  have "termDegree soil_v ''moist'' (71 / 2) = Inr (31 / 60)"
    by (simp add: termDegree_def degree_def)
  with sampled_terms_exact [OF sprinkle_ctrl_value _ ys, of "71 / 2"] ys show ?thesis by simp
qed

text \<open>
  C15.  No two figures of the driver are written to the same file: the paths of
  different test cases are different strings.
\<close>

theorem screenshot_paths_distinct:
  assumes "i \<noteq> j"
  shows "render (screenshot_path i) \<noteq> render (screenshot_path j)"
proof
  assume "render (screenshot_path i) = render (screenshot_path j)"
  then have "int i = int j" unfolding screenshot_path_def by (rule render_indexed_inj)
  with assms show False by simp
qed

theorem screenshot_paths_distinct_witness:
  "render (screenshot_path 0) = ''screenshots/output_0.png''
   \<and> render (screenshot_path 1) = ''screenshots/output_1.png''
   \<and> render (screenshot_path 0) \<noteq> render (screenshot_path 1)"
  using screenshot_paths_distinct [of 0 1] by (simp add: screenshot_path_def show_eval)

section \<open>The report\<close>

text \<open>
  C16.  The rule base documented in the report is the rule base of the control
  system: the conditions and actions of the five entries of the table are, in this
  order, the antecedents and consequents of the five rules.
\<close>

theorem documented_rules_match:
  "\<exists>cs. sprinkle_ctrl = Inr cs
     \<and> map describe_rule (cs_rules cs) = map (\<lambda>(n, c, a, e). (c, a)) rules_table"
  by (simp add: sprinkle_ctrl_value rules_table_describes)

text \<open>
  C17.  After a complete run of the driver the page of test results succeeds, leaves the
  simulation as the driver left it, and embeds exactly the figures the driver saved, in
  the order of the test cases, whatever other files exist.  (\<open>written\<close> gives the
  files a trace of the plotting library has written.)
\<close>

theorem report_embeds_saved_figures:
  "\<exists>s ops. snd test_run = Inr s
     \<and> results_page f (files \<union> written (fst test_run)) s = Inr (s, ops)
     \<and> images ops = saved (fst test_run)"
proof -
  let ?s = "run_case (ControlSystemSimulation ctrl_v) (60, 5)"
  let ?files = "files \<union> written (fst test_run)"
  have "is_ok (results_page f ?files ?s)" by (rule results_page_ok) simp
  then obtain s' ops where page: "results_page f ?files ?s = Inr (s', ops)"
    by (auto simp: is_ok_iff)
  from results_page_Inr [OF page]
  have s': "s' = foldl run_case ?s test_cases"
    and img: "images ops = filter (\<lambda>p. render p \<in> ?files) (map screenshot_path [0..<length test_cases])"
    by simp_all
  have "length test_cases = 10" by (simp add: test_cases_def)
  with img have "images ops = filter (\<lambda>p. render p \<in> ?files) (saved (fst test_run))"
    by (simp add: test_run_saved)
  then have "images ops = saved (fst test_run)" by (simp add: written_saved)
  moreover have "s' = ?s"
    unfolding s' by (subst foldl_run_case) (simp_all add: test_cases_def run_case_absorb)
  ultimately show ?thesis using page test_run_result by auto
qed

section \<open>The program as a whole\<close>

text \<open>
  C19.  Whatever files exist before and whatever names and date are given, a run of
  the program is not ended by an error, deletes no file, and leaves the directory of
  the figures, the three plots of the membership functions and the ten figures of the
  test cases.
\<close>

theorem script_completes:
  "crash (script files ms today) = None
   \<and> files \<union> insert ''screenshots'' (set mf_images \<union> output_images)
       \<subseteq> files_after (script files ms today)"
  by (auto simp: script_crash script_files files_before_report_def)

text \<open>
  C20.  The run writes the report exactly when the three screenshots that the report
  embeds and the two files of the font exist beforehand.  The program creates none of
  them; every other file the report needs is written by the run itself.  Without a
  file of the font the report is set in a built-in font, which cannot encode the
  names, the bullets and the dashes of its texts, so the fall-back never produces a
  report.
\<close>

theorem report_written_iff:
  "''Fuzzy_Logic_Report.pdf'' \<in> files_after (script files ms today) \<longleftrightarrow>
     ''Fuzzy_Logic_Report.pdf'' \<in> files \<or> (fst ` set screenshots \<subseteq> files \<and> font_files \<subseteq> files)"
  using report_not_written(1) by (auto simp: script_files files_before_report_def)

text \<open>
  C21.  When a screenshot is missing, the report is abandoned: the run prints, as its
  last line, the error for the first missing screenshot and leaves the files as they
  were before the report, with no document.
\<close>

theorem missing_screenshot_reported:
  assumes "\<not> fst ` set screenshots \<subseteq> files"
  shows "last (console (script files ms today)) =
      PrintedError ''Error generating PDF report: ''
        (FileNotFound (hd (filter (\<lambda>p. p \<notin> files) (map fst screenshots)))) []
    \<and> files_after (script files ms today) = files_before_report files"
  using assms by (simp add: script_console script_files)

theorem missing_screenshot_reported_witness:
  "last (console (script {} [] [])) =
      PrintedError ''Error generating PDF report: ''
        (FileNotFound ''Screenshot from 2025-03-23 14-12-50.png'') []
   \<and> ''Fuzzy_Logic_Report.pdf'' \<notin> files_after (script {} [] [])"
proof -
  have "\<not> fst ` set screenshots \<subseteq> {}" by (simp add: screenshots_def)
  from missing_screenshot_reported [OF this, of "[]" "[]"] report_not_written(1)
  show ?thesis by (simp add: screenshots_def files_before_report_def)
qed

text \<open>
  C22.  When the report is written (the screenshots and the files of the font exist),
  the line that announces it names a file that the run has not written: the document
  goes to \<^verbatim>\<open>Fuzzy_Logic_Report.pdf\<close>, the message says \<^verbatim>\<open>Fuzzy_Logic_Report V1.4.pdf\<close>; it
  is the only line the run prints.
\<close>

theorem success_message_names_other_file:
  assumes "fst ` set screenshots \<subseteq> files" and "font_files \<subseteq> files"
    and "''Fuzzy_Logic_Report V1.4.pdf'' \<notin> files"
  shows "console (script files ms today) =
      [Printed ''Enhanced report generated: Fuzzy_Logic_Report V1.4.pdf'']
    \<and> ''Fuzzy_Logic_Report.pdf'' \<in> files_after (script files ms today)
    \<and> ''Fuzzy_Logic_Report V1.4.pdf'' \<notin> files_after (script files ms today)"
proof -
  from assms(2) have "snd (snd (load_fonts files)) = []"
    by (simp add: load_fonts_quiet font_files_def)
  with assms report_not_written(2) show ?thesis
    by (auto simp: script_console script_files files_before_report_def)
qed

theorem success_message_names_other_file_witness:
  "console (script (fst ` set screenshots \<union> font_files) team_members ''March 23, 2025'') =
      [Printed ''Enhanced report generated: Fuzzy_Logic_Report V1.4.pdf'']
   \<and> ''Fuzzy_Logic_Report.pdf''
       \<in> files_after (script (fst ` set screenshots \<union> font_files) team_members ''March 23, 2025'')
   \<and> ''Fuzzy_Logic_Report V1.4.pdf''
       \<notin> files_after (script (fst ` set screenshots \<union> font_files) team_members ''March 23, 2025'')"
proof -
  have "''Fuzzy_Logic_Report V1.4.pdf'' \<notin> fst ` set screenshots \<union> font_files"
    by (simp add: screenshots_def font_files_def)
  from success_message_names_other_file [OF _ _ this] show ?thesis by simp
qed

text \<open>
  C23.  Each plot of a membership function leaves one figure open, the one the program
  opens before the variable draws into a figure of its own: three figures stay open
  during the loop over the test cases, at most four are open at once, and only the
  clean-up at the end of the run closes them.
\<close>

theorem figures_left_open:
  "peak 0 (plotted (script files ms today)) = 4
   \<and> open_figures 0 (plotted (script files ms today)) = 0
   \<and> (\<exists>ops. plotted (script files ms today) = ops @ cleanup \<and> open_figures 0 ops = 3)"
  by (simp add: script_plotted)

text \<open>
  C24.  When a font file is missing the report falls back to Arial for every text, and
  the calls of the report then set text with characters beyond Latin-1 (the bullets of
  the system description), which a built-in font cannot show.  The report adds nine
  pages, whatever the font.
\<close>

theorem fallback_font_text:
  assumes "report_body files ms today sim = Inr (sim', ops)"
    and "\<not> {''fonts/bookantiqua.ttf'', ''fonts/bookantiqua_bold.ttf''} \<subseteq> files"
  shows "fonts_used ops = {''Arial''} \<and> \<not> list_all latin1 (map render (texts ops))
    \<and> pages ops = 9"
proof -
  from report_body_texts [OF assms(1)] have "render [Lit system_description_text] \<in> render ` set (texts ops)"
    by (rule imageI)
  then have "system_description_text \<in> set (map render (texts ops))" by simp
  with system_description_not_latin1 have "\<not> list_all latin1 (map render (texts ops))"
    unfolding list_all_iff by blast
  with report_body_fonts [OF assms(1)] report_body_pages [OF assms(1)] assms(2) show ?thesis
    by (simp add: load_fonts_name)
qed

theorem fallback_font_text_witness:
  "\<exists>sim' ops. report_body (report_inputs) [] [] (ControlSystemSimulation ctrl_v) = Inr (sim', ops)
     \<and> fonts_used ops = {''Arial''} \<and> \<not> list_all latin1 (map render (texts ops))"
proof -
  have "is_ok (report_body report_inputs [] [] (ControlSystemSimulation ctrl_v))"
    by (simp add: report_body_ok_iff)
  then obtain sim' ops where
    body: "report_body report_inputs [] [] (ControlSystemSimulation ctrl_v) = Inr (sim', ops)"
    by (auto simp: is_ok_iff)
  have "\<not> {''fonts/bookantiqua.ttf'', ''fonts/bookantiqua_bold.ttf''} \<subseteq> report_inputs"
    by (simp add: report_inputs_def screenshots_def mf_images_def)
  from fallback_font_text [OF body this] body show ?thesis by blast
qed

text \<open>
  C25.  The thirteen figures that a run saves are known completely: the three plots
  hold what the variable drew and the title, the ten figures of the test cases hold
  the title with the computed level, the two axis labels and the three groups of bars.
  None of them has the size the program asked for, and the three figures that are open
  before the clean-up are the sized ones, each with an empty subplot.
\<close>

theorem figures_saved:
  "\<exists>ops. plotted (script files ms today) = ops @ cleanup
     \<and> stored (plt_run plt_init ops) = rev (plot_figures @ case_figures)
     \<and> stack (plt_run plt_init ops) = [sized_figure, sized_figure, sized_figure]
     \<and> list_all (\<lambda>pf. fig_size (snd pf) = None) (stored (plt_run plt_init ops))
     \<and> stack (plt_run plt_init (plotted (script files ms today))) = []"
proof -
  obtain ops where ops: "plotted (script files ms today) = ops @ cleanup"
    and run: "plt_run plt_init ops =
      \<lparr>stack = [sized_figure, sized_figure, sized_figure], stored = rev (plot_figures @ case_figures)\<rparr>"
    using script_figures by blast
  have "list_all (\<lambda>pf. fig_size (snd pf) = None) (rev (plot_figures @ case_figures))"
    using plot_figures_unsized unfolding list_all_iff set_rev .
  with run show ?thesis
    by (intro exI [of _ ops]) (simp add: ops cleanup_def)
qed

text \<open>
  C26.  The report states the levels that the figures show: the page of test results
  succeeds on any simulation of the program's control system, and the entry of each
  test case gives, to one decimal, the level that the title of its figure gives to
  two decimals.
\<close>

theorem report_levels_match_figures:
  assumes "sprinkle_ctrl = Inr (sim_ctrl sim)"
  shows "\<exists>sim' ops. results_page f files sim = Inr (sim', ops)
     \<and> texts ops = [Lit ''Test Results and Analysis''] #
          concat (map (\<lambda>(k, c). [[Lit ''Test Case '', IntField (int k + 1)], analysis c (level c)])
                    (enumerate 0 test_cases))
     \<and> titles (fst test_run) = map (\<lambda>c. case_title c (level c)) test_cases"
proof -
  from assms have ctrl: "sim_ctrl sim = ctrl_v" by (simp add: sim_ctrl_of_program)
  from results_page_ok [OF ctrl, of f files] obtain sim' ops where
    page: "results_page f files sim = Inr (sim', ops)"
    by (auto simp: is_ok_iff)
  have "entry_texts = (\<lambda>(k, c). [[Lit ''Test Case '', IntField (int k + 1)], analysis c (level c)])"
    by (rule ext) (simp add: entry_texts_def split_beta)
  with results_page_texts [OF ctrl page] page test_run_titles show ?thesis by simp
qed

theorem report_levels_match_figures_witness:
  "\<exists>sim' ops. results_page ''Arial'' {} (ControlSystemSimulation ctrl_v) = Inr (sim', ops)
     \<and> titles (fst test_run) ! 2 = case_title (10, 40) (3071 / 38)
     \<and> texts ops ! 6 = analysis (10, 40) (3071 / 38)"
proof -
  have "level (10, 40) = 3071 / 38" using crisp_10_40 by (simp add: level_def)
  with report_levels_match_figures [OF program_simulation, of "''Arial''" "{}"]
  show ?thesis by (auto simp: test_cases_def enumerate_simps)
qed

text \<open>
  C27.  In the analysis of a test case the label of the soil moisture and the
  reasoning use different bounds for the moderate band: they agree on whether the soil
  is moderate at every reading but 60, where the label says Wet and the reasoning
  asks for moderate watering.  The last test case has this reading.
\<close>

theorem moderate_band_mismatch:
  "((reasoning s t = ''Moderate watering to maintain moisture'' \<longleftrightarrow> soil_label s = ''Moderate'')
      \<longleftrightarrow> s \<noteq> 60)
   \<and> last test_cases = (60, 5) \<and> soil_label 60 = ''Wet''
   \<and> reasoning 60 5 = ''Moderate watering to maintain moisture''"
  by (simp add: moderate_boundary) (simp add: test_cases_def soil_label_def reasoning_def)

section \<open>The fall-back of the font\<close>

text \<open>
  C28.  When the screenshots exist and a file of the font is missing, the run of the
  program prints two lines and writes no report: the error for the missing file of
  the font, and the error of the report for the first text that the built-in font
  cannot encode, which is the first name on the title page.
\<close>

theorem fallback_writes_no_report:
  assumes "fst ` set screenshots \<subseteq> files" and "\<not> font_files \<subseteq> files"
  shows "\<exists>missing\<in>font_files - files.
      console (script files team_members today) =
        [PrintedError ''Error loading fonts: '' (FileNotFound missing) ''. Using Arial instead.'',
         PrintedError ''Error generating PDF report: '' (NotEncodable (hd team_members)) []]
    \<and> files_after (script files team_members today) = files_before_report files"
proof -
  from load_fonts_missing [OF assms(2)] obtain missing where
    missing: "missing \<in> font_files - files" and
    fonts: "snd (snd (load_fonts files)) =
      [PrintedError ''Error loading fonts: '' (FileNotFound missing) ''. Using Arial instead.'']"
    by blast
  from assms have "console (script files team_members today) =
      [PrintedError ''Error loading fonts: '' (FileNotFound missing) ''. Using Arial instead.'',
       PrintedError ''Error generating PDF report: '' (NotEncodable (hd team_members)) []]"
    by (simp add: script_console fonts first_unencodable_team)
  moreover from assms have "files_after (script files team_members today) = files_before_report files"
    by (simp add: script_files)
  ultimately show ?thesis using missing by blast
qed

theorem fallback_writes_no_report_witness:
  "\<exists>missing\<in>font_files.
     console (script (fst ` set screenshots) team_members ''March 23, 2025'') =
       [PrintedError ''Error loading fonts: '' (FileNotFound missing) ''. Using Arial instead.'',
        PrintedError ''Error generating PDF report: ''
          (NotEncodable (''WAINAINA, NIXON MBURU '' @ en_dash @ '' 665507'')) []]
     \<and> ''Fuzzy_Logic_Report.pdf''
         \<notin> files_after (script (fst ` set screenshots) team_members ''March 23, 2025'')"
proof -
  have "\<not> font_files \<subseteq> fst ` set screenshots"
    by (simp add: font_files_def screenshots_def)
  from fallback_writes_no_report [OF subset_refl this, of "''March 23, 2025''"]
  obtain missing where "missing \<in> font_files"
    and "console (script (fst ` set screenshots) team_members ''March 23, 2025'') =
       [PrintedError ''Error loading fonts: '' (FileNotFound missing) ''. Using Arial instead.'',
        PrintedError ''Error generating PDF report: '' (NotEncodable (hd team_members)) []]"
    and "files_after (script (fst ` set screenshots) team_members ''March 23, 2025'') =
       files_before_report (fst ` set screenshots)"
    by blast
  moreover have "''Fuzzy_Logic_Report.pdf'' \<notin> files_before_report (fst ` set screenshots)"
    using report_not_written(1) by (simp add: files_before_report_def screenshots_def)
  moreover have "hd team_members = ''WAINAINA, NIXON MBURU '' @ en_dash @ '' 665507''"
    by (simp add: team_members_def)
  ultimately show ?thesis by auto
qed

section \<open>Dry soil in heat\<close>

text \<open>
  C29.  Dry soil in heat is watered strongly: for a soil moisture of at most 20 and a
  temperature of at least 40 only the rule for \<open>high\<close> fires, and the water sprinkling
  level is a number above 75.
\<close>

theorem dry_heat_high:
  assumes "sprinkle_ctrl = Inr (sim_ctrl sim)"
    and "0 \<le> s" and "s \<le> 20" and "40 \<le> t" and "t \<le> 50"
  shows "holds (output_of (run_case sim (s, t)) ''Water Sprinkling'') (\<lambda>y. 75 < y)"
  using assms crisp_dry_hot [of "of_int s" "of_int t"] by (simp add: output_of_program)

theorem dry_heat_high_witness:
  "(20, 45) \<in> set test_cases
   \<and> holds (output_of (run_case (ControlSystemSimulation ctrl_v) (20, 45)) ''Water Sprinkling'')
       (\<lambda>y. 75 < y)"
  using dry_heat_high [OF program_simulation, of 20 45] by (simp add: test_cases_def)

section \<open>Monotonicity\<close>

text \<open>
  C30.  Among wet soils the wetter one never gets more water: for soil moistures
  between 80 and 100 the water sprinkling level does not rise with the soil moisture,
  whatever the two temperatures.
\<close>

theorem wetter_soil_less_water:
  assumes "sprinkle_ctrl = Inr (sim_ctrl sim)" and "sprinkle_ctrl = Inr (sim_ctrl sim')"
    and "80 \<le> s" and "s \<le> s'" and "s' \<le> 100"
  shows "\<exists>y y'. output_of (run_case sim (s, t)) ''Water Sprinkling'' = Inr y
    \<and> output_of (run_case sim' (s', t')) ''Water Sprinkling'' = Inr y' \<and> y' \<le> y"
  using assms crisp_wet_antimono [of "of_int s" "of_int s'" "of_int t" "of_int t'"]
  by (simp add: output_of_program)

theorem wetter_soil_less_water_witness:
  "\<exists>y y'. output_of (run_case (ControlSystemSimulation ctrl_v) (80, 30)) ''Water Sprinkling'' = Inr y
    \<and> output_of (run_case (ControlSystemSimulation ctrl_v) (90, 15)) ''Water Sprinkling'' = Inr y'
    \<and> y' \<le> y"
  using wetter_soil_less_water [OF program_simulation program_simulation, of 80 90 30 15]
  by simp

text \<open>
  C31.  In heat the drier and hotter reading never gets less water: for soil moistures
  below 50 and temperatures between 40 and 50 the water sprinkling level does not fall
  when the soil moisture falls and the temperature rises.
\<close>

theorem drier_hotter_more_water:
  assumes "sprinkle_ctrl = Inr (sim_ctrl sim)" and "sprinkle_ctrl = Inr (sim_ctrl sim')"
    and "0 \<le> s'" and "s' \<le> s" and "s < 50" and "40 \<le> t" and "t \<le> t'" and "t' \<le> 50"
  shows "\<exists>y y'. output_of (run_case sim (s, t)) ''Water Sprinkling'' = Inr y
    \<and> output_of (run_case sim' (s', t')) ''Water Sprinkling'' = Inr y' \<and> y \<le> y'"
  using assms crisp_heat_mono [of "of_int s'" "of_int s" "of_int t" "of_int t'"]
  by (simp add: output_of_program)

theorem drier_hotter_more_water_witness:
  "\<exists>y y'. output_of (run_case (ControlSystemSimulation ctrl_v) (20, 45)) ''Water Sprinkling'' = Inr y
    \<and> output_of (run_case (ControlSystemSimulation ctrl_v) (10, 50)) ''Water Sprinkling'' = Inr y'
    \<and> y \<le> y'"
  using drier_hotter_more_water [OF program_simulation program_simulation, of 10 20 45 50]
  by simp

text \<open>
  C32.  In cold weather the controller is not monotone in the soil moisture: at a
  temperature of 5 a soil moisture of 70 gets more water than a soil moisture of 60,
  the reading of the last test case.
\<close>

theorem cold_not_monotone:
  assumes "sprinkle_ctrl = Inr (sim_ctrl sim)"
  shows "(60, 5) \<in> set test_cases
    \<and> output_of (run_case sim (60, 5)) ''Water Sprinkling'' = Inr (3539 / 199)
    \<and> output_of (run_case sim (70, 5)) ''Water Sprinkling'' = Inr (1633 / 81)
    \<and> (3539 / 199 :: real) < 1633 / 81"
  using crisp_60_5 crisp_70_5 by (simp add: output_of_program [OF assms] test_cases_def)

theorem cold_not_monotone_witness:
  "output_of (run_case (ControlSystemSimulation ctrl_v) (70, 5)) ''Water Sprinkling'' = Inr (1633 / 81)"
  using cold_not_monotone [OF program_simulation] by simp

end
